(* ===== verification/Prelude.thy ===== *)
theory Prelude
  imports Main "HOL-Library.Multiset" "HOL-Library.Code_Target_Nat"
begin

text \<open>
  Shared vocabulary of the JSON Quest development: the fragments of the
  JavaScript runtime that the sources call (\<open>String.prototype.replace\<close> with a
  string pattern, \<open>String(n)\<close> and \<open>Number(s)\<close> on integers,
  \<open>Array.prototype.indexOf\<close>, the destructuring swap \<open>[a[i], a[j]] = [a[j], a[i]]\<close>,
  the \<open>x || d\<close> default idiom), the collection \<open>quest_simps\<close> of evaluation rules
  that the component theories extend, and generic lemmas on lists that the
  component proofs share.
\<close>

named_theorems quest_simps "evaluation rules of the JSON Quest model"

subsection \<open>\<open>String.prototype.replace\<close> with a string pattern\<close>

text \<open>
  With a string (not a regular expression) as pattern, JavaScript's \<open>replace\<close>
  substitutes the first occurrence only; an absent pattern leaves the string as
  it is.
\<close>

fun js_replace :: "string \<Rightarrow> string \<Rightarrow> string \<Rightarrow> string" where
  "js_replace pat rep [] = (if pat = [] then rep else [])"
| "js_replace pat rep (c # cs) =
     (if take (length pat) (c # cs) = pat then rep @ drop (length pat) (c # cs)
      else c # js_replace pat rep cs)"

subsection \<open>\<open>String(n)\<close> and \<open>Number(s)\<close> on integers\<close>

definition digit_chars :: string where
  "digit_chars = ''0123456789''"

fun nat_digits :: "nat \<Rightarrow> string" where
  "nat_digits n =
     (if n < 10 then [digit_chars ! n]
      else nat_digits (n div 10) @ [digit_chars ! (n mod 10)])"

declare nat_digits.simps [simp del]

definition js_string_of_int :: "int \<Rightarrow> string" where
  "js_string_of_int i =
     (if i < 0 then CHR ''-'' # nat_digits (nat (- i)) else nat_digits (nat i))"

definition is_digit :: "char \<Rightarrow> bool" where
  "is_digit c \<longleftrightarrow> c \<in> set digit_chars"

text \<open>
  \<open>digits_val\<close> reads a string of decimal digits, most significant first.
  \<open>js_number_of_string\<close> is \<open>Number(s)\<close> on the fragment of the ECMAScript
  StringToNumber grammar that the sources reach: the empty string is \<open>0\<close>, an
  optional minus sign followed by decimal digits is that integer, and every other
  string (a name made of letters, for instance) is \<open>NaN\<close>, written \<open>None\<close>.
\<close>

definition digits_val :: "string \<Rightarrow> nat" where
  "digits_val s = foldl (\<lambda>acc c. 10 * acc + (of_char c - 48)) (0::nat) s"

definition js_number_of_string :: "string \<Rightarrow> int option" where
  "js_number_of_string s =
     (if s = [] then Some 0
      else if list_all is_digit s then Some (int (digits_val s))
      else case s of
        c # ds \<Rightarrow> if c = CHR ''-'' \<and> ds \<noteq> [] \<and> list_all is_digit ds
                  then Some (- int (digits_val ds)) else None
      | [] \<Rightarrow> None)"

definition js_isNaN_Number :: "string \<Rightarrow> bool" where
  "js_isNaN_Number s \<longleftrightarrow> js_number_of_string s = None"

text \<open>\<open>String(Number(s) + k)\<close>: \<open>NaN + k\<close> is \<open>NaN\<close>, printed as \<open>"NaN"\<close>.\<close>

definition js_string_add :: "string \<Rightarrow> int \<Rightarrow> string" where
  "js_string_add s k =
     (case js_number_of_string s of Some v \<Rightarrow> js_string_of_int (v + k) | None \<Rightarrow> ''NaN'')"

subsection \<open>\<open>Array.prototype.indexOf\<close> and the destructuring swap\<close>

fun js_index_of :: "'a list \<Rightarrow> 'a \<Rightarrow> int" where
  "js_index_of [] x = -1"
| "js_index_of (y # ys) x = (if y = x then 0 else (let k = js_index_of ys x in if k < 0 then -1 else k + 1))"

definition js_swap :: "'a list \<Rightarrow> nat \<Rightarrow> nat \<Rightarrow> 'a list" where
  "js_swap xs i j = xs[i := xs ! j, j := xs ! i]"

text \<open>
  \<open>s.replace(/pat/g, rep)\<close> with a literal pattern: every occurrence, left to right,
  without rescanning the replacement. The sources only use non-empty patterns.
\<close>

function js_replace_all :: "string \<Rightarrow> string \<Rightarrow> string \<Rightarrow> string" where
  "js_replace_all pat rep [] = []"
| "js_replace_all pat rep (c # cs) =
     (if pat \<noteq> [] \<and> take (length pat) (c # cs) = pat
      then rep @ js_replace_all pat rep (drop (length pat) (c # cs))
      else c # js_replace_all pat rep cs)"
  by pat_completeness auto
termination
  by (relation "measure (\<lambda>(_, _, s). length s)") auto

text \<open>\<open>Array.prototype.join(sep)\<close> on an array of strings.\<close>

fun js_join :: "string \<Rightarrow> string list \<Rightarrow> string" where
  "js_join sep [] = []"
| "js_join sep [x] = x"
| "js_join sep (x # y # zs) = x @ sep @ js_join sep (y # zs)"

text \<open>\<open>is_substring s pat\<close>: \<open>pat\<close> occurs in \<open>s\<close> (\<open>s.includes(pat)\<close>).\<close>

fun is_substring :: "string \<Rightarrow> string \<Rightarrow> bool" where
  "is_substring [] pat = (pat = [])"
| "is_substring (c # cs) pat = (take (length pat) (c # cs) = pat \<or> is_substring cs pat)"

subsection \<open>The \<open>x || d\<close> idiom on numeric fields\<close>

text \<open>
  \<open>x || d\<close> yields \<open>d\<close> when \<open>x\<close> is falsy; for a numeric field that is a missing
  key (\<open>None\<close>) or the number \<open>0\<close>.
\<close>

definition js_or :: "int option \<Rightarrow> int \<Rightarrow> int" where
  "js_or x d = (case x of None \<Rightarrow> d | Some v \<Rightarrow> if v = 0 then d else v)"

text \<open>The remainder operator \<open>a % b\<close> on integers: the result has the sign of \<open>a\<close>.\<close>

definition js_rem :: "int \<Rightarrow> int \<Rightarrow> int" where
  "js_rem a b = sgn a * (\<bar>a\<bar> mod \<bar>b\<bar>)"

subsection \<open>Lemmas\<close>

lemma nat_digits_ne [simp]: "nat_digits n \<noteq> []"
  by (subst nat_digits.simps) simp

lemma digit_chars_is_digit [simp]: "d < 10 \<Longrightarrow> is_digit (digit_chars ! d)"
  unfolding is_digit_def by (rule nth_mem) (simp add: digit_chars_def)

lemma digit_chars_value [simp]: "d < 10 \<Longrightarrow> of_char (digit_chars ! d) - 48 = (d::nat)"
proof -
  assume "d < 10"
  then have "of_char (''0123456789'' ! d) = 48 + d"
    by (simp add: less_Suc_eq numeral_eq_Suc) (elim disjE; simp)
  then show ?thesis by (simp add: digit_chars_def)
qed

lemma minus_not_digit [simp]: "\<not> is_digit (CHR ''-'')"
  by (simp add: is_digit_def digit_chars_def)

lemma nat_digits_all_digits: "list_all is_digit (nat_digits n)"
proof (induction n rule: nat_digits.induct)
  case (1 n)
  then show ?case by (subst nat_digits.simps) auto
qed

lemma digits_val_snoc: "digits_val (s @ [c]) = 10 * digits_val s + (of_char c - 48)"
  by (simp add: digits_val_def)

lemma digits_val_nat_digits [simp]: "digits_val (nat_digits n) = n"
proof (induction n rule: nat_digits.induct)
  case (1 n)
  show ?case
  proof (cases "n < 10")
    case True
    then show ?thesis by (subst nat_digits.simps) (simp add: digits_val_def)
  next
    case False
    with "1.IH" show ?thesis by (subst nat_digits.simps) (simp add: digits_val_snoc)
  qed
qed

text \<open>\<open>Number(String(i)) = i\<close>: the round trip that the generator relies on when it
  writes \<open>String(Number(actualAnswer) + 5)\<close>.\<close>

lemma js_number_of_string_of_int [simp]:
  "js_number_of_string (js_string_of_int i) = Some i"
  using nat_digits_all_digits [of "nat i"] nat_digits_all_digits [of "nat (- i)"]
  by (auto simp: js_string_of_int_def js_number_of_string_def)

lemma js_string_of_int_inj [simp]: "js_string_of_int i = js_string_of_int j \<longleftrightarrow> i = j"
  by (metis js_number_of_string_of_int option.inject)

lemma js_isNaN_string_of_int [simp]: "\<not> js_isNaN_Number (js_string_of_int i)"
  by (simp add: js_isNaN_Number_def)

lemma js_string_add_int [simp]:
  "js_string_add (js_string_of_int i) k = js_string_of_int (i + k)"
  by (simp add: js_string_add_def)

lemma js_index_of_nonneg: "x \<in> set xs \<Longrightarrow> 0 \<le> js_index_of xs x"
  by (induction xs) (auto simp: Let_def)

lemma js_index_of_bound: "js_index_of xs x < int (length xs)"
  by (induction xs) (auto simp: Let_def)

lemma js_index_of_nth:
  "x \<in> set xs \<Longrightarrow> xs ! nat (js_index_of xs x) = x"
proof (induction xs)
  case Nil
  then show ?case by simp
next
  case (Cons y ys)
  show ?case
  proof (cases "y = x")
    case False
    with Cons have "x \<in> set ys" by simp
    with Cons.IH js_index_of_nonneg [of x ys] False show ?thesis
      by (simp add: Let_def nat_add_distrib)
  qed simp
qed

lemma js_index_of_distinct:
  "distinct xs \<Longrightarrow> i < length xs \<Longrightarrow> js_index_of xs (xs ! i) = int i"
proof (induction xs arbitrary: i)
  case (Cons y ys)
  then show ?case
    by (cases i) (auto simp: Let_def nth_mem)
qed simp

lemma length_js_swap [simp]: "length (js_swap xs i j) = length xs"
  by (simp add: js_swap_def)

lemma mset_js_swap [simp]:
  "i < length xs \<Longrightarrow> j < length xs \<Longrightarrow> mset (js_swap xs i j) = mset xs"
  by (simp add: js_swap_def mset_swap)

lemma js_or_Some [simp]: "js_or (Some v) d = (if v = 0 then d else v)"
  and js_or_None [simp]: "js_or None d = d"
  by (simp_all add: js_or_def)

lemma distinct_map_filter_partition:
  "distinct (map f (filter P xs @ filter (\<lambda>x. \<not> P x) xs)) = distinct (map f xs)"
  by (induction xs) auto

lemma distinct_map_filter_partition_tl:
  "distinct (map f xs) \<Longrightarrow> distinct (map f (filter P xs @ filter (\<lambda>x. \<not> P x) (tl xs)))"
  using distinct_map_filter_partition [of f P "tl xs"] by (cases xs) auto

lemma div_bounds_100:
  "0 \<le> (x::int) \<Longrightarrow> 0 \<le> x div 100 \<and> x div 100 * 100 \<le> x \<and> x < x div 100 * 100 + 100"
  using minus_mod_eq_div_mult [of x 100] pos_mod_bound [of 100 x] pos_mod_sign [of 100 x] by auto

lemma js_rem_nonneg [simp]: "0 \<le> a \<Longrightarrow> 0 < b \<Longrightarrow> js_rem a b = a mod b"
  by (cases "a = 0") (simp_all add: js_rem_def)

text \<open>A prefix in which the pattern cannot start is kept by both kinds of replace.\<close>

lemma js_replace_prefix:
  assumes "pat \<noteq> []" and "hd pat \<notin> set e"
  shows "js_replace pat rep (e @ r) = e @ js_replace pat rep r"
proof -
  obtain p ps where pat: "pat = p # ps" using assms(1) by (cases pat) auto
  show ?thesis using assms(2) unfolding pat by (induction e) auto
qed

lemma js_replace_all_prefix:
  assumes "pat \<noteq> []" and "hd pat \<notin> set e"
  shows "js_replace_all pat rep (e @ r) = e @ js_replace_all pat rep r"
proof -
  obtain p ps where pat: "pat = p # ps" using assms(1) by (cases pat) auto
  show ?thesis using assms(2) unfolding pat by (induction e) auto
qed

lemma js_replace_all_head:
  "pat \<noteq> [] \<Longrightarrow> js_replace_all pat rep (pat @ r) = rep @ js_replace_all pat rep r"
  by (cases pat) simp_all

lemma nat_mod_offset: "0 \<le> k \<Longrightarrow> nat ((int r + k) mod 10) = (r + nat k) mod 10"
  by (simp add: nat_mod_distrib nat_add_distrib)

lemma distinct_rotation:
  assumes "distinct xs" "length xs = 10" "r < 10"
  shows "distinct [xs ! r, xs ! ((r + 1) mod 10), xs ! ((r + 2) mod 10), xs ! ((r + 3) mod 10)]"
  using assms by (simp add: nth_eq_iff_index_eq mod_if) arith

lemma list_all_upto_at: "list_all P [a..b] \<Longrightarrow> a \<le> j \<Longrightarrow> j \<le> b \<Longrightarrow> P j"
  by (simp add: list_all_iff)

end
