(* ===== verification/LevelData.thy ===== *)
theory LevelData
  imports Prelude
begin

text \<open>
  The data of the level generator (src/project/data/gameLevels.ts, lines 1--68):
  the \<open>GameLevel\<close> interface as the record \<open>game_level\<close>, the character variant
  \<open>'wizard' | 'spy'\<close> as the datatype \<open>character\<close>, and the static tables of
  \<open>GameLevelGenerator\<close> (\<open>templates\<close>, \<open>names\<close>, \<open>properties\<close>, \<open>collections\<close>,
  \<open>adjectives\<close>) as constants. Strings are byte strings: the emoji and the arrow of
  the templates are written as their UTF-8 bytes. JavaScript strings are UTF-16,
  but every pattern the generator replaces is ASCII, and an ASCII pattern matches
  the same places in either encoding.
\<close>

datatype character = Wizard | Spy

definition character_name :: "character \<Rightarrow> string" where
  "character_name ch = (case ch of Wizard \<Rightarrow> ''wizard'' | Spy \<Rightarrow> ''spy'')"

record game_level =
  level_id :: nat
  title :: string
  character :: character
  story :: string
  jsonData :: string
  question :: string
  answers :: "string list"
  correctAnswer :: int
  hint :: string
  explanation :: string
  xpReward :: nat

record template =
  t_title :: string
  t_story :: string
  t_hint :: string
  t_explanation :: string

text \<open>U+1F9D9 U+200D U+2642 U+FE0F (mage, male sign), U+1F575 U+FE0F U+200D U+2640 U+FE0F
  (detective, female sign) and U+2192 (rightwards arrow), in UTF-8.\<close>

definition wizard_emoji :: string where
  "wizard_emoji = [CHR 0xF0, CHR 0x9F, CHR 0xA7, CHR 0x99, CHR 0xE2, CHR 0x80, CHR 0x8D,
     CHR 0xE2, CHR 0x99, CHR 0x82, CHR 0xEF, CHR 0xB8, CHR 0x8F]"

definition spy_emoji :: string where
  "spy_emoji = [CHR 0xF0, CHR 0x9F, CHR 0x95, CHR 0xB5, CHR 0xEF, CHR 0xB8, CHR 0x8F,
     CHR 0xE2, CHR 0x80, CHR 0x8D, CHR 0xE2, CHR 0x99, CHR 0x80, CHR 0xEF, CHR 0xB8, CHR 0x8F]"

definition character_emoji :: "character \<Rightarrow> string" where
  "character_emoji ch = (case ch of Wizard \<Rightarrow> wizard_emoji | Spy \<Rightarrow> spy_emoji)"

definition arrow :: string where
  "arrow = [CHR 0xE2, CHR 0x86, CHR 0x92]"

text \<open>The line break inside template literals.\<close>

definition nl :: string where
  "nl = [CHR 0x0A]"

definition templates :: "character \<Rightarrow> template list" where
  "templates ch = (case ch of
     Wizard \<Rightarrow>
      [\<lparr>t_title = ''The Wizard's {property}'',
        t_story = wizard_emoji @ '' A {adjective} wizard needs help reading their magical profile to find their {property}.'',
        t_hint = ''Look for the '{property}' key in the JSON data'',
        t_explanation = ''In JSON, you find values by looking at the key. The key '{property}' has the value '{answer}'.''\<rparr>,
       \<lparr>t_title = ''Magic Spell {property}'',
        t_story = wizard_emoji @ '' The wizard needs to cast a spell! Find out their {property} level.'',
        t_hint = ''Look inside the nested object for '{property}'' @ [CHR 0x27],
        t_explanation = ''This JSON has nested objects. Navigate through the structure to find the value.''\<rparr>,
       \<lparr>t_title = ''Wizard's {collection}'',
        t_story = wizard_emoji @ '' The wizard keeps magical {collection}. Count how many they have.'',
        t_hint = ''Count the items inside the square brackets [ ]'',
        t_explanation = ''Arrays are shown with square brackets. Count each item in the list.''\<rparr>]
   | Spy \<Rightarrow>
      [\<lparr>t_title = ''Agent's Secret {property}'',
        t_story = spy_emoji @ '' Agent {name} needs to verify their {property} from the secret file.'',
        t_hint = ''Numbers in JSON don't have quotes around them'',
        t_explanation = ''The key '{property}' contains the value without quotes because it's a {type}.''\<rparr>,
       \<lparr>t_title = ''Mission {property}'',
        t_story = spy_emoji @ '' Agent {name} has a classified mission. Find the {property}!'',
        t_hint = ''Look inside the 'mission' object for the '{property}' key'',
        t_explanation = ''In nested objects, you go deeper: mission '' @ arrow @ '' {property} '' @ arrow @ '' '{answer}'.''\<rparr>,
       \<lparr>t_title = ''Spy Network {collection}'',
        t_story = spy_emoji @ '' The spy network is sharing intel. How many {collection} are there?'',
        t_hint = ''Go into the nested object and count the array items'',
        t_explanation = ''Navigate to the nested structure and count the items in the array.''\<rparr>])"

definition names :: "character \<Rightarrow> string list" where
  "names ch = (case ch of
     Wizard \<Rightarrow> [''Merlin'', ''Gandalf'', ''Alakazam'', ''Zephyr'', ''Luna'', ''Mystic'', ''Sage'',
               ''Arcane'', ''Stellar'', ''Phoenix'']
   | Spy \<Rightarrow> [''Shadow'', ''Nova'', ''Cipher'', ''Ghost'', ''Phantom'', ''Whisper'', ''Apex'',
            ''Viper'', ''Storm'', ''Raven''])"

definition properties :: "string list" where
  "properties = [''name'', ''age'', ''level'', ''power'', ''rank'', ''status'', ''code'', ''mission'',
     ''target'', ''security'']"

definition collections :: "string list" where
  "collections = [''spells'', ''potions'', ''gadgets'', ''weapons'', ''allies'', ''missions'',
     ''artifacts'', ''scrolls'', ''crystals'', ''tools'']"

definition adjectives :: "string list" where
  "adjectives = [''young'', ''ancient'', ''powerful'', ''mysterious'', ''legendary'', ''skilled'',
     ''wise'', ''brave'', ''cunning'', ''elite'']"

text \<open>The level invariant of the spec (section 3): four answers, an index into them;
  the answers of every level, fixed or generated, are moreover pairwise distinct, so
  that the index determines the answer.\<close>

definition wf_level :: "game_level \<Rightarrow> bool" where
  "wf_level l \<longleftrightarrow> length (answers l) = 4 \<and> distinct (answers l) \<and>
     0 \<le> correctAnswer l \<and> correctAnswer l < 4"

lemma length_templates [simp]: "length (templates ch) = 3"
  by (cases ch) (simp_all add: templates_def)

text \<open>Every template story opens with the emoji of its character.\<close>

lemma template_story_prefix:
  "t \<in> set (templates ch) \<Longrightarrow> \<exists>r. t_story t = character_emoji ch @ r"
  by (cases ch) (auto simp: templates_def character_emoji_def)

lemma brace_not_in_emoji [simp]: "CHR ''{'' \<notin> set (character_emoji ch)"
  by (cases ch) (simp_all add: character_emoji_def wizard_emoji_def spy_emoji_def)

lemma length_names [simp]: "length (names ch) = 10"
  by (cases ch) (simp_all add: names_def)

lemma distinct_names [simp]: "distinct (names ch)"
  by (cases ch) (simp_all add: names_def)

lemma length_pools [simp]:
  "length properties = 10" "length collections = 10" "length adjectives = 10"
  by (simp_all add: properties_def collections_def adjectives_def)

lemma distinct_properties [simp]: "distinct properties"
  by (simp add: properties_def)

lemmas pool_defs [quest_simps] = names_def properties_def collections_def adjectives_def

end
