(* ===== verification/FixedLevels.thy ===== *)
theory FixedLevels
  imports LevelData
begin

text \<open>
  The ten hand-written levels \<open>ORIGINAL_LEVELS\<close> (src/project/data/gameLevels.ts,
  lines 225--418), one constant per level, transcribed field by field: the template
  literals of \<open>jsonData\<close> with their line breaks (\<open>nl\<close>), the emoji and arrows
  as their UTF-8 bytes (\<open>wizard_emoji\<close>, \<open>spy_emoji\<close>, \<open>arrow\<close>). The lemmas check
  the level invariant on every fixed level and that each explanation names the correct
  answer and no other.
\<close>

text \<open>Level 1 (lines 226--242).\<close>

definition level_1 :: game_level where
  \<open>level_1 =
     \<lparr>level_id = 1,
      title = ''The Wizard's Name'',
      character = Wizard,
      story = wizard_emoji @ '' A young wizard has lost his spell book! Help him by reading his magical profile to find his name.'',
      jsonData = ''{'' @ nl @ ''  "name": "Merlin",'' @ nl @ ''  "age": 150,'' @ nl @ ''  "magic": "strong"'' @ nl @ ''}'',
      question = ''What is the wizard's name?'',
      answers = [''Gandalf'', ''Merlin'', ''Harry'', ''Dumbledore''],
      correctAnswer = 1,
      hint = ''Look for the 'name' key in the JSON data'',
      explanation = ''In JSON, you find values by looking at the key. The key 'name' has the value 'Merlin'.'',
      xpReward = 10\<rparr>\<close>

text \<open>Level 2 (lines 243--259).\<close>

definition level_2 :: game_level where
  \<open>level_2 =
     \<lparr>level_id = 2,
      title = ''Spy's Secret Age'',
      character = Spy,
      story = spy_emoji @ '' Agent Shadow needs to verify her identity. Can you find her age from the secret file?'',
      jsonData = ''{'' @ nl @ ''  "codename": "Shadow",'' @ nl @ ''  "age": 25,'' @ nl @ ''  "mission": "top-secret"'' @ nl @ ''}'',
      question = ''How old is Agent Shadow?'',
      answers = [''30'', ''25'', ''35'', ''28''],
      correctAnswer = 1,
      hint = ''Numbers in JSON don't have quotes around them'',
      explanation = ''The key 'age' contains the number 25 (without quotes because it's a number, not text).'',
      xpReward = 15\<rparr>\<close>

text \<open>Level 3 (lines 260--279).\<close>

definition level_3 :: game_level where
  \<open>level_3 =
     \<lparr>level_id = 3,
      title = ''Magic Spell Power'',
      character = Wizard,
      story = wizard_emoji @ '' The wizard needs to cast a spell! Find out how powerful his magic is.'',
      jsonData = ''{'' @ nl @ ''  "wizard": "Alakazam",'' @ nl @ ''  "powers": {'' @ nl @ ''    "fire": 8,'' @ nl @ ''    "water": 6,'' @ nl @ ''    "earth": 9'' @ nl @ ''  }'' @ nl @ ''}'',
      question = ''What is the wizard's earth magic power level?'',
      answers = [''6'', ''8'', ''9'', ''7''],
      correctAnswer = 2,
      hint = ''Look inside the 'powers' object for 'earth'' @ [CHR 0x27],
      explanation = ''This JSON has nested objects. Inside 'powers', the 'earth' key has value 9.'',
      xpReward = 20\<rparr>\<close>

text \<open>Level 4 (lines 280--296).\<close>

definition level_4 :: game_level where
  \<open>level_4 =
     \<lparr>level_id = 4,
      title = ''Spy's Equipment List'',
      character = Spy,
      story = spy_emoji @ '' Agent Nova is preparing for a mission. How many gadgets does she have?'',
      jsonData = ''{'' @ nl @ ''  "agent": "Nova",'' @ nl @ ''  "gadgets": ["watch", "phone", "glasses"],'' @ nl @ ''  "rank": "senior"'' @ nl @ ''}'',
      question = ''How many gadgets does Agent Nova have?'',
      answers = [''2'', ''3'', ''4'', ''1''],
      correctAnswer = 1,
      hint = ''Count the items inside the square brackets [ ]'',
      explanation = ''Arrays are shown with square brackets. Count each item: 'watch', 'phone', 'glasses' = 3 items.'',
      xpReward = 25\<rparr>\<close>

text \<open>Level 5 (lines 297--314).\<close>

definition level_5 :: game_level where
  \<open>level_5 =
     \<lparr>level_id = 5,
      title = ''Wizard's Favorite Spell'',
      character = Wizard,
      story = wizard_emoji @ '' Master Zephyr has many spells. Which one is his favorite?'',
      jsonData = ''{'' @ nl @ ''  "name": "Zephyr",'' @ nl @ ''  "spells": ["fireball", "heal", "shield"],'' @ nl @ ''  "favorite": "heal",'' @ nl @ ''  "level": 45'' @ nl @ ''}'',
      question = ''What is Master Zephyr's favorite spell?'',
      answers = [''fireball'', ''heal'', ''shield'', ''lightning''],
      correctAnswer = 1,
      hint = ''Look for the 'favorite' key - it's separate from the spells array'',
      explanation = ''Even though 'heal' is in the spells array, the 'favorite' key specifically tells us it's his favorite.'',
      xpReward = 30\<rparr>\<close>

text \<open>Level 6 (lines 315--334).\<close>

definition level_6 :: game_level where
  \<open>level_6 =
     \<lparr>level_id = 6,
      title = ''Secret Mission Target'',
      character = Spy,
      story = spy_emoji @ '' Agent Cipher has a classified mission. Find the target location!'',
      jsonData = ''{'' @ nl @ ''  "mission": {'' @ nl @ ''    "code": "Operation JSON",'' @ nl @ ''    "target": "Tokyo",'' @ nl @ ''    "status": "active"'' @ nl @ ''  },'' @ nl @ ''  "agent": "Cipher"'' @ nl @ ''}'',
      question = ''Where is the mission target located?'',
      answers = [''London'', ''Tokyo'', ''Paris'', ''New York''],
      correctAnswer = 1,
      hint = ''Look inside the 'mission' object for the 'target' key'',
      explanation = ''In nested objects, you go deeper: mission '' @ arrow @ '' target '' @ arrow @ '' 'Tokyo'.'',
      xpReward = 35\<rparr>\<close>

text \<open>Level 7 (lines 335--355).\<close>

definition level_7 :: game_level where
  \<open>level_7 =
     \<lparr>level_id = 7,
      title = ''Magical Creatures Count'',
      character = Wizard,
      story = wizard_emoji @ '' Wizard Luna keeps magical pets. How many different types does she have?'',
      jsonData = ''{'' @ nl @ ''  "wizard": "Luna",'' @ nl @ ''  "pets": {'' @ nl @ ''    "dragons": 2,'' @ nl @ ''    "unicorns": 1,'' @ nl @ ''    "phoenixes": 3'' @ nl @ ''  },'' @ nl @ ''  "castle": "Moonstone"'' @ nl @ ''}'',
      question = ''How many phoenixes does Luna have?'',
      answers = [''1'', ''2'', ''3'', ''4''],
      correctAnswer = 2,
      hint = ''Look in the 'pets' object for 'phoenixes'' @ [CHR 0x27],
      explanation = ''Navigate to pets '' @ arrow @ '' phoenixes '' @ arrow @ '' 3. Luna has 3 phoenixes.'',
      xpReward = 40\<rparr>\<close>

text \<open>Level 8 (lines 356--375).\<close>

definition level_8 :: game_level where
  \<open>level_8 =
     \<lparr>level_id = 8,
      title = ''Spy Network Communication'',
      character = Spy,
      story = spy_emoji @ '' The spy network is sharing intel. What's the security level of the data?'',
      jsonData = ''{'' @ nl @ ''  "network": "Alpha",'' @ nl @ ''  "data": {'' @ nl @ ''    "classified": true,'' @ nl @ ''    "security": "maximum",'' @ nl @ ''    "agents": ["Ghost", "Phantom", "Whisper"]'' @ nl @ ''  }'' @ nl @ ''}'',
      question = ''What is the security level of the classified data?'',
      answers = [''minimum'', ''medium'', ''maximum'', ''standard''],
      correctAnswer = 2,
      hint = ''Go into the 'data' object and find 'security'' @ [CHR 0x27],
      explanation = ''Inside the 'data' object, the 'security' key has the value 'maximum'.'',
      xpReward = 45\<rparr>\<close>

text \<open>Level 9 (lines 376--395).\<close>

definition level_9 :: game_level where
  \<open>level_9 =
     \<lparr>level_id = 9,
      title = ''Ancient Spell Components'',
      character = Wizard,
      story = wizard_emoji @ '' The Grand Wizard needs ingredients for an ancient spell. What's the first ingredient?'',
      jsonData = ''{'' @ nl @ ''  "spell": "Ancient Power",'' @ nl @ ''  "ingredients": ['' @ nl @ ''    {"name": "Dragon Scale", "amount": 3},'' @ nl @ ''    {"name": "Moon Dust", "amount": 1},'' @ nl @ ''    {"name": "Crystal Shard", "amount": 5}'' @ nl @ ''  ]'' @ nl @ ''}'',
      question = ''What is the name of the first ingredient?'',
      answers = [''Moon Dust'', ''Dragon Scale'', ''Crystal Shard'', ''Star Essence''],
      correctAnswer = 1,
      hint = ''Arrays start at position 0. Look at the first object's 'name'' @ [CHR 0x27],
      explanation = ''In the ingredients array, the first item [0] is an object with name: 'Dragon Scale'.'',
      xpReward = 50\<rparr>\<close>

text \<open>Level 10 (lines 396--417).\<close>

definition level_10 :: game_level where
  \<open>level_10 =
     \<lparr>level_id = 10,
      title = ''Master Spy's Final Mission'',
      character = Spy,
      story = spy_emoji @ '' The legendary Agent Apex has one final mission. Is it currently active?'',
      jsonData = ''{'' @ nl @ ''  "agent": {'' @ nl @ ''    "name": "Apex",'' @ nl @ ''    "rank": "Legend",'' @ nl @ ''    "missions": ['' @ nl @ ''      {"title": "Operation Dawn", "active": false},'' @ nl @ ''      {"title": "Final Protocol", "active": true}'' @ nl @ ''    ]'' @ nl @ ''  }'' @ nl @ ''}'',
      question = ''Is the 'Final Protocol' mission active?'',
      answers = [''false'', ''true'', ''pending'', ''unknown''],
      correctAnswer = 1,
      hint = ''Look in the missions array for 'Final Protocol' and check its 'active' value'',
      explanation = ''In the missions array, the second mission 'Final Protocol' has active: true.'',
      xpReward = 100\<rparr>\<close>

definition ORIGINAL_LEVELS :: "game_level list" where
  "ORIGINAL_LEVELS = [level_1, level_2, level_3, level_4, level_5, level_6, level_7, level_8, level_9,
     level_10]"

subsection \<open>Properties of the fixed levels\<close>

lemma length_ORIGINAL_LEVELS [simp]: "length ORIGINAL_LEVELS = 10"
  by (simp add: ORIGINAL_LEVELS_def)

lemmas fixed_level_defs [quest_simps] = level_1_def level_2_def level_3_def level_4_def level_5_def
  level_6_def level_7_def level_8_def level_9_def level_10_def

text \<open>The fixed levels satisfy the level invariant and carry the ids 1 to 10 in order.\<close>

lemma original_levels_wf:
  "list_all wf_level ORIGINAL_LEVELS \<and> map level_id ORIGINAL_LEVELS = [1..<11]"
  by (simp add: ORIGINAL_LEVELS_def wf_level_def fixed_level_defs upt_rec)

lemma original_story_prefix:
  assumes "i < 10"
  shows "\<exists>r. story (ORIGINAL_LEVELS ! i) = character_emoji (character (ORIGINAL_LEVELS ! i)) @ r"
proof -
  have "list_all (\<lambda>l. take (length (character_emoji (character l))) (story l) = character_emoji (character l))
          ORIGINAL_LEVELS"
    by (simp add: ORIGINAL_LEVELS_def fixed_level_defs character_emoji_def)
  then have "take (length (character_emoji (character (ORIGINAL_LEVELS ! i)))) (story (ORIGINAL_LEVELS ! i)) =
             character_emoji (character (ORIGINAL_LEVELS ! i))"
    using assms by (simp add: list_all_length)
  then show ?thesis by (metis append_take_drop_id)
qed


end
