(* ===== verification/JsNumber.thy ===== *)
theory JsNumber
  imports Prelude Complex_Main
begin

text \<open>
  JavaScript numbers where the sources compute with fractions: IEEE-754 binary64 values
  in the normal range, as pairs \<open>(m, s)\<close> of integers denoting \<open>m / 2^s\<close>
  (\<open>js_number\<close>, read by \<open>js_real\<close>). Every operation rounds its exact result to
  nearest, ties to even, as the standard requires: \<open>fl_pos n d\<close> is the binary64 value
  nearest to \<open>n / d\<close>, with a 53-bit mantissa \<open>rne_div (n * 2^s) d\<close> and the exponent
  \<open>fl_exponent\<close> found from the bit lengths of \<open>n\<close> and \<open>d\<close>. On top of it:
  \<open>a / b\<close> on integers (\<open>js_divide_int\<close>), \<open>x * k\<close> for an integer \<open>k\<close>
  (\<open>js_times_int\<close>), \<open>Math.round\<close> (\<open>js_math_round\<close>, halves towards
  \<open>+\<infinity>\<close>) and \<open>Math.floor\<close> (\<open>js_math_floor\<close>). Overflow, subnormals and division by zero do not arise where the
  sources use these operations and are not modelled.

  The lemmas prove the rounding correct to half a unit in the last place
  (\<open>fl_pos_error\<close>, relative error at most \<open>2^-53\<close>), carry the bound to the
  operations, and use it to compute \<open>Math.round(lc / 1000 * 100)\<close> for every
  \<open>lc\<close> in \<open>[0, 1000]\<close> (\<open>percent_of_1000\<close>): the error bound settles the 901
  inputs whose exact value \<open>lc / 10\<close> is not a half, and evaluation settles the 100
  that are. The same bound gives \<open>Math.floor(r / q * k) = r * k div q\<close> wherever \<open>q\<close>
  does not divide \<open>r * k\<close> (\<open>floor_fraction_times\<close>, used by theory \<open>Lcg\<close>) and
  \<open>Math.floor(a / d) = a div d\<close> for \<open>|a| \<le> 2^52\<close> (\<open>js_floor_divide\<close>), with exact
  division where the quotient is an integer (\<open>js_divide_int_exact\<close>).
\<close>

text \<open>The number of binary digits of \<open>n\<close>.\<close>

fun bitlen :: "nat \<Rightarrow> nat" where
  "bitlen n = (if n = 0 then 0 else Suc (bitlen (n div 2)))"

declare bitlen.simps [simp del]

text \<open>\<open>n / d\<close> rounded to the nearest integer, ties to even.\<close>

definition rne_div :: "nat \<Rightarrow> nat \<Rightarrow> nat" where
  "rne_div n d =
     (let q = n div d; r = n mod d in if d < 2 * r \<or> (2 * r = d \<and> odd q) then q + 1 else q)"

text \<open>\<open>\<lfloor>n / d * 2^s\<rfloor>\<close>, and the exponent that puts \<open>n / d * 2^s\<close> in
  \<open>[2^52, 2^53)\<close>.\<close>

definition fl_scaled :: "nat \<Rightarrow> nat \<Rightarrow> int \<Rightarrow> nat" where
  "fl_scaled n d s = (if 0 \<le> s then n * 2 ^ nat s div d else n div (d * 2 ^ nat (- s)))"

definition fl_exponent :: "nat \<Rightarrow> nat \<Rightarrow> int" where
  "fl_exponent n d =
     (let s0 = 53 - (int (bitlen n) - int (bitlen d)) in if 2 ^ 53 \<le> fl_scaled n d s0 then s0 - 1 else s0)"

text \<open>The binary64 value nearest to \<open>n / d\<close>, for \<open>0 < n\<close> and \<open>0 < d\<close>.\<close>

definition fl_pos :: "nat \<Rightarrow> nat \<Rightarrow> nat \<times> int" where
  "fl_pos n d =
     (let s = fl_exponent n d
      in (if 0 \<le> s then rne_div (n * 2 ^ nat s) d else rne_div n (d * 2 ^ nat (- s)), s))"

type_synonym js_number = "int \<times> int"

definition js_real :: "js_number \<Rightarrow> real" where
  "js_real x = (case x of (m, s) \<Rightarrow> real_of_int m / 2 powr s)"

text \<open>\<open>a / d\<close> for an integer \<open>a\<close> and a positive integer \<open>d\<close>, rounded to binary64.\<close>

definition js_of_ratio :: "int \<Rightarrow> nat \<Rightarrow> js_number" where
  "js_of_ratio a d =
     (if a = 0 then (0, 0) else (case fl_pos (nat \<bar>a\<bar>) d of (m, s) \<Rightarrow> (sgn a * int m, s)))"

text \<open>\<open>a / b\<close> on two integers, \<open>b \<noteq> 0\<close>.\<close>

definition js_divide_int :: "int \<Rightarrow> int \<Rightarrow> js_number" where
  "js_divide_int a b = js_of_ratio (sgn b * a) (nat \<bar>b\<bar>)"

text \<open>\<open>x * k\<close> for a number \<open>x\<close> and an integer \<open>k\<close>.\<close>

definition js_times_int :: "js_number \<Rightarrow> int \<Rightarrow> js_number" where
  "js_times_int x k =
     (case x of (m, s) \<Rightarrow>
        if 0 \<le> s then js_of_ratio (m * k) (2 ^ nat s) else js_of_ratio (m * k * 2 ^ nat (- s)) 1)"

text \<open>\<open>Math.floor(x)\<close>.\<close>

definition js_math_floor :: "js_number \<Rightarrow> int" where
  "js_math_floor x = (case x of (m, s) \<Rightarrow> if 0 \<le> s then m div 2 ^ nat s else m * 2 ^ nat (- s))"

text \<open>\<open>Math.round(x)\<close>: the integer nearest \<open>x\<close>, halves rounded up.\<close>

definition js_math_round :: "js_number \<Rightarrow> int" where
  "js_math_round x =
     (case x of (m, s) \<Rightarrow> if 0 \<le> s then (2 * m + 2 ^ nat s) div (2 * 2 ^ nat s) else m * 2 ^ nat (- s))"

subsection \<open>Correct rounding\<close>

lemma bitlen_bounds: "0 < n \<Longrightarrow> 2 ^ (bitlen n - 1) \<le> n \<and> n < 2 ^ bitlen n"
proof (induction n rule: bitlen.induct)
  case (1 n)
  show ?case
  proof (cases "n = 1")
    case True
    then show ?thesis by (simp add: bitlen.simps)
  next
    case False
    with "1.prems" have "0 < n div 2" by simp
    with "1.IH" "1.prems" have ih: "2 ^ (bitlen (n div 2) - 1) \<le> n div 2" "n div 2 < 2 ^ bitlen (n div 2)"
      by auto
    have b: "bitlen n = Suc (bitlen (n div 2))" using "1.prems" by (simp add: bitlen.simps)
    have "0 < bitlen (n div 2)" using \<open>0 < n div 2\<close> by (simp add: bitlen.simps)
    then have e: "(2::nat) ^ (bitlen n - 1) = 2 * 2 ^ (bitlen (n div 2) - 1)" "(2::nat) ^ bitlen n = 2 * 2 ^ bitlen (n div 2)"
      using b by ((cases "bitlen (n div 2)"); simp)+
    have "2 * (n div 2) \<le> n" "n \<le> 2 * (n div 2) + 1" by auto
    with ih e show ?thesis by linarith
  qed
qed

lemma rne_div_error:
  assumes "0 < d"
  shows "\<bar>real (rne_div n d) - real n / real d\<bar> \<le> 1 / 2"
proof -
  define q r where "q = n div d" and "r = n mod d"
  have "n = q * d + r" by (simp add: q_def r_def)
  then have "real n = real q * real d + real r" by (metis of_nat_add of_nat_mult)
  then have n: "real n / real d = real q + real r / real d"
    using assms by (simp add: field_simps)
  have rd: "r < d" using assms by (simp add: r_def)
  show ?thesis
  proof (cases "d < 2 * r \<or> (2 * r = d \<and> odd q)")
    case True
    then have "rne_div n d = q + 1" by (simp add: rne_div_def q_def r_def Let_def)
    moreover have "real d \<le> 2 * real r" using True by auto
    ultimately show ?thesis using n rd assms by (simp add: field_simps abs_le_iff)
  next
    case False
    then have "rne_div n d = q" by (simp add: rne_div_def q_def r_def Let_def)
    moreover have "2 * real r \<le> real d" using False by auto
    ultimately show ?thesis using n assms by (simp add: field_simps abs_le_iff)
  qed
qed

lemma fl_scaled_floor:
  assumes "0 < d"
  shows "real (fl_scaled n d s) = of_int \<lfloor>real n / real d * 2 powr s\<rfloor>"
proof (cases "0 \<le> s")
  case True
  then have p: "2 powr s = real (2 ^ nat s)" by (simp add: powr_realpow [symmetric])
  have "\<lfloor>real (n * 2 ^ nat s) / real d\<rfloor> = int (n * 2 ^ nat s div d)"
    by (rule floor_divide_of_nat_eq)
  then show ?thesis using True p by (simp add: fl_scaled_def)
next
  case False
  then have p: "2 powr s = 1 / real (2 ^ nat (- s))"
    by (simp add: powr_realpow [symmetric] powr_minus_divide [symmetric])
  have "\<lfloor>real n / real (d * 2 ^ nat (- s))\<rfloor> = int (n div (d * 2 ^ nat (- s)))"
    by (rule floor_divide_of_nat_eq)
  then show ?thesis using False p by (simp add: fl_scaled_def)
qed

lemma bitlen_pos: "0 < n \<Longrightarrow> 0 < bitlen n"
  by (simp add: bitlen.simps)

lemma bitlen_powr:
  assumes "0 < n"
  shows "2 powr (real (bitlen n) - 1) \<le> real n \<and> real n < 2 powr real (bitlen n)"
proof -
  have b: "2 ^ (bitlen n - 1) \<le> n" "n < 2 ^ bitlen n" using bitlen_bounds [OF assms] by auto
  have "2 powr (real (bitlen n) - 1) = real ((2::nat) ^ (bitlen n - 1))"
    using bitlen_pos [OF assms] by (simp add: powr_realpow [symmetric] of_nat_diff)
  moreover have "2 powr real (bitlen n) = real ((2::nat) ^ bitlen n)"
    by (simp add: powr_realpow [symmetric])
  ultimately show ?thesis using b by (metis of_nat_le_iff of_nat_less_iff)
qed

lemma fl_exponent_bounds:
  assumes n: "0 < n" and d: "0 < d"
  shows "2 powr 52 * real d \<le> real n * 2 powr fl_exponent n d \<and>
         real n * 2 powr fl_exponent n d < 2 powr 53 * real d"
proof -
  define s0 where "s0 = 53 - (int (bitlen n) - int (bitlen d))"
  have bn: "2 powr (real (bitlen n) - 1) \<le> real n" "real n < 2 powr real (bitlen n)"
    using bitlen_powr [OF n] by auto
  have bd: "2 powr (real (bitlen d) - 1) \<le> real d" "real d < 2 powr real (bitlen d)"
    using bitlen_powr [OF d] by auto
  have lo: "2 powr 52 * real d < real n * 2 powr s0"
  proof -
    have "2 powr 52 * real d < 2 powr 52 * 2 powr real (bitlen d)" using bd by simp
    also have "\<dots> = 2 powr (real (bitlen n) - 1) * 2 powr s0"
    proof -
      have "52 + real (bitlen d) = (real (bitlen n) - 1) + real_of_int s0" by (simp add: s0_def)
      then show ?thesis by (simp only: powr_add [symmetric])
    qed
    also have "\<dots> \<le> real n * 2 powr s0" using bn by simp
    finally show ?thesis .
  qed
  have hi: "real n * 2 powr s0 < 2 powr 54 * real d"
  proof -
    have "real n * 2 powr s0 < 2 powr real (bitlen n) * 2 powr s0" using bn by simp
    also have "\<dots> = 2 powr 54 * 2 powr (real (bitlen d) - 1)"
    proof -
      have "real (bitlen n) + real_of_int s0 = 54 + (real (bitlen d) - 1)" by (simp add: s0_def)
      then show ?thesis by (simp only: powr_add [symmetric])
    qed
    also have "\<dots> \<le> 2 powr 54 * real d" using bd by simp
    finally show ?thesis .
  qed
  have dpos: "0 < real d" using d by simp
  have sc: "(2 ^ 53 \<le> fl_scaled n d s0) \<longleftrightarrow> 2 powr 53 * real d \<le> real n * 2 powr s0"
  proof -
    have "(2 ^ 53 \<le> fl_scaled n d s0) \<longleftrightarrow> (2::real) ^ 53 \<le> real (fl_scaled n d s0)"
      by (metis of_nat_le_iff of_nat_numeral of_nat_power)
    also have "\<dots> \<longleftrightarrow> (2::real) ^ 53 \<le> of_int \<lfloor>real n / real d * 2 powr s0\<rfloor>"
      by (simp add: fl_scaled_floor [OF d])
    also have "\<dots> \<longleftrightarrow> (2::real) ^ 53 \<le> real n / real d * 2 powr s0"
      by (metis floor_of_int le_floor_iff of_int_le_iff of_int_numeral of_int_power)
    also have "\<dots> \<longleftrightarrow> 2 powr 53 * real d \<le> real n * 2 powr s0"
      using dpos by (simp add: powr_realpow [symmetric] field_simps)
    finally show ?thesis .
  qed
  show ?thesis
  proof (cases "2 ^ 53 \<le> fl_scaled n d s0")
    case True
    then have e: "fl_exponent n d = s0 - 1" by (simp add: fl_exponent_def s0_def Let_def)
    have x: "real n * 2 powr fl_exponent n d = real n * 2 powr s0 / 2"
      using e by (simp add: powr_diff)
    have "2 powr 53 * real d \<le> real n * 2 powr s0" using True sc by simp
    then show ?thesis using hi unfolding x by simp
  next
    case False
    then have e: "fl_exponent n d = s0" by (simp add: fl_exponent_def s0_def Let_def)
    show ?thesis using False sc lo e by simp
  qed
qed

lemma fl_pos_mantissa:
  assumes "0 < d" and "fl_pos n d = (m, s)"
  shows "\<bar>real m - real n * 2 powr s / real d\<bar> \<le> 1 / 2" and "s = fl_exponent n d"
proof -
  show s: "s = fl_exponent n d" using assms(2) by (simp add: fl_pos_def Let_def)
  show "\<bar>real m - real n * 2 powr s / real d\<bar> \<le> 1 / 2"
  proof (cases "0 \<le> s")
    case True
    then have m: "m = rne_div (n * 2 ^ nat s) d" using assms(2) s by (simp add: fl_pos_def Let_def)
    have "2 powr s = real (2 ^ nat s)" using True by (simp add: powr_realpow [symmetric])
    then show ?thesis using rne_div_error [OF assms(1), of "n * 2 ^ nat s"] m by simp
  next
    case False
    then have m: "m = rne_div n (d * 2 ^ nat (- s))" using assms(2) s by (simp add: fl_pos_def Let_def)
    have "2 powr s = 1 / real (2 ^ nat (- s))" using False
      by (simp add: powr_realpow [symmetric] powr_minus_divide [symmetric])
    moreover have "0 < d * 2 ^ nat (- s)" using assms(1) by simp
    ultimately show ?thesis using rne_div_error [of "d * 2 ^ nat (- s)" n] m by (simp add: mult.commute)
  qed
qed

text \<open>The rounding is correct to half a unit in the last place: relative error at most
  \<open>2^-53\<close>.\<close>

lemma fl_pos_error:
  assumes n: "0 < n" and d: "0 < d" and f: "fl_pos n d = (m, s)"
  shows "\<bar>real m / 2 powr s - real n / real d\<bar> \<le> real n / real d / 2 powr 53"
proof -
  have mm: "\<bar>real m - real n * 2 powr s / real d\<bar> \<le> 1 / 2" and s: "s = fl_exponent n d"
    using fl_pos_mantissa [OF d f] by auto
  have b: "2 powr 52 * real d \<le> real n * 2 powr s" using fl_exponent_bounds [OF n d] s by simp
  have P: "0 < (2::real) powr s" by simp
  have e: "real m / 2 powr s - real n / real d = (real m - real n * 2 powr s / real d) / 2 powr s"
    using d P by (simp add: field_simps)
  have "\<bar>real m / 2 powr s - real n / real d\<bar> \<le> (1 / 2) / 2 powr s"
    unfolding e abs_divide abs_of_pos [OF P] using mm P by (intro divide_right_mono) auto
  also have "\<dots> \<le> real n / real d / 2 powr 53"
  proof -
    have "2 powr 52 \<le> real n * 2 powr s / real d" using b d by (simp add: field_simps)
    then have "2 powr 52 / 2 powr s \<le> (real n * 2 powr s / real d) / 2 powr s"
      using P by (intro divide_right_mono) auto
    also have "\<dots> = real n / real d" using P by simp
    finally have h: "2 powr 52 / 2 powr s \<le> real n / real d" .
    have eq: "(1 / 2) / 2 powr s = (2 powr 52 / 2 powr s) / (2::real) powr 53"
      by (simp add: field_simps)
    show ?thesis unfolding eq using h by (intro divide_right_mono) auto
  qed
  finally show ?thesis .
qed

subsection \<open>The operations\<close>

lemma js_of_ratio_error:
  assumes d: "0 < d"
  shows "\<bar>js_real (js_of_ratio a d) - real_of_int a / real d\<bar> \<le> \<bar>real_of_int a\<bar> / real d / 2 powr 53"
proof (cases "a = 0")
  case True
  then show ?thesis by (simp add: js_of_ratio_def js_real_def)
next
  case False
  obtain m s where f: "fl_pos (nat \<bar>a\<bar>) d = (m, s)" by fastforce
  have n: "0 < nat \<bar>a\<bar>" using False by simp
  have e: "\<bar>real m / 2 powr s - real (nat \<bar>a\<bar>) / real d\<bar> \<le> real (nat \<bar>a\<bar>) / real d / 2 powr 53"
    by (rule fl_pos_error [OF n d f])
  have r: "real (nat \<bar>a\<bar>) = \<bar>real_of_int a\<bar>" by simp
  have v: "js_real (js_of_ratio a d) = real_of_int (sgn a) * (real m / 2 powr s)"
    using False f by (simp add: js_of_ratio_def js_real_def)
  have q: "real_of_int a / real d = real_of_int (sgn a) * (\<bar>real_of_int a\<bar> / real d)"
    by (cases "0 < a") (simp_all add: abs_if)
  have "\<bar>js_real (js_of_ratio a d) - real_of_int a / real d\<bar> =
        \<bar>real m / 2 powr s - \<bar>real_of_int a\<bar> / real d\<bar>"
    unfolding v q right_diff_distrib [symmetric] abs_mult using False by (simp add: sgn_if)
  then show ?thesis using e r by simp
qed

lemma js_divide_int_error:
  assumes "b \<noteq> 0"
  shows "\<bar>js_real (js_divide_int a b) - real_of_int a / real_of_int b\<bar> \<le>
         \<bar>real_of_int a / real_of_int b\<bar> / 2 powr 53"
proof -
  have d: "0 < nat \<bar>b\<bar>" using assms by simp
  have h1: "real_of_int (sgn b * a) / real (nat \<bar>b\<bar>) = real_of_int a / real_of_int b"
    using assms by (cases "0 < b") (simp_all add: abs_if)
  then have h2: "\<bar>real_of_int (sgn b * a)\<bar> / real (nat \<bar>b\<bar>) = \<bar>real_of_int a / real_of_int b\<bar>"
    by (metis abs_divide abs_of_nat)
  show ?thesis unfolding js_divide_int_def
    using js_of_ratio_error [OF d, of "sgn b * a"] unfolding h1 h2 .
qed

lemma js_times_int_error:
  "\<bar>js_real (js_times_int x k) - js_real x * real_of_int k\<bar> \<le> \<bar>js_real x * real_of_int k\<bar> / 2 powr 53"
proof -
  obtain m s where x: "x = (m, s)" by fastforce
  show ?thesis
  proof (cases "0 \<le> s")
    case True
    have d: "0 < (2::nat) ^ nat s" by simp
    have "real ((2::nat) ^ nat s) = 2 powr s" using True by (simp add: powr_realpow [symmetric])
    then have h1: "real_of_int (m * k) / real ((2::nat) ^ nat s) = js_real x * real_of_int k"
      by (simp add: x js_real_def)
    then have h2: "\<bar>real_of_int (m * k)\<bar> / real ((2::nat) ^ nat s) = \<bar>js_real x * real_of_int k\<bar>"
      by (metis abs_divide abs_of_nat)
    have "js_times_int x k = js_of_ratio (m * k) (2 ^ nat s)" using True x by (simp add: js_times_int_def)
    then show ?thesis using js_of_ratio_error [OF d, of "m * k"] unfolding h1 h2 by simp
  next
    case False
    have d: "0 < (1::nat)" by simp
    have "2 powr s = 1 / real ((2::nat) ^ nat (- s))" using False
      by (simp add: powr_realpow [symmetric] powr_minus_divide [symmetric])
    then have h1: "real_of_int (m * k * 2 ^ nat (- s)) / real (1::nat) = js_real x * real_of_int k"
      by (simp add: x js_real_def)
    then have h2: "\<bar>real_of_int (m * k * 2 ^ nat (- s))\<bar> / real (1::nat) = \<bar>js_real x * real_of_int k\<bar>"
      by (metis abs_divide abs_of_nat)
    have "js_times_int x k = js_of_ratio (m * k * 2 ^ nat (- s)) 1" using False x by (simp add: js_times_int_def)
    then show ?thesis using js_of_ratio_error [OF d, of "m * k * 2 ^ nat (- s)"] unfolding h1 h2 by simp
  qed
qed

lemma js_math_round_floor: "js_math_round x = \<lfloor>js_real x + 1 / 2\<rfloor>"
proof -
  obtain m s where x: "x = (m, s)" by fastforce
  show ?thesis
  proof (cases "0 \<le> s")
    case True
    have p: "2 powr s = real_of_int (2 ^ nat s)" using True by (simp add: powr_realpow [symmetric])
    have "real_of_int m / 2 powr s + 1 / 2 = real_of_int (2 * m + 2 ^ nat s) / real_of_int (2 * 2 ^ nat s)"
      unfolding p by (simp add: field_simps)
    moreover have "\<lfloor>real_of_int (2 * m + 2 ^ nat s) / real_of_int (2 * 2 ^ nat s)\<rfloor> =
                   (2 * m + 2 ^ nat s) div (2 * 2 ^ nat s)"
      by (rule floor_divide_of_int_eq)
    ultimately show ?thesis using True x by (simp add: js_math_round_def js_real_def)
  next
    case False
    have p: "2 powr s = 1 / real_of_int (2 ^ nat (- s))" using False
      by (simp add: powr_realpow [symmetric] powr_minus_divide [symmetric])
    have "real_of_int m / 2 powr s + 1 / 2 = real_of_int (m * 2 ^ nat (- s)) + 1 / 2"
      unfolding p by simp
    moreover have "\<lfloor>real_of_int (m * 2 ^ nat (- s)) + 1 / 2\<rfloor> = m * 2 ^ nat (- s)"
      by (rule floor_unique) simp_all
    ultimately show ?thesis using False x by (simp add: js_math_round_def js_real_def)
  qed
qed

lemma js_math_floor_floor: "js_math_floor x = \<lfloor>js_real x\<rfloor>"
proof -
  obtain m s where x: "x = (m, s)" by fastforce
  show ?thesis
  proof (cases "0 \<le> s")
    case True
    have p: "2 powr s = real_of_int (2 ^ nat s)" using True by (simp add: powr_realpow [symmetric])
    have "\<lfloor>real_of_int m / real_of_int (2 ^ nat s)\<rfloor> = m div 2 ^ nat s"
      by (rule floor_divide_of_int_eq)
    then show ?thesis using True x p by (simp add: js_math_floor_def js_real_def)
  next
    case False
    have p: "2 powr s = 1 / real_of_int (2 ^ nat (- s))" using False
      by (simp add: powr_realpow [symmetric] powr_minus_divide [symmetric])
    have "real_of_int m / 2 powr s = real_of_int (m * 2 ^ nat (- s))" unfolding p by simp
    moreover have "\<lfloor>real_of_int (m * 2 ^ nat (- s))\<rfloor> = m * 2 ^ nat (- s)" by (rule floor_of_int)
    ultimately show ?thesis using False x by (simp add: js_math_floor_def js_real_def)
  qed
qed

text \<open>\<open>Math.floor(r / q * k)\<close> for \<open>0 \<le> r < q\<close> and \<open>0 < k \<le> 80\<close> is the exact
  quotient \<open>r * k div q\<close> whenever \<open>q\<close> does not divide \<open>r * k\<close>, for every \<open>q\<close> up to
  \<open>2^30\<close>: the two roundings move the product by less than \<open>1 / (2 q)\<close>.\<close>

lemma floor_fraction_times:
  assumes r: "0 \<le> r" "r < q" and q: "q \<le> 2 ^ 30" and k: "0 < k" "k \<le> 80"
    and nd: "(r * k) mod q \<noteq> 0"
  shows "js_math_floor (js_times_int (js_divide_int r q) k) = r * k div q"
proof -
  define x where "x = js_real (js_divide_int r q)"
  define y where "y = js_real (js_times_int (js_divide_int r q) k)"
  define f where "f = real_of_int r / real_of_int q"
  define e :: real where "e = 1 / 2 powr 53"
  have q0: "0 < q" using r by simp
  have e: "0 \<le> e" "e \<le> 1 / 2 ^ 50" by (simp_all add: e_def)
  have f: "0 \<le> f" "f \<le> 1" using r q0 by (simp_all add: f_def)
  have "\<bar>x - f\<bar> \<le> \<bar>f\<bar> / 2 powr 53"
    unfolding x_def f_def using js_divide_int_error [of q r] q0 by simp
  also have "\<dots> \<le> e" unfolding e_def using f by (simp add: divide_right_mono)
  finally have ex: "\<bar>x - f\<bar> \<le> e" .
  have "\<bar>x\<bar> \<le> \<bar>f\<bar> + \<bar>x - f\<bar>" by (metis abs_triangle_ineq add.commute diff_add_cancel)
  then have xb: "\<bar>x\<bar> \<le> 2" using ex e f by simp
  have kb: "0 < real_of_int k" "real_of_int k \<le> 80" using k by simp_all
  have "\<bar>y - x * real_of_int k\<bar> \<le> \<bar>x * real_of_int k\<bar> / 2 powr 53"
    unfolding x_def y_def by (rule js_times_int_error)
  also have "\<dots> = \<bar>x\<bar> * real_of_int k * e" using kb by (simp add: e_def abs_mult)
  also have "\<dots> \<le> 160 * e"
  proof -
    have "\<bar>x\<bar> * real_of_int k \<le> 2 * 80" using xb kb by (intro mult_mono) simp_all
    then show ?thesis using e by (simp add: mult_right_mono)
  qed
  finally have ey: "\<bar>y - x * real_of_int k\<bar> \<le> 160 * e" .
  have "\<bar>x * real_of_int k - f * real_of_int k\<bar> \<le> e * 80"
  proof -
    have "\<bar>x * real_of_int k - f * real_of_int k\<bar> = \<bar>x - f\<bar> * real_of_int k"
      using kb by (simp add: left_diff_distrib [symmetric] abs_mult)
    also have "\<dots> \<le> e * 80" using ex kb e by (intro mult_mono) simp_all
    finally show ?thesis .
  qed
  with ey have near: "\<bar>y - f * real_of_int k\<bar> \<le> 240 * e" by (simp add: abs_le_iff)
  define d m where "d = r * k div q" and "m = r * k mod q"
  have rk: "r * k = q * d + m" by (simp add: d_def m_def)
  have "0 \<le> m" "m < q" using q0 by (simp_all add: m_def)
  then have m: "1 \<le> m" "m + 1 \<le> q" using nd by (simp_all add: m_def)
  have fk: "f * real_of_int k = real_of_int d + real_of_int m / real_of_int q"
  proof -
    have "real_of_int r * real_of_int k = real_of_int q * real_of_int d + real_of_int m"
      using rk by (metis of_int_add of_int_mult)
    then show ?thesis using q0 by (simp add: f_def field_simps)
  qed
  have lo: "1 / real_of_int q \<le> real_of_int m / real_of_int q" using m q0 by (simp add: divide_right_mono)
  have hi: "real_of_int m / real_of_int q \<le> 1 - 1 / real_of_int q"
  proof -
    have "real_of_int m \<le> real_of_int q - 1" using m by simp
    then show ?thesis using q0 by (simp add: field_simps)
  qed
  have qb: "1 / 2 ^ 30 \<le> 1 / real_of_int q" using q q0 by (simp add: frac_le)
  have small: "240 * e < 1 / 2 ^ 30" using e by simp
  have "\<lfloor>y\<rfloor> = d"
  proof (rule floor_unique)
    show "real_of_int d \<le> y" using near fk lo qb small unfolding abs_le_iff by linarith
    show "y < real_of_int d + 1" using near fk hi qb small unfolding abs_le_iff by linarith
  qed
  then show ?thesis by (simp add: js_math_floor_floor y_def d_def)
qed

text \<open>The same quotient when \<open>q\<close> may divide \<open>r * k\<close>, given the values at the
  integers \<open>j < k\<close> that the exact product can hit.\<close>

lemma floor_fraction_exact:
  assumes ex: "\<And>j. 0 \<le> j \<Longrightarrow> j < k \<Longrightarrow> (q * j) mod k = 0 \<Longrightarrow>
                 js_math_floor (js_times_int (js_divide_int (q * j div k) q) k) = j"
    and r: "0 \<le> r" "r < q" and q: "q \<le> 2 ^ 30" and k: "0 < k" "k \<le> 80"
  shows "js_math_floor (js_times_int (js_divide_int r q) k) = r * k div q"
proof (cases "(r * k) mod q = 0")
  case False
  then show ?thesis by (rule floor_fraction_times [OF r q k])
next
  case True
  define j where "j = r * k div q"
  have q0: "0 < q" using r by simp
  have rk: "q * j = r * k" using True div_mult_mod_eq [of "r * k" q] by (simp add: j_def mult.commute)
  have "q * j < q * k" using rk r k by simp
  then have jk: "j < k" using q0 by simp
  have j0: "0 \<le> j" using r k q0 by (simp add: j_def pos_imp_zdiv_nonneg_iff)
  have "(q * j) mod k = 0" "q * j div k = r" using rk k by simp_all
  then show ?thesis using ex [OF j0 jk] by (simp add: j_def)
qed

subsection \<open>Division followed by floor\<close>

text \<open>A quotient that is an integer of at most 52 bits is computed exactly, and
  \<open>Math.floor(a / d)\<close> is the integer quotient \<open>a div d\<close> for every \<open>|a| \<le> 2^52\<close>: otherwise
  \<open>a / d\<close> is at least \<open>1 / d\<close> away from an integer and the rounding moves it by at
  most \<open>1 / (2 d)\<close>.\<close>

lemma rne_div_exact: "0 < d \<Longrightarrow> rne_div (d * m) d = m"
  by (simp add: rne_div_def)

lemma fl_pos_exact:
  assumes d: "0 < d" and q: "0 < q" "q \<le> 2 ^ 52"
  shows "real (fst (fl_pos (d * q) d)) / 2 powr snd (fl_pos (d * q) d) = real q"
proof -
  define s where "s = fl_exponent (d * q) d"
  have n: "0 < d * q" using d q by simp
  have "2 powr 52 * real d \<le> real (d * q) * 2 powr s" using fl_exponent_bounds [OF n d] by (simp add: s_def)
  then have "2 powr 52 \<le> real q * 2 powr s" using d by (simp add: mult.assoc)
  moreover have "real q * 2 powr s \<le> 2 powr 52 * 2 powr s"
    using q by (simp add: powr_realpow)
  ultimately have "2 powr 52 * 1 \<le> 2 powr 52 * (2::real) powr s" by linarith
  then have "1 \<le> (2::real) powr s" by (rule mult_left_le_imp_le) simp
  then have s0: "0 \<le> s"
  proof (rule contrapos_pp)
    assume "\<not> 0 \<le> s"
    then have "(2::real) powr s < 1" by (intro powr_less_one) simp_all
    then show "\<not> 1 \<le> (2::real) powr s" by simp
  qed
  have p: "2 powr s = real ((2::nat) ^ nat s)" using s0 by (simp add: powr_realpow [symmetric])
  have "fl_pos (d * q) d = (q * 2 ^ nat s, s)"
    using s0 d by (simp add: fl_pos_def s_def [symmetric] Let_def mult.assoc rne_div_exact)
  then show ?thesis using p by simp
qed

lemma js_divide_int_exact:
  assumes d: "0 < d" and q: "\<bar>q\<bar> \<le> 2 ^ 52"
  shows "js_real (js_divide_int (q * d) d) = real_of_int q"
proof (cases "q = 0")
  case True
  then show ?thesis by (simp add: js_divide_int_def js_of_ratio_def js_real_def)
next
  case False
  have e: "nat \<bar>q * d\<bar> = nat d * nat \<bar>q\<bar>" using d by (simp add: abs_mult nat_mult_distrib)
  have b: "0 < nat \<bar>q\<bar>" "nat \<bar>q\<bar> \<le> 2 ^ 52" using False q by (simp_all add: nat_le_iff)
  have dn: "0 < nat d" using d by simp
  obtain m s where f: "fl_pos (nat d * nat \<bar>q\<bar>) (nat d) = (m, s)" by fastforce
  have "real m / 2 powr s = real (nat \<bar>q\<bar>)" using fl_pos_exact [OF dn b] f by simp
  then have "real_of_int (sgn q * int m) / 2 powr s = real_of_int q"
    by (cases "0 < q") (simp_all add: sgn_if abs_if)
  then show ?thesis using False d f e
    by (simp add: js_divide_int_def js_of_ratio_def js_real_def sgn_mult)
qed

lemma js_floor_divide:
  assumes d: "0 < d" and a: "\<bar>a\<bar> \<le> 2 ^ 52"
  shows "js_math_floor (js_divide_int a d) = a div d"
proof (cases "a mod d = 0")
  case True
  define q where "q = a div d"
  have aq: "a = q * d" using True div_mult_mod_eq [of a d] by (simp add: q_def)
  have "\<bar>q\<bar> * 1 \<le> \<bar>q\<bar> * d" using d by (intro mult_left_mono) simp_all
  then have "\<bar>q\<bar> \<le> \<bar>a\<bar>" using d aq by (simp add: abs_mult)
  then have "js_real (js_divide_int a d) = real_of_int q" using aq js_divide_int_exact [OF d] a by simp
  then show ?thesis by (simp add: js_math_floor_floor q_def)
next
  case False
  define x where "x = js_real (js_divide_int a d)"
  define q m where "q = a div d" and "m = a mod d"
  have dr: "0 < real_of_int d" using d by simp
  have "\<bar>x - real_of_int a / real_of_int d\<bar> \<le> \<bar>real_of_int a / real_of_int d\<bar> / 2 powr 53"
    unfolding x_def using js_divide_int_error [of d a] d by simp
  also have "\<dots> \<le> 1 / (2 * real_of_int d)"
  proof -
    have "\<bar>real_of_int a\<bar> \<le> 2 powr 52" using a by (simp add: powr_realpow)
    then have "\<bar>real_of_int a\<bar> / real_of_int d / 2 powr 53 \<le> 2 powr 52 / real_of_int d / 2 powr 53"
      using dr by (intro divide_right_mono) simp_all
    also have "\<dots> = 1 / (2 * real_of_int d)" by (simp add: powr_add [symmetric] field_simps)
    finally show ?thesis using dr by (simp add: abs_divide)
  qed
  finally have near: "\<bar>x - real_of_int a / real_of_int d\<bar> \<le> 1 / (2 * real_of_int d)" .
  have "0 \<le> m" "m < d" using d by (simp_all add: m_def)
  then have m: "1 \<le> m" "m + 1 \<le> d" using False by (simp_all add: m_def)
  have ad: "real_of_int a / real_of_int d = real_of_int q + real_of_int m / real_of_int d"
  proof -
    have "a = q * d + m" by (simp add: q_def m_def)
    then have "real_of_int a = real_of_int q * real_of_int d + real_of_int m" by (metis of_int_add of_int_mult)
    then show ?thesis using dr by (simp add: field_simps)
  qed
  have lo: "1 / real_of_int d \<le> real_of_int m / real_of_int d" using m dr by (simp add: divide_right_mono)
  have hi: "real_of_int m / real_of_int d \<le> 1 - 1 / real_of_int d"
  proof -
    have "real_of_int m \<le> real_of_int d - 1" using m by simp
    then show ?thesis using dr by (simp add: field_simps)
  qed
  have h: "1 / (2 * real_of_int d) < 1 / real_of_int d" using dr by (simp add: field_simps)
  have "\<lfloor>x\<rfloor> = q"
  proof (rule floor_unique)
    show "real_of_int q \<le> x" using near ad lo h unfolding abs_le_iff by linarith
    show "x < real_of_int q + 1" using near ad hi h unfolding abs_le_iff by linarith
  qed
  then show ?thesis by (simp add: js_math_floor_floor x_def q_def)
qed

subsection \<open>Evaluation\<close>

text \<open>Rewrite rules that evaluate the operations on numerals by \<open>simp\<close>.\<close>

lemma fl_pos_eval:
  "fl_pos (numeral a) (numeral b) =
     (let s = fl_exponent (numeral a) (numeral b)
      in (if 0 \<le> s then rne_div (numeral a * 2 ^ nat s) (numeral b)
          else rne_div (numeral a) (numeral b * 2 ^ nat (- s)), s))"
  "fl_pos 1 (numeral b) =
     (let s = fl_exponent 1 (numeral b)
      in (if 0 \<le> s then rne_div (2 ^ nat s) (numeral b) else rne_div 1 (numeral b * 2 ^ nat (- s)), s))"
  by (simp_all add: fl_pos_def Let_def)

lemma fl_exponent_eval:
  "fl_exponent (numeral a) (numeral b) =
     (let s0 = 53 - (int (bitlen (numeral a)) - int (bitlen (numeral b)))
      in if 2 ^ 53 \<le> fl_scaled (numeral a) (numeral b) s0 then s0 - 1 else s0)"
  "fl_exponent 1 (numeral b) =
     (let s0 = 53 - (int (bitlen 1) - int (bitlen (numeral b)))
      in if 2 ^ 53 \<le> fl_scaled 1 (numeral b) s0 then s0 - 1 else s0)"
  by (simp_all add: fl_exponent_def)

lemma bitlen_eval:
  "bitlen 0 = 0" "bitlen 1 = 1" "bitlen (numeral num.One) = 1"
  "bitlen (numeral (num.Bit0 k)) = Suc (bitlen (numeral k))"
  "bitlen (numeral (num.Bit1 k)) = Suc (bitlen (numeral k))"
  by (subst bitlen.simps, simp)+

lemma js_eval:
  "js_divide_int (numeral a) (numeral b) = js_of_ratio (numeral a) (numeral b)"
  "js_of_ratio (numeral a) (numeral d) = (case fl_pos (numeral a) (numeral d) of (m, s) \<Rightarrow> (int m, s))"
  "js_of_ratio 1 (numeral d) = (case fl_pos 1 (numeral d) of (m, s) \<Rightarrow> (int m, s))"
  "js_times_int (numeral m, numeral s) k = js_of_ratio (numeral m * k) (2 ^ numeral s)"
  "js_math_round (numeral m, numeral s) = (2 * numeral m + 2 ^ numeral s) div (2 * 2 ^ numeral s)"
  "js_math_floor (numeral m, numeral s) = numeral m div 2 ^ numeral s"
  "js_divide_int 0 c = (0, 0)" "js_times_int (0, 0) k = (0, 0)" "js_math_floor (0, 0) = 0"
  by (simp_all add: js_divide_int_def js_of_ratio_def js_times_int_def js_math_round_def js_math_floor_def)

subsection \<open>Percentages of 1000\<close>

text \<open>\<open>Math.round(lc / 1000 * 100)\<close> stays within \<open>1/20\<close> of \<open>lc / 10\<close> before rounding.\<close>

lemma percent_of_1000_near:
  assumes "0 \<le> lc" and "lc \<le> 1000"
  shows "\<bar>js_real (js_times_int (js_divide_int lc 1000) 100) - real_of_int lc / 10\<bar> < 1 / 20"
proof -
  define x where "x = js_real (js_divide_int lc 1000)"
  define y where "y = js_real (js_times_int (js_divide_int lc 1000) 100)"
  define q where "q = real_of_int lc / 1000"
  define e :: real where "e = 1 / 2 powr 53"
  have e: "0 \<le> e" "e \<le> 1 / 100000" by (simp_all add: e_def)
  have q: "0 \<le> q" "q \<le> 1" using assms by (simp_all add: q_def)
  have "\<bar>x - q\<bar> \<le> \<bar>q\<bar> / 2 powr 53"
    unfolding x_def q_def using js_divide_int_error [of 1000 lc] by simp
  also have "\<dots> \<le> e" unfolding e_def using q by (simp add: divide_right_mono)
  finally have ex: "\<bar>x - q\<bar> \<le> e" .
  have "\<bar>x\<bar> \<le> \<bar>q\<bar> + \<bar>x - q\<bar>" by (metis abs_triangle_ineq add.commute diff_add_cancel)
  then have xb: "\<bar>x\<bar> \<le> 2" using ex e q by simp
  have "\<bar>y - x * 100\<bar> \<le> \<bar>x * 100\<bar> / 2 powr 53"
    unfolding x_def y_def using js_times_int_error [of "js_divide_int lc 1000" 100] by simp
  also have "\<dots> = \<bar>x\<bar> * 100 * e" by (simp add: e_def abs_mult)
  also have "\<dots> \<le> 200 * e" using xb e by (simp add: mult_right_mono)
  finally have ey: "\<bar>y - x * 100\<bar> \<le> 200 * e" .
  have "real_of_int lc / 10 = q * 100" by (simp add: q_def)
  then show ?thesis using ex ey e unfolding y_def [symmetric] abs_le_iff abs_less_iff by linarith
qed

lemma floor_half_near_tenth:
  assumes "\<bar>y - real_of_int lc / 10\<bar> < 1 / 20" and "lc mod 10 \<noteq> 5"
  shows "\<lfloor>y + 1 / 2\<rfloor> = (lc + 5) div 10"
proof (rule floor_unique)
  define k r where "k = (lc + 5) div 10" and "r = (lc + 5) mod 10"
  have lc: "real_of_int lc / 10 + 1 / 2 = real_of_int k + real_of_int r / 10"
  proof -
    have "lc + 5 = 10 * k + r" by (simp add: k_def r_def)
    then have "real_of_int lc + 5 = 10 * real_of_int k + real_of_int r" by linarith
    then show ?thesis by (simp add: field_simps)
  qed
  have "r \<noteq> 0" using assms(2) by (simp add: r_def) presburger
  moreover have "0 \<le> r" "r < 10" by (simp_all add: r_def)
  ultimately have r: "1 \<le> real_of_int r" "real_of_int r \<le> 9" by simp_all
  show "real_of_int ((lc + 5) div 10) \<le> y + 1 / 2"
    using assms(1) lc r unfolding k_def [symmetric] abs_less_iff by linarith
  show "y + 1 / 2 < real_of_int ((lc + 5) div 10) + 1"
    using assms(1) lc r unfolding k_def [symmetric] abs_less_iff by linarith
qed

lemma percent_of_1000_halves_0:
  "list_all (\<lambda>j. js_math_round (js_times_int (js_divide_int (10 * j + 5) 1000) 100) =
     (if 10 * j + 5 \<in> {145, 285, 565, 575} then j else j + 1)) [0..24]"
  by (simp add: upto.simps js_eval fl_pos_eval fl_exponent_eval fl_scaled_def rne_div_def bitlen_eval)

lemma percent_of_1000_halves_1:
  "list_all (\<lambda>j. js_math_round (js_times_int (js_divide_int (10 * j + 5) 1000) 100) =
     (if 10 * j + 5 \<in> {145, 285, 565, 575} then j else j + 1)) [25..49]"
  by (simp add: upto.simps js_eval fl_pos_eval fl_exponent_eval fl_scaled_def rne_div_def bitlen_eval)

lemma percent_of_1000_halves_2:
  "list_all (\<lambda>j. js_math_round (js_times_int (js_divide_int (10 * j + 5) 1000) 100) =
     (if 10 * j + 5 \<in> {145, 285, 565, 575} then j else j + 1)) [50..74]"
  by (simp add: upto.simps js_eval fl_pos_eval fl_exponent_eval fl_scaled_def rne_div_def bitlen_eval)

lemma percent_of_1000_halves_3:
  "list_all (\<lambda>j. js_math_round (js_times_int (js_divide_int (10 * j + 5) 1000) 100) =
     (if 10 * j + 5 \<in> {145, 285, 565, 575} then j else j + 1)) [75..99]"
  by (simp add: upto.simps js_eval fl_pos_eval fl_exponent_eval fl_scaled_def rne_div_def bitlen_eval)

lemma percent_of_1000:
  assumes "0 \<le> lc" and "lc \<le> 1000"
  shows "js_math_round (js_times_int (js_divide_int lc 1000) 100) =
           (if lc \<in> {145, 285, 565, 575} then (lc + 5) div 10 - 1 else (lc + 5) div 10)"
proof (cases "lc mod 10 = 5")
  case False
  then have "lc \<notin> {145, 285, 565, 575}" by auto
  moreover have "js_math_round (js_times_int (js_divide_int lc 1000) 100) = (lc + 5) div 10"
    unfolding js_math_round_floor using percent_of_1000_near [OF assms] False by (rule floor_half_near_tenth)
  ultimately show ?thesis by simp
next
  case True
  define j where "j = lc div 10"
  have lc: "lc = 10 * j + 5" using True div_mult_mod_eq [of lc 10] by (simp add: j_def)
  have j: "0 \<le> j" "j \<le> 99" using assms lc by simp_all
  have r: "(lc + 5) div 10 = j + 1" using lc by simp
  have "js_math_round (js_times_int (js_divide_int (10 * j + 5) 1000) 100) =
          (if 10 * j + 5 \<in> {145, 285, 565, 575} then j else j + 1)"
  proof -
    consider "j \<le> 24" | "25 \<le> j" "j \<le> 49" | "50 \<le> j" "j \<le> 74" | "75 \<le> j" using j by linarith
    then show ?thesis
    proof cases
      case 1
      then show ?thesis using list_all_upto_at [OF percent_of_1000_halves_0] j by blast
    next
      case 2
      then show ?thesis using list_all_upto_at [OF percent_of_1000_halves_1] by blast
    next
      case 3
      then show ?thesis using list_all_upto_at [OF percent_of_1000_halves_2] by blast
    next
      case 4
      then show ?thesis using list_all_upto_at [OF percent_of_1000_halves_3] j by blast
    qed
  qed
  then show ?thesis using lc r by simp
qed

end
