(* ===== verification/Lcg.thy ===== *)
theory Lcg
  imports Prelude JsNumber
begin

text \<open>
  The deterministic pseudo-random function of \<open>GameLevelGenerator.generateLevel\<close>
  (src/project/data/gameLevels.ts, lines 84--85):
  \<^verbatim>\<open>
  const seed = id * 12345;
  const random = (max) => Math.floor((seed * 9301 + 49297) % 233280 / 233280 * max);
  \<close>
  For ids up to 1000 every intermediate value is an integer below \<open>2^53\<close>, so the
  JavaScript numbers are exact; the one floating-point step is the division by
  233280 followed by the multiplication by \<open>max\<close> and the floor, which \<open>lcg_random\<close>
  computes in binary64 (theory \<open>JsNumber\<close>). \<open>lcg_random_exact\<close> proves that for every
  \<open>max\<close> the generator passes (2, 3, 5, 10, 50, 80) the result is the exact quotient
  \<open>(r * max) div 233280\<close>: the rounding error is far below \<open>1 / 233280\<close>, and the
  draws where \<open>r * max / 233280\<close> is an integer are evaluated one by one.

  The closure captures one \<open>seed\<close> and never advances it: every call of
  \<open>random\<close> within one level reads the same draw \<open>r\<close>. The lemmas below make the
  consequences precise: the character, the template, the name, the property and
  the adjective are all functions of one fraction \<open>r / 233280\<close>.
\<close>

definition seed_of :: "nat \<Rightarrow> nat" where
  "seed_of lid = lid * 12345"

definition lcg_draw :: "nat \<Rightarrow> nat" where
  "lcg_draw seed = (seed * 9301 + 49297) mod 233280"

definition lcg_random :: "nat \<Rightarrow> nat \<Rightarrow> nat" where
  "lcg_random seed mx =
     nat (js_math_floor (js_times_int (js_divide_int (int (lcg_draw seed)) 233280) (int mx)))"

subsection \<open>The floating-point step is exact\<close>

text \<open>The draws where \<open>r * max / 233280\<close> is an integer \<open>j\<close>, by evaluation: there the
  rounding could land just below \<open>j\<close>, and it does not.\<close>

lemma lcg_divisible_draws:
  "list_all (\<lambda>j. 233280 * j mod 2 = 0 \<longrightarrow>
     js_math_floor (js_times_int (js_divide_int (233280 * j div 2) 233280) 2) = j) [0..1]"
  "list_all (\<lambda>j. 233280 * j mod 3 = 0 \<longrightarrow>
     js_math_floor (js_times_int (js_divide_int (233280 * j div 3) 233280) 3) = j) [0..2]"
  "list_all (\<lambda>j. 233280 * j mod 5 = 0 \<longrightarrow>
     js_math_floor (js_times_int (js_divide_int (233280 * j div 5) 233280) 5) = j) [0..4]"
  "list_all (\<lambda>j. 233280 * j mod 10 = 0 \<longrightarrow>
     js_math_floor (js_times_int (js_divide_int (233280 * j div 10) 233280) 10) = j) [0..9]"
  by (simp_all add: upto.simps js_eval fl_pos_eval fl_exponent_eval fl_scaled_def rne_div_def bitlen_eval)

lemma lcg_divisible_draws_50:
  "list_all (\<lambda>j. 233280 * j mod 50 = 0 \<longrightarrow>
     js_math_floor (js_times_int (js_divide_int (233280 * j div 50) 233280) 50) = j) [0..49]"
  by (simp_all add: upto.simps js_eval fl_pos_eval fl_exponent_eval fl_scaled_def rne_div_def bitlen_eval)

lemma lcg_divisible_draws_80_0:
  "list_all (\<lambda>j. 233280 * j mod 80 = 0 \<longrightarrow>
     js_math_floor (js_times_int (js_divide_int (233280 * j div 80) 233280) 80) = j) [0..19]"
  by (simp_all add: upto.simps js_eval fl_pos_eval fl_exponent_eval fl_scaled_def rne_div_def bitlen_eval)

lemma lcg_divisible_draws_80_1:
  "list_all (\<lambda>j. 233280 * j mod 80 = 0 \<longrightarrow>
     js_math_floor (js_times_int (js_divide_int (233280 * j div 80) 233280) 80) = j) [20..39]"
  by (simp_all add: upto.simps js_eval fl_pos_eval fl_exponent_eval fl_scaled_def rne_div_def bitlen_eval)

lemma lcg_divisible_draws_80_2:
  "list_all (\<lambda>j. 233280 * j mod 80 = 0 \<longrightarrow>
     js_math_floor (js_times_int (js_divide_int (233280 * j div 80) 233280) 80) = j) [40..59]"
  by (simp_all add: upto.simps js_eval fl_pos_eval fl_exponent_eval fl_scaled_def rne_div_def bitlen_eval)

lemma lcg_divisible_draws_80_3:
  "list_all (\<lambda>j. 233280 * j mod 80 = 0 \<longrightarrow>
     js_math_floor (js_times_int (js_divide_int (233280 * j div 80) 233280) 80) = j) [60..79]"
  by (simp_all add: upto.simps js_eval fl_pos_eval fl_exponent_eval fl_scaled_def rne_div_def bitlen_eval)

lemma lcg_divisible_exact:
  assumes mx: "mx \<in> {2, 3, 5, 10, 50, 80}" and j: "0 \<le> j" "j < int mx"
    and dv: "(233280 * j) mod int mx = 0"
  shows "js_math_floor (js_times_int (js_divide_int (233280 * j div int mx) 233280) (int mx)) = j"
proof -
  consider "mx = 2" | "mx = 3" | "mx = 5" | "mx = 10" | "mx = 50" | "mx = 80" using mx by auto
  then show ?thesis
  proof cases
    case 1 then show ?thesis using list_all_upto_at [OF lcg_divisible_draws(1), of j] j dv by simp
  next
    case 2 then show ?thesis using list_all_upto_at [OF lcg_divisible_draws(2), of j] j dv by simp
  next
    case 3 then show ?thesis using list_all_upto_at [OF lcg_divisible_draws(3), of j] j dv by simp
  next
    case 4 then show ?thesis using list_all_upto_at [OF lcg_divisible_draws(4), of j] j dv by simp
  next
    case 5 then show ?thesis using list_all_upto_at [OF lcg_divisible_draws_50, of j] j dv by simp
  next
    case 6
    then consider "j \<le> 19" | "20 \<le> j" "j \<le> 39" | "40 \<le> j" "j \<le> 59" | "60 \<le> j" using j by linarith
    then show ?thesis
    proof cases
      case 1 then show ?thesis using list_all_upto_at [OF lcg_divisible_draws_80_0, of j] j dv \<open>mx = 80\<close> by simp
    next
      case 2 then show ?thesis using list_all_upto_at [OF lcg_divisible_draws_80_1, of j] j dv \<open>mx = 80\<close> by simp
    next
      case 3 then show ?thesis using list_all_upto_at [OF lcg_divisible_draws_80_2, of j] j dv \<open>mx = 80\<close> by simp
    next
      case 4 then show ?thesis using list_all_upto_at [OF lcg_divisible_draws_80_3, of j] j dv \<open>mx = 80\<close> by simp
    qed
  qed
qed

lemma lcg_draw_bound: "lcg_draw seed < 233280"
  by (simp add: lcg_draw_def)

text \<open>The bounds \<open>max\<close> that \<open>generateLevel\<close> passes to \<open>random\<close>.\<close>

lemma lcg_random_exact:
  assumes mx: "mx \<in> {2, 3, 5, 10, 50, 80}"
  shows "lcg_random seed mx = lcg_draw seed * mx div 233280"
proof -
  have r: "0 \<le> int (lcg_draw seed)" "int (lcg_draw seed) < 233280" using lcg_draw_bound [of seed] by simp_all
  have k: "0 < int mx" "int mx \<le> 80" using mx by auto
  have "js_math_floor (js_times_int (js_divide_int (int (lcg_draw seed)) 233280) (int mx)) =
          int (lcg_draw seed) * int mx div 233280"
    by (rule floor_fraction_exact [OF lcg_divisible_exact [OF mx] r _ k]) simp_all
  moreover have "int (lcg_draw seed) * int mx div 233280 = int (lcg_draw seed * mx div 233280)"
    by (simp add: zdiv_int)
  ultimately show ?thesis by (simp add: lcg_random_def)
qed
lemma lcg_random_bound: "mx \<in> {2, 3, 5, 10, 50, 80} \<Longrightarrow> lcg_random seed mx < mx"
proof -
  assume mx: "mx \<in> {2, 3, 5, 10, 50, 80}"
  then have "lcg_draw seed * mx < mx * 233280"
    using lcg_draw_bound by auto
  then show ?thesis
    unfolding lcg_random_exact [OF mx] by (rule less_mult_imp_div_less)
qed

text \<open>The draws for different bounds come from the same fraction.\<close>

lemma lcg_random_wizard_iff: "lcg_random seed 2 = 0 \<longleftrightarrow> lcg_draw seed < 116640"
  by (auto simp: lcg_random_exact)

lemma lcg_random_below:
  assumes "mx \<in> {2, 3, 5, 10, 50, 80}" and "lcg_draw seed * mx < k * 233280"
  shows "lcg_random seed mx < k"
  using assms(2) unfolding lcg_random_exact [OF assms(1)] by (rule less_mult_imp_div_less)

lemma lcg_random_above:
  assumes "mx \<in> {2, 3, 5, 10, 50, 80}" and "k * 233280 \<le> lcg_draw seed * mx"
  shows "k \<le> lcg_random seed mx"
proof -
  have "(k * 233280) div 233280 \<le> (lcg_draw seed * mx) div 233280"
    using assms(2) by (rule div_le_mono)
  then show ?thesis by (simp add: lcg_random_exact [OF assms(1)])
qed

lemma lcg_random_3_wizard: "lcg_random seed 2 = 0 \<Longrightarrow> lcg_random seed 3 < 2"
  by (rule lcg_random_below) (simp_all add: lcg_random_wizard_iff)

lemma lcg_random_3_spy: "lcg_random seed 2 \<noteq> 0 \<Longrightarrow> 1 \<le> lcg_random seed 3"
  by (rule lcg_random_above) (simp_all add: lcg_random_wizard_iff)

lemma lcg_random_10_wizard: "lcg_random seed 2 = 0 \<Longrightarrow> lcg_random seed 10 < 5"
  by (rule lcg_random_below) (simp_all add: lcg_random_wizard_iff)

lemma lcg_random_10_spy: "lcg_random seed 2 \<noteq> 0 \<Longrightarrow> 5 \<le> lcg_random seed 10"
  by (rule lcg_random_above) (simp_all add: lcg_random_wizard_iff)

text \<open>The seed modulo small numbers, as the answer shuffle reads it.\<close>

lemma seed_of_mod_3 [simp]: "seed_of lid mod 3 = 0"
  by (simp add: seed_of_def)

lemma seed_of_mod_4: "seed_of lid mod 4 = lid mod 4"
proof -
  have "seed_of lid = lid + 4 * (lid * 3086)" by (simp add: seed_of_def)
  then show ?thesis by (simp only: mod_mult_self2)
qed

subsection \<open>The floating-point step\<close>

text \<open>C5: the one floating-point step of the generator is exact: for every seed and every
  bound \<open>max\<close> the generator passes (2, 3, 5, 10, 50, 80),
  \<open>Math.floor(r / 233280 * max)\<close> computed in binary64 is the integer quotient
  \<open>(r * max) div 233280\<close> of the draw \<open>r\<close>, and so lies below \<open>max\<close>.\<close>

theorem lcg_random_quotient:
  assumes "mx \<in> {2, 3, 5, 10, 50, 80}"
  shows "lcg_random seed mx = lcg_draw seed * mx div 233280 \<and> lcg_random seed mx < mx"
  using lcg_random_exact [OF assms] lcg_random_bound [OF assms] by simp

theorem lcg_random_quotient_witness:
  "(80::nat) \<in> {2, 3, 5, 10, 50, 80} \<and> lcg_random (seed_of 1) 80 = 33"
  using lcg_random_quotient [of 80 "seed_of 1"] by (simp add: lcg_draw_def seed_of_def)

end
