(* ===== verification/Shuffle.thy ===== *)
theory Shuffle
  imports Lcg
begin

text \<open>
  The answer shuffle at the end of \<open>generateLevel\<close>
  (src/project/data/gameLevels.ts, lines 181--190):
  \<^verbatim>\<open>
  const shuffledAnswers = [...answers];
  const correctAnswerValue = shuffledAnswers[0];
  for (let i = shuffledAnswers.length - 1; i > 0; i--) {
    const j = (seed + i) % (i + 1);
    [shuffledAnswers[i], shuffledAnswers[j]] = [shuffledAnswers[j], shuffledAnswers[i]];
  }
  correctAnswer = shuffledAnswers.indexOf(correctAnswerValue);
  \<close>
  The loop is \<open>shuffle_loop\<close>, counting \<open>i\<close> down; each iteration is the
  destructuring swap \<open>js_swap\<close>. Unlike a Fisher--Yates shuffle, \<open>j\<close> is computed from
  the same \<open>seed\<close> at every step. We prove that the shuffle is a permutation, and
  then what it does on the four-answer lists the generator builds: for the
  generator's seeds (multiples of 12345, hence of 3) the step \<open>i = 2\<close> is a no-op and
  the correct answer lands at index 0, 3, 0 or 1 according to the seed modulo 4,
  never at index 2.
\<close>

fun shuffle_loop :: "nat \<Rightarrow> nat \<Rightarrow> 'a list \<Rightarrow> 'a list" where
  "shuffle_loop seed 0 xs = xs"
| "shuffle_loop seed (Suc i) xs =
     shuffle_loop seed i (js_swap xs (Suc i) ((seed + Suc i) mod (Suc i + 1)))"

definition shuffle_answers :: "nat \<Rightarrow> 'a list \<Rightarrow> 'a list" where
  "shuffle_answers seed answers = shuffle_loop seed (length answers - 1) answers"

definition correct_index :: "nat \<Rightarrow> 'a list \<Rightarrow> int" where
  "correct_index seed answers = js_index_of (shuffle_answers seed answers) (answers ! 0)"

lemma length_shuffle_loop [simp]: "length (shuffle_loop seed i xs) = length xs"
  by (induction seed i xs rule: shuffle_loop.induct) simp_all

lemma mset_shuffle_loop:
  "i < length xs \<Longrightarrow> mset (shuffle_loop seed i xs) = mset xs"
proof (induction seed i xs rule: shuffle_loop.induct)
  case (2 seed i xs)
  have "(seed + Suc i) mod (Suc i + 1) < Suc i + 1"
    by (rule mod_less_divisor) simp
  with "2.prems" have j: "(seed + Suc i) mod (Suc i + 1) < length xs"
    by linarith
  from "2.prems" j "2.IH" show ?case by simp
qed simp

lemma length_shuffle_answers [simp]: "length (shuffle_answers seed xs) = length xs"
  by (simp add: shuffle_answers_def)

lemma mset_shuffle_answers [simp]: "mset (shuffle_answers seed xs) = mset xs"
proof (cases xs)
  case (Cons y ys)
  then show ?thesis by (simp add: shuffle_answers_def mset_shuffle_loop)
qed (simp add: shuffle_answers_def)

lemma set_shuffle_answers [simp]: "set (shuffle_answers seed xs) = set xs"
  by (metis mset_shuffle_answers set_mset_mset)

lemma distinct_shuffle_answers [simp]: "distinct (shuffle_answers seed xs) = distinct xs"
  by (metis mset_shuffle_answers distinct_count_atmost_1 count_mset set_mset_mset)

text \<open>The index the level records is in range and points at the value that was first.\<close>

lemma correct_index_range:
  "xs \<noteq> [] \<Longrightarrow> 0 \<le> correct_index seed xs \<and> correct_index seed xs < int (length xs)"
  unfolding correct_index_def
  using js_index_of_nonneg [of "xs ! 0" "shuffle_answers seed xs"]
    js_index_of_bound [of "shuffle_answers seed xs" "xs ! 0"]
  by simp

lemma correct_index_nth:
  "xs \<noteq> [] \<Longrightarrow> shuffle_answers seed xs ! nat (correct_index seed xs) = xs ! 0"
  unfolding correct_index_def by (rule js_index_of_nth) simp

text \<open>The shuffle on four answers, for a seed divisible by 3.\<close>

lemma mod_add_const: "((a::nat) + k) mod n = (a mod n + k) mod n"
  by (simp only: mod_add_left_eq)

lemma shuffle_loop_step:
  "0 < i \<Longrightarrow> shuffle_loop seed i xs = shuffle_loop seed (i - 1) (js_swap xs i ((seed + i) mod (i + 1)))"
  by (cases i) simp_all

lemma shuffle_answers_four_steps:
  "shuffle_answers seed [a, b, c, d] =
     js_swap (js_swap (js_swap [a, b, c, d] 3 ((seed + 3) mod 4)) 2 ((seed + 2) mod 3))
       1 ((seed + 1) mod 2)"
proof -
  have l: "length [a, b, c, d] - 1 = 3" by simp
  have n: "(0::nat) < 3" "(3::nat) - 1 = 2" "(0::nat) < 2" "(2::nat) - 1 = 1" "(0::nat) < 1"
    "(1::nat) - 1 = 0" "(3::nat) + 1 = 4" "(2::nat) + 1 = 3" "(1::nat) + 1 = 2"
    by simp_all
  show ?thesis
    unfolding shuffle_answers_def l
    by (simp only: shuffle_loop_step [of 3] shuffle_loop_step [of 2] shuffle_loop_step [of 1]
        shuffle_loop.simps(1) n)
qed

lemma shuffle_answers_four:
  assumes "seed mod 3 = 0"
  shows "shuffle_answers seed [a, b, c, d] =
    (if seed mod 4 = 0 then [a, b, c, d] else if seed mod 4 = 1 then [b, d, c, a]
     else if seed mod 4 = 2 then [a, d, c, b] else [b, a, d, c])"
proof -
  have j2: "(seed + 2) mod 3 = 2"
    by (subst mod_add_const) (simp add: assms)
  have j3: "(seed + 3) mod 4 = (seed mod 4 + 3) mod 4"
    by (rule mod_add_const)
  have m2: "seed mod 2 = seed mod 4 mod 2"
    by (rule mod_mod_cancel [symmetric]) simp
  have j1: "(seed + 1) mod 2 = (seed mod 4 mod 2 + 1) mod 2"
    by (subst mod_add_const) (simp only: m2)
  have "seed mod 4 < 4" by simp
  then consider "seed mod 4 = 0" | "seed mod 4 = 1" | "seed mod 4 = 2" | "seed mod 4 = 3"
    by linarith
  then show ?thesis
    by cases (simp_all only: shuffle_answers_four_steps j1 j2 j3,
      simp_all add: js_swap_def)
qed

end
