(* ===== verification/Generator.thy ===== *)
theory Generator
  imports LevelData Shuffle
begin

text \<open>
  \<open>GameLevelGenerator.generateLevel\<close> (src/project/data/gameLevels.ts, lines 82--212),
  split at the seams of the source: \<open>select\<close> makes the five selections of lines
  87--95, one definition per content tier builds \<open>jsonData\<close>, \<open>question\<close>,
  \<open>answers\<close> and \<open>actualAnswer\<close> (lines 103--179), and \<open>generateLevel\<close> shuffles the
  answers and fills the template (lines 181--211). Template literals are string
  concatenations; \<open>nl\<close> (theory \<open>LevelData\<close>) is the line break inside them.
\<close>

record selection =
  sel_isWizard :: bool
  sel_character :: character
  sel_template :: template
  sel_name :: string
  sel_property :: string
  sel_adjective :: string

definition select :: "nat \<Rightarrow> selection" where
  "select seed =
     (let random = lcg_random seed;
          isWizard = (random 2 = 0);
          ch = (if isWizard then Wizard else Spy);
          ts = templates ch;
          ns = names ch
      in \<lparr>sel_isWizard = isWizard, sel_character = ch,
          sel_template = ts ! random (length ts),
          sel_name = ns ! random (length ns),
          sel_property = properties ! random (length properties),
          sel_adjective = adjectives ! random (length adjectives)\<rparr>)"

record content =
  c_json :: string
  c_question :: string
  c_answers :: "string list"
  c_actual :: string

text \<open>Tier 1, ids up to 100: a flat object (lines 103--132).\<close>

definition simple_content :: "nat \<Rightarrow> selection \<Rightarrow> content" where
  \<open>simple_content seed sel =
     (let random = lcg_random seed; name = sel_name sel; isWizard = sel_isWizard sel;
          ns = names (sel_character sel)
      in if sel_property sel = ''name'' then
           (let i = js_index_of ns name;
                pick = (\<lambda>k. ns ! nat ((i + k) mod int (length ns)))
            in \<lparr>c_json = ''{'' @ nl @ ''  "name": "'' @ name @ ''",'' @ nl @
                  ''  "age": '' @ js_string_of_int (int (20 + random 80)) @ '','' @ nl @
                  ''  "'' @ (if isWizard then ''magic'' else ''rank'') @ ''": "'' @
                  (if isWizard then ''strong'' else ''agent'') @ ''"'' @ nl @ ''}'',
                c_question = ''What is the '' @ character_name (sel_character sel) @ [CHR 0x27] @ ''s name?'',
                c_answers = [name, pick 1, pick 2, pick 3],
                c_actual = name\<rparr>)
         else if sel_property sel = ''age'' then
           (let actualAnswer = js_string_of_int (int (25 + random 50))
            in \<lparr>c_json = ''{'' @ nl @ ''  "name": "'' @ name @ ''",'' @ nl @
                  ''  "age": '' @ actualAnswer @ '','' @ nl @
                  ''  "'' @ (if isWizard then ''magic'' else ''rank'') @ ''": "'' @
                  (if isWizard then ''strong'' else ''senior'') @ ''"'' @ nl @ ''}'',
                c_question = ''How old is '' @ name @ ''?'',
                c_answers = [actualAnswer, js_string_add actualAnswer 5,
                             js_string_add actualAnswer (-3), js_string_add actualAnswer 10],
                c_actual = actualAnswer\<rparr>)
         else
           (let actualAnswer = js_string_of_int (int (random 10 + 1))
            in \<lparr>c_json = ''{'' @ nl @ ''  "name": "'' @ name @ ''",'' @ nl @
                  ''  "level": '' @ actualAnswer @ '','' @ nl @
                  ''  "'' @ (if isWizard then ''magic'' else ''rank'') @ ''": "'' @
                  (if isWizard then ''strong'' else ''senior'') @ ''"'' @ nl @ ''}'',
                c_question = ''What is '' @ name @ [CHR 0x27] @ ''s level?'',
                c_answers = [actualAnswer, js_string_add actualAnswer 1,
                             js_string_add actualAnswer 2, js_string_add actualAnswer (-1)],
                c_actual = actualAnswer\<rparr>))\<close>

text \<open>Tier 2, ids 101--300: one nested object (lines 133--147).\<close>

definition nested_content :: "nat \<Rightarrow> selection \<Rightarrow> content" where
  \<open>nested_content seed sel =
     (let random = lcg_random seed; name = sel_name sel; isWizard = sel_isWizard sel;
          actualAnswer = js_string_of_int (int (random 10 + 1));
          nestedProperty = (if isWizard then ''powers'' else ''skills'');
          subProperty = (if isWizard then [''fire'', ''water'', ''earth''] ! random 3
                         else [''stealth'', ''combat'', ''tech''] ! random 3)
      in \<lparr>c_json = ''{'' @ nl @ ''  "name": "'' @ name @ ''",'' @ nl @
            ''  "'' @ nestedProperty @ ''": {'' @ nl @
            ''    "'' @ subProperty @ ''": '' @ actualAnswer @ '','' @ nl @
            ''    "other": '' @ js_string_of_int (int (random 10 + 1)) @ nl @
            ''  }'' @ nl @ ''}'',
          c_question = ''What is '' @ name @ [CHR 0x27] @ ''s '' @ subProperty @ '' '' @
            butlast nestedProperty @ '' level?'',
          c_answers = [actualAnswer, js_string_add actualAnswer 1,
                       js_string_add actualAnswer 2, js_string_add actualAnswer (-1)],
          c_actual = actualAnswer\<rparr>)\<close>

text \<open>Tier 3, ids 301--600: an array to count (lines 148--164). The \<open>for\<close> loop that
  pushes \<open>"item1"\<close>, ..., \<open>"item<count>"\<close> is the \<open>map\<close> over \<open>[0..<itemCount]\<close>, and
  \<open>items.join(', ')\<close> is \<open>js_join '', '' items\<close>.\<close>

definition array_items :: "nat \<Rightarrow> string list" where
  \<open>array_items itemCount = map (\<lambda>i. ''"item'' @ js_string_of_int (int (i + 1)) @ ''"'') [0..<itemCount]\<close>

definition array_content :: "nat \<Rightarrow> selection \<Rightarrow> content" where
  \<open>array_content seed sel =
     (let random = lcg_random seed; name = sel_name sel; isWizard = sel_isWizard sel;
          collection = collections ! random (length collections);
          itemCount = random 5 + 2;
          actualAnswer = js_string_of_int (int itemCount)
      in \<lparr>c_json = ''{'' @ nl @ ''  "name": "'' @ name @ ''",'' @ nl @
            ''  "'' @ collection @ ''": ['' @ js_join '', '' (array_items itemCount) @
            ''],'' @ nl @
            ''  "rank": "'' @ (if isWizard then ''master'' else ''senior'') @ ''"'' @ nl @ ''}'',
          c_question = ''How many '' @ collection @ '' does '' @ name @ '' have?'',
          c_answers = [actualAnswer, js_string_of_int (int itemCount + 1),
                       js_string_of_int (int itemCount - 1), js_string_of_int (int itemCount + 2)],
          c_actual = actualAnswer\<rparr>)\<close>

text \<open>Tier 4, ids above 600: an object holding an array of objects (lines 165--179).\<close>

definition complex_content :: "nat \<Rightarrow> selection \<Rightarrow> content" where
  \<open>complex_content seed sel =
     (let random = lcg_random seed; name = sel_name sel;
          actualAnswer = js_string_of_int (int (random 10 + 1))
      in \<lparr>c_json = ''{'' @ nl @ ''  "agent": {'' @ nl @
            ''    "name": "'' @ name @ ''",'' @ nl @
            ''    "missions": ['' @ nl @
            ''      {"title": "Mission A", "status": "complete", "score": '' @
              js_string_of_int (int (random 10 + 1)) @ ''},'' @ nl @
            ''      {"title": "Mission B", "status": "active", "score": '' @ actualAnswer @ ''}'' @ nl @
            ''    ]'' @ nl @ ''  }'' @ nl @ ''}'',
          c_question = ''What is the score of Mission B?'',
          c_answers = [actualAnswer, js_string_add actualAnswer 1,
                       js_string_add actualAnswer 2, js_string_add actualAnswer (-1)],
          c_actual = actualAnswer\<rparr>)\<close>

definition tier_content :: "nat \<Rightarrow> nat \<Rightarrow> selection \<Rightarrow> content" where
  "tier_content lid seed sel =
     (if lid \<le> 100 then simple_content seed sel
      else if lid \<le> 300 then nested_content seed sel
      else if lid \<le> 600 then array_content seed sel
      else complex_content seed sel)"

definition generateLevel :: "nat \<Rightarrow> game_level" where
  "generateLevel lid =
     (let seed = seed_of lid; sel = select seed; c = tier_content lid seed sel;
          template = sel_template sel; property = sel_property sel;
          shuffledAnswers = shuffle_answers seed (c_answers c);
          correctAnswerValue = c_answers c ! 0
      in \<lparr>level_id = lid,
          title = js_replace ''{collection}'' (collections ! 0)
                    (js_replace ''{property}'' property (t_title template)),
          character = sel_character sel,
          story = js_replace ''{collection}'' (collections ! 0)
                    (js_replace ''{name}'' (sel_name sel)
                      (js_replace ''{property}'' property
                        (js_replace ''{adjective}'' (sel_adjective sel) (t_story template)))),
          jsonData = c_json c,
          question = c_question c,
          answers = shuffledAnswers,
          correctAnswer = js_index_of shuffledAnswers correctAnswerValue,
          hint = js_replace ''{property}'' property (t_hint template),
          explanation = js_replace ''{type}''
                          (if js_isNaN_Number correctAnswerValue then ''string'' else ''number'')
                          (js_replace ''{answer}'' correctAnswerValue
                            (js_replace ''{property}'' property (t_explanation template))),
          xpReward = nat (js_math_floor (js_divide_int (int lid) 10)) + 10\<rparr>)"

text \<open>The variable \<open>actualAnswer\<close> of \<open>generateLevel\<close>, which every tier assigns.\<close>

definition actual_answer :: "nat \<Rightarrow> string" where
  "actual_answer lid = c_actual (tier_content lid (seed_of lid) (select (seed_of lid)))"

text \<open>What every tier promises of the content it builds.\<close>

definition content_ok :: "content \<Rightarrow> bool" where
  "content_ok c \<longleftrightarrow> length (c_answers c) = 4 \<and> distinct (c_answers c) \<and> c_answers c ! 0 = c_actual c"

subsection \<open>The selections\<close>

lemma select_fields:
  "sel_character (select seed) = (if lcg_random seed 2 = 0 then Wizard else Spy)"
  "sel_isWizard (select seed) \<longleftrightarrow> sel_character (select seed) = Wizard"
  "sel_template (select seed) = templates (sel_character (select seed)) ! lcg_random seed 3"
  "sel_name (select seed) = names (sel_character (select seed)) ! lcg_random seed 10"
  "sel_property (select seed) = properties ! lcg_random seed 10"
  "sel_adjective (select seed) = adjectives ! lcg_random seed 10"
  by (simp_all add: select_def Let_def)

text \<open>The reward \<open>Math.floor(id / 10) + 10\<close> (line 210) is \<open>id div 10 + 10\<close> for every id up
  to \<open>2^52\<close>.\<close>

lemma xpReward_generateLevel:
  assumes "lid \<le> 2 ^ 52"
  shows "xpReward (generateLevel lid) = lid div 10 + 10"
proof -
  have "\<bar>int lid\<bar> \<le> 2 ^ 52" using assms by simp
  then have "js_math_floor (js_divide_int (int lid) 10) = int lid div 10" by (intro js_floor_divide) simp_all
  then show ?thesis by (simp add: generateLevel_def Let_def zdiv_int)
qed

subsection \<open>Every tier builds four distinct answers, the actual one first\<close>

lemma simple_content_ok: "content_ok (simple_content seed (select seed))"
proof -
  let ?ns = "names (sel_character (select seed))" and ?r = "lcg_random seed 10"
  have r: "?r < 10" by (simp add: lcg_random_bound)
  have d: "distinct [?ns ! ?r, ?ns ! ((?r + 1) mod 10), ?ns ! ((?r + 2) mod 10), ?ns ! ((?r + 3) mod 10)]"
    using r by (intro distinct_rotation) simp_all
  have i: "js_index_of ?ns (?ns ! ?r) = int ?r"
    using r by (simp add: js_index_of_distinct)
  show ?thesis
    using d by (simp add: content_ok_def simple_content_def Let_def i nat_mod_offset
        select_fields(4) del: select_fields(1))
qed

lemma nested_content_ok: "content_ok (nested_content seed sel)"
  by (simp add: content_ok_def nested_content_def Let_def)

lemma array_content_ok: "content_ok (array_content seed sel)"
  by (simp add: content_ok_def array_content_def Let_def)

lemma complex_content_ok: "content_ok (complex_content seed sel)"
  by (simp add: content_ok_def complex_content_def Let_def)

lemma tier_content_ok: "content_ok (tier_content lid seed (select seed))"
  by (simp add: tier_content_def simple_content_ok nested_content_ok array_content_ok complex_content_ok)


lemma generated_answers:
  "answers (generateLevel lid) =
     shuffle_answers (seed_of lid) (c_answers (tier_content lid (seed_of lid) (select (seed_of lid))))"
  "correctAnswer (generateLevel lid) =
     correct_index (seed_of lid) (c_answers (tier_content lid (seed_of lid) (select (seed_of lid))))"
  by (simp_all add: generateLevel_def Let_def correct_index_def)

lemma generateLevel_id [simp]: "level_id (generateLevel lid) = lid"
  by (simp add: generateLevel_def Let_def)

lemma generateLevel_story_prefix:
  "\<exists>r. story (generateLevel lid) = character_emoji (character (generateLevel lid)) @ r"
proof -
  let ?sel = "select (seed_of lid)"
  have "sel_template ?sel \<in> set (templates (sel_character ?sel))"
    using lcg_random_bound [of 3 "seed_of lid"] by (simp add: select_fields(3))
  then obtain r where r: "t_story (sel_template ?sel) = character_emoji (sel_character ?sel) @ r"
    using template_story_prefix by blast
  show ?thesis
    by (simp add: generateLevel_def Let_def r js_replace_prefix)
qed

lemma wf_generateLevel: "wf_level (generateLevel lid)"
proof -
  let ?xs = "c_answers (tier_content lid (seed_of lid) (select (seed_of lid)))"
  have ok: "length ?xs = 4" "distinct ?xs"
    using tier_content_ok [of lid "seed_of lid"] by (simp_all add: content_ok_def)
  then have "?xs \<noteq> []" by auto
  then show ?thesis
    using ok correct_index_range [of ?xs "seed_of lid"]
    by (simp add: wf_level_def generated_answers)
qed

text \<open>C1: every generated level, for every id, has exactly four pairwise distinct
  answers and a correct index \<open>0 <= correctAnswer < 4\<close>.\<close>

theorem generateLevel_wf: "wf_level (generateLevel lid)"
  by (rule wf_generateLevel)

text \<open>C2: the answer at index \<open>correctAnswer\<close> of a generated level is the
  \<open>actualAnswer\<close> its tier computed, the value the explanation is built from.\<close>

theorem generateLevel_correct_value:
  "answers (generateLevel lid) ! nat (correctAnswer (generateLevel lid)) = actual_answer lid"
proof -
  let ?c = "tier_content lid (seed_of lid) (select (seed_of lid))"
  have ok: "length (c_answers ?c) = 4" "c_answers ?c ! 0 = c_actual ?c"
    using tier_content_ok [of lid "seed_of lid"] by (simp_all add: content_ok_def)
  then have "c_answers ?c \<noteq> []" by auto
  then show ?thesis
    using ok correct_index_nth [of "c_answers ?c" "seed_of lid"]
    by (simp add: generated_answers actual_answer_def)
qed

text \<open>C3: the shuffle reuses one seed, a multiple of 12345, at every swap; the correct
  answer of a generated level lands at index 0, 3, 0, 1 for ids congruent to 0, 1, 2, 3
  modulo 4, and never at index 2.\<close>

theorem generateLevel_correctAnswer:
  "correctAnswer (generateLevel lid) =
     (if lid mod 4 = 0 then 0 else if lid mod 4 = 1 then 3 else if lid mod 4 = 2 then 0 else 1)"
proof -
  let ?xs = "c_answers (tier_content lid (seed_of lid) (select (seed_of lid)))"
  have ok: "length ?xs = 4" "distinct ?xs"
    using tier_content_ok [of lid "seed_of lid"] by (simp_all add: content_ok_def)
  then obtain a b c d where xs: "?xs = [a, b, c, d]"
    by (auto simp: length_Suc_conv numeral_eq_Suc)
  with ok(2) have "b \<noteq> a" "c \<noteq> a" "d \<noteq> a" by auto
  then show ?thesis
    by (simp add: generated_answers correct_index_def xs shuffle_answers_four seed_of_mod_4)
qed

subsection \<open>Consequences of the single draw\<close>

lemma distinct_all_templates: "distinct (templates Wizard @ templates Spy)"
  by (simp add: templates_def)

lemma select_draw_index:
  "sel_character (select seed) = Wizard \<longleftrightarrow> lcg_random seed 10 < 5"
  using lcg_random_10_wizard [of seed] lcg_random_10_spy [of seed]
  by (auto simp: select_fields(1))

text \<open>C8: the closure \<open>random\<close> never advances its seed, so the name, the property
  and the adjective of a level are read at one and the same index \<open>k\<close> of their tables,
  and the character is the wizard exactly when \<open>k < 5\<close>.\<close>

theorem select_one_draw:
  "\<exists>k < 10. sel_name (select seed) = names (sel_character (select seed)) ! k \<and>
     sel_property (select seed) = properties ! k \<and> sel_adjective (select seed) = adjectives ! k \<and>
     (sel_character (select seed) = Wizard \<longleftrightarrow> k < 5)"
  using lcg_random_bound [of 10 seed] select_draw_index [of seed]
  by (intro exI [of _ "lcg_random seed 10"]) (simp add: select_fields(4-6) del: select_fields(1))

lemma select_template_index:
  "sel_template (select seed) = templates (sel_character (select seed)) ! lcg_random seed 3 \<and>
   (sel_character (select seed) = Wizard \<longrightarrow> lcg_random seed 3 < 2) \<and>
   (sel_character (select seed) = Spy \<longrightarrow> 1 \<le> lcg_random seed 3)"
  using lcg_random_3_wizard [of seed] lcg_random_3_spy [of seed]
  by (auto simp: select_fields(1,3))

text \<open>C9: no level is ever built from the wizard's array template ("Wizard's
  {collection}") or the spy's first template ("Agent's Secret {property}"): the template
  index is read from the same draw as the character.\<close>

theorem select_template_never:
  "sel_template (select seed) \<noteq> templates Wizard ! 2 \<and> sel_template (select seed) \<noteq> templates Spy ! 0"
proof -
  have b: "lcg_random seed 3 < 3" by (simp add: lcg_random_bound)
  show ?thesis
  proof (cases "sel_character (select seed)")
    case Wizard
    with select_template_index [of seed] have "lcg_random seed 3 = 0 \<or> lcg_random seed 3 = 1"
      by auto
    with Wizard select_template_index [of seed] show ?thesis
      by (auto simp: templates_def)
  next
    case Spy
    with b select_template_index [of seed] have "lcg_random seed 3 = 1 \<or> lcg_random seed 3 = 2"
      by auto
    with Spy select_template_index [of seed] show ?thesis
      by (auto simp: templates_def)
  qed
qed


lemma tier1_content: "lid \<le> 100 \<Longrightarrow> tier_content lid seed sel = simple_content seed sel"
  and tier3_content: "300 < lid \<Longrightarrow> lid \<le> 600 \<Longrightarrow> tier_content lid seed sel = array_content seed sel"
  by (simp_all add: tier_content_def)

text \<open>C10: a level of the first tier asks for the character's name only when the
  character is the wizard Merlin: the property index equals the name index, and
  \<open>'name'\<close> is property 0.\<close>

theorem tier1_name_question_merlin:
  assumes "lid \<le> 100" and "sel_property (select (seed_of lid)) = ''name''"
  shows "character (generateLevel lid) = Wizard \<and> actual_answer lid = ''Merlin''"
proof -
  let ?s = "seed_of lid"
  let ?k = "lcg_random ?s 10"
  have k: "?k < 10" by (simp add: lcg_random_bound)
  from assms(2) have "properties ! ?k = properties ! 0"
    by (simp add: select_fields(5) properties_def)
  with k have "?k = 0" by (simp add: nth_eq_iff_index_eq)
  then have w: "sel_character (select ?s) = Wizard" by (simp add: select_draw_index)
  with \<open>?k = 0\<close> have "sel_name (select ?s) = ''Merlin''"
    by (simp add: select_fields(4) names_def del: select_fields(1))
  with w assms show ?thesis
    by (simp add: generateLevel_def actual_answer_def tier1_content simple_content_def Let_def)
qed

theorem tier1_name_question_merlin_witness:
  "14 \<le> (100::nat) \<and> sel_property (select (seed_of 14)) = ''name'' \<and>
   character (generateLevel 14) = Wizard \<and> actual_answer 14 = ''Merlin''"
proof -
  have p: "sel_property (select (seed_of 14)) = ''name''"
    by (simp add: select_def Let_def lcg_random_exact lcg_draw_def seed_of_def properties_def)
  show ?thesis using tier1_name_question_merlin [OF _ p] p by simp
qed


lemma spy_array_template_draw:
  assumes "sel_template (select seed) = templates Spy ! 2"
  shows "sel_character (select seed) = Spy \<and> 6 \<le> lcg_random seed 10"
proof -
  have b: "lcg_random seed 3 < 3" by (simp add: lcg_random_bound)
  have d: "distinct (templates Wizard @ templates Spy)" by (rule distinct_all_templates)
  have spy: "sel_character (select seed) = Spy"
  proof (rule ccontr)
    assume "sel_character (select seed) \<noteq> Spy"
    then have "sel_character (select seed) = Wizard" by (cases "sel_character (select seed)") simp_all
    with select_template_index [of seed] assms have eq: "templates Wizard ! lcg_random seed 3 = templates Spy ! 2"
      and r: "lcg_random seed 3 < 2" by simp_all
    from r have "templates Wizard ! lcg_random seed 3 \<in> set (templates Wizard)" by (simp add: nth_mem)
    moreover have "templates Spy ! 2 \<in> set (templates Spy)" by (simp add: nth_mem)
    ultimately show False using eq d by auto
  qed
  with select_template_index [of seed] assms have "templates Spy ! lcg_random seed 3 = templates Spy ! 2"
    by simp
  with b d have "lcg_random seed 3 = 2" by (simp add: nth_eq_iff_index_eq)
  then have "2 * 233280 \<le> lcg_draw seed * 3"
    by (simp add: lcg_random_exact)
  then have "6 \<le> lcg_random seed 10"
    by (intro lcg_random_above) simp_all
  with spy show ?thesis by simp
qed

text \<open>C11: in the array tier, a level built from the spy's array template is titled
  "Spy Network spells" (the title substitutes \<open>collections[0]\<close>), while its question
  asks for another collection: the draw that picks that template forces the collection
  index to 6 or more.\<close>

theorem array_title_wrong_collection:
  assumes "300 < lid" and "lid \<le> 600" and "sel_template (select (seed_of lid)) = templates Spy ! 2"
  shows "title (generateLevel lid) = ''Spy Network spells'' \<and>
         take 15 (question (generateLevel lid)) \<noteq> ''How many spells''"
proof -
  let ?s = "seed_of lid"
  let ?k = "lcg_random ?s 10"
  from spy_array_template_draw [OF assms(3)] have k: "6 \<le> ?k" ..
  have "?k < 10" by (simp add: lcg_random_bound)
  with k have "?k = 6 \<or> ?k = 7 \<or> ?k = 8 \<or> ?k = 9" by auto
  then have ne: "take 6 (collections ! ?k @ xs) \<noteq> ''spells''" for xs
    by (auto simp: collections_def)
  have q: "question (generateLevel lid) =
      ''How many '' @ collections ! ?k @ '' does '' @ sel_name (select ?s) @ '' have?''"
    using assms(1,2) by (simp add: generateLevel_def tier3_content array_content_def Let_def
        select_fields(4) del: select_fields(1))
  have "title (generateLevel lid) = ''Spy Network spells''"
    using assms(3) by (simp add: generateLevel_def Let_def templates_def collections_def)
  with q ne show ?thesis by simp
qed

theorem array_title_wrong_collection_witness:
  "300 < (301::nat) \<and> (301::nat) \<le> 600 \<and> sel_template (select (seed_of 301)) = templates Spy ! 2 \<and>
   title (generateLevel 301) = ''Spy Network spells'' \<and>
   take 15 (question (generateLevel 301)) \<noteq> ''How many spells''"
proof -
  have t: "sel_template (select (seed_of 301)) = templates Spy ! 2"
    by (simp add: select_def Let_def lcg_random_exact lcg_draw_def seed_of_def)
  show ?thesis using array_title_wrong_collection [OF _ _ t] t by simp
qed

end
