(* ===== verification/LevelCache.thy ===== *)
theory LevelCache
  imports Generator
begin

text \<open>
  The level cache of \<open>GameLevelGenerator\<close> (src/project/data/gameLevels.ts):
  the static \<open>Map<number, GameLevel>\<close> of line 17 is a partial map threaded
  through the operations, \<open>getLevel\<close> (lines 70--80) returns the level with the new
  cache, and the loop of \<open>preloadLevels\<close> (lines 215--221) is \<open>preload_loop\<close>, a
  recursion on the loop index that stops when the index reaches \<open>startId + count\<close>
  or passes 1000. \<open>preloadGameLevels\<close> (lines 451--454) preloads five levels.

  The cache invariant \<open>cache_valid\<close> says that every cached level is the one
  \<open>generateLevel\<close> computes for its id. Under it the cached accessor refines the pure
  function: it returns \<open>generateLevel lid\<close> and leaves a valid cache with \<open>lid\<close> in it.
\<close>

type_synonym level_cache = "nat \<rightharpoonup> game_level"

definition getLevel :: "level_cache \<Rightarrow> nat \<Rightarrow> game_level \<times> level_cache" where
  "getLevel cache lid =
     (case cache lid of
        Some level \<Rightarrow> (level, cache)
      | None \<Rightarrow> (let level = generateLevel lid in (level, cache(lid \<mapsto> level))))"

function preload_loop :: "level_cache \<Rightarrow> nat \<Rightarrow> nat \<Rightarrow> level_cache" where
  "preload_loop cache i stop =
     (if i < stop \<and> i \<le> 1000
      then preload_loop (if cache i = None then snd (getLevel cache i) else cache) (Suc i) stop
      else cache)"
  by pat_completeness auto
termination
  by (relation "measure (\<lambda>(cache, i, stop). stop - i)") auto

declare preload_loop.simps [simp del]

definition preloadLevels :: "level_cache \<Rightarrow> nat \<Rightarrow> nat \<Rightarrow> level_cache" where
  "preloadLevels cache startId count' = preload_loop cache startId (startId + count')"

definition preloadGameLevels :: "level_cache \<Rightarrow> nat \<Rightarrow> level_cache" where
  "preloadGameLevels cache currentLevel = preloadLevels cache currentLevel 5"

definition cache_valid :: "level_cache \<Rightarrow> bool" where
  "cache_valid cache \<longleftrightarrow> (\<forall>lid level. cache lid = Some level \<longrightarrow> level = generateLevel lid)"

lemma cache_valid_empty [simp]: "cache_valid Map.empty"
  by (simp add: cache_valid_def)

lemma cache_valid_upd [simp]:
  "cache_valid cache \<Longrightarrow> cache_valid (cache(lid \<mapsto> generateLevel lid))"
  by (simp add: cache_valid_def)

lemma cache_valid_hit: "cache_valid cache \<Longrightarrow> cache lid = Some level \<Longrightarrow> level = generateLevel lid"
  by (simp add: cache_valid_def)

lemma getLevel_miss [simp]:
  "cache lid = None \<Longrightarrow> getLevel cache lid = (generateLevel lid, cache(lid \<mapsto> generateLevel lid))"
  by (simp add: getLevel_def Let_def)

lemma getLevel_hit [simp]: "cache lid = Some level \<Longrightarrow> getLevel cache lid = (level, cache)"
  by (simp add: getLevel_def)

lemma getLevel_valid:
  "cache_valid cache \<Longrightarrow> getLevel cache lid = (generateLevel lid, cache(lid \<mapsto> generateLevel lid))"
proof (cases "cache lid")
  case (Some level)
  moreover assume "cache_valid cache"
  ultimately have "level = generateLevel lid" by (rule cache_valid_hit [rotated])
  with Some show ?thesis by (simp add: map_upd_triv)
qed simp

text \<open>One iteration of the preload loop, as the cache after it.\<close>

lemma preload_step_valid:
  "cache_valid cache \<Longrightarrow>
   (if cache i = None then snd (getLevel cache i) else cache) = cache(i \<mapsto> generateLevel i)"
  by (auto simp: getLevel_valid cache_valid_def map_upd_triv)

lemma preload_loop_valid:
  "cache_valid cache \<Longrightarrow>
   preload_loop cache i stop = cache ++ (\<lambda>j. if i \<le> j \<and> j < stop \<and> j \<le> 1000 then Some (generateLevel j) else None)"
proof (induction cache i stop rule: preload_loop.induct)
  case (1 cache i stop)
  show ?case
  proof (cases "i < stop \<and> i \<le> 1000")
    case True
    let ?c = "cache(i \<mapsto> generateLevel i)"
    have step: "(if cache i = None then snd (getLevel cache i) else cache) = ?c"
      using "1.prems" by (rule preload_step_valid)
    have "cache_valid ?c" using "1.prems" by simp
    have "preload_loop cache i stop = preload_loop ?c (Suc i) stop"
      using True step by (subst preload_loop.simps) simp
    also have "\<dots> = ?c ++ (\<lambda>j. if Suc i \<le> j \<and> j < stop \<and> j \<le> 1000 then Some (generateLevel j) else None)"
      using \<open>cache_valid ?c\<close> by (rule "1.IH" [OF True, unfolded step])
    also have "\<dots> = cache ++ (\<lambda>j. if i \<le> j \<and> j < stop \<and> j \<le> 1000 then Some (generateLevel j) else None)"
      using True by (auto simp: map_add_def fun_eq_iff Suc_le_eq)
    finally show ?thesis .
  next
    case False
    then show ?thesis
      by (subst preload_loop.simps) (auto simp: map_add_def fun_eq_iff)
  qed
qed

lemma preloadLevels_eq:
  "cache_valid cache \<Longrightarrow>
   preloadLevels cache startId count' =
     cache ++ (\<lambda>j. if startId \<le> j \<and> j < startId + count' \<and> j \<le> 1000 then Some (generateLevel j) else None)"
  by (simp add: preloadLevels_def preload_loop_valid)

subsection \<open>Properties of the cache\<close>

text \<open>C4: under the cache invariant, \<open>getLevel\<close> returns exactly the level that
  \<open>generateLevel\<close> computes, and the cache after the call is valid and holds the id.\<close>

theorem getLevel_refines:
  assumes "cache_valid cache"
  shows "fst (getLevel cache lid) = generateLevel lid \<and> cache_valid (snd (getLevel cache lid)) \<and>
         snd (getLevel cache lid) lid = Some (generateLevel lid)"
  using assms by (simp add: getLevel_valid)

theorem getLevel_refines_witness:
  "cache_valid Map.empty \<and> fst (getLevel Map.empty 11) = generateLevel 11 \<and>
   cache_valid (snd (getLevel Map.empty 11)) \<and> snd (getLevel Map.empty 11) 11 = Some (generateLevel 11)"
  using getLevel_refines [of Map.empty 11] by simp

text \<open>A second \<open>getLevel\<close> of the same id is a cache hit: it returns the same
  level and leaves the cache unchanged, so no level is generated twice.\<close>

lemma getLevel_idempotent:
  assumes "cache_valid cache"
  shows "getLevel (snd (getLevel cache lid)) lid = getLevel cache lid"
  using assms by (simp add: getLevel_valid)

text \<open>C6: \<open>preloadLevels cache startId count\<close> keeps the cache valid and adds exactly
  the ids of \<open>[startId, startId + count)\<close> that are at most 1000.\<close>

theorem preloadLevels_spec:
  assumes "cache_valid cache"
  shows "cache_valid (preloadLevels cache startId count') \<and>
    dom (preloadLevels cache startId count') =
      dom cache \<union> {j. startId \<le> j \<and> j < startId + count' \<and> j \<le> 1000}"
proof
  show "cache_valid (preloadLevels cache startId count')"
    using assms by (auto simp: preloadLevels_eq cache_valid_def map_add_Some_iff split: if_splits)
  show "dom (preloadLevels cache startId count') =
      dom cache \<union> {j. startId \<le> j \<and> j < startId + count' \<and> j \<le> 1000}"
    using assms by (auto simp: preloadLevels_eq split: if_splits)
qed

theorem preloadLevels_spec_witness:
  "cache_valid Map.empty \<and> cache_valid (preloadLevels Map.empty 998 5) \<and>
   dom (preloadLevels Map.empty 998 5) = dom Map.empty \<union> {j. 998 \<le> j \<and> j < 998 + 5 \<and> j \<le> (1000::nat)}"
  using preloadLevels_spec [of Map.empty 998 5] by simp


end
