(* ===== verification/GameLevels.thy ===== *)
theory GameLevels
  imports FixedLevels LevelCache
begin

text \<open>
  The exported object \<open>GameLevels\<close> (src/project/data/gameLevels.ts, lines 420--448)
  through which the screens index levels.

  The source builds it as an object literal with a \<open>length\<close> getter, an iterator, and
  the spread \<open>...new Proxy({}, {get})\<close>. The spread is the ECMAScript operation
  CopyDataProperties over the proxy, modelled here with the proxy's internal methods:
  the keys come from \<open>[[OwnPropertyKeys]]\<close> (\<open>proxy_own_keys\<close>), each key is copied
  when \<open>[[GetOwnProperty]]\<close> (\<open>proxy_get_own_property\<close>) reports an enumerable own
  property, and its value is read with \<open>[[Get]]\<close> (\<open>proxy_get_value\<close>). A proxy
  without the trap for an internal method forwards it to its target. The handler of
  line 433 has only a \<open>get\<close> trap and the target is \<open>{}\<close>, so the keys are those of the
  empty target, nothing is copied, and \<open>GameLevels[i]\<close> reads a missing property,
  \<open>undefined\<close> (\<open>None\<close>).

  \<open>proxy_get\<close> is the trap itself (lines 433--445), on the property name it receives;
  \<open>GameLevels_proxy\<close> is the proxy of line 432; \<open>GameLevels_init\<close> evaluates the
  literal when the module loads. Property names are strings; \<open>GameLevels[i]\<close> for a
  number \<open>i\<close> reads the name \<open>String(i)\<close>. Targets hold data properties only, all
  enumerable, in the order of their keys. \<open>spec_getLevel\<close> is the contract of spec
  section 4.1 that the trap was written to provide.
\<close>

definition GameLevels_length :: int where
  "GameLevels_length = 1000"

definition proxy_get :: "level_cache \<Rightarrow> string \<Rightarrow> game_level option \<times> level_cache" where
  "proxy_get cache prop =
     (case js_number_of_string prop of
        None \<Rightarrow> (None, cache)
      | Some index \<Rightarrow>
          if index < 0 \<or> 1000 \<le> index then (None, cache)
          else if index < 10 then (Some (ORIGINAL_LEVELS ! nat index), cache)
          else (let (level, cache') = getLevel cache (nat index + 1) in (Some level, cache')))"

text \<open>A proxy over a plain object: the target's data properties, and the traps its handler
  defines (\<open>None\<close> where the handler has no such trap). A \<open>getOwnPropertyDescriptor\<close>
  trap answers whether the key is an own property and, if so, whether it is enumerable.\<close>

record proxy_handler =
  trap_get :: "(level_cache \<Rightarrow> string \<Rightarrow> game_level option \<times> level_cache) option"
  trap_ownKeys :: "string list option"
  trap_getOwnPropertyDescriptor :: "(string \<Rightarrow> bool option) option"

record proxy_object =
  proxy_target :: "(string \<times> game_level) list"
  proxy_handler :: proxy_handler

text \<open>\<open>[[OwnPropertyKeys]]\<close>, \<open>[[GetOwnProperty]]\<close> (the enumerable flag of an own
  property) and \<open>[[Get]]\<close> of a proxy, forwarded to the target without a trap.\<close>

definition proxy_own_keys :: "proxy_object \<Rightarrow> string list" where
  "proxy_own_keys p =
     (case trap_ownKeys (proxy_handler p) of None \<Rightarrow> map fst (proxy_target p) | Some ks \<Rightarrow> ks)"

definition proxy_get_own_property :: "proxy_object \<Rightarrow> string \<Rightarrow> bool option" where
  "proxy_get_own_property p k =
     (case trap_getOwnPropertyDescriptor (proxy_handler p) of
        None \<Rightarrow> if k \<in> set (map fst (proxy_target p)) then Some True else None
      | Some f \<Rightarrow> f k)"

definition proxy_get_value ::
  "proxy_object \<Rightarrow> level_cache \<Rightarrow> string \<Rightarrow> game_level option \<times> level_cache" where
  "proxy_get_value p cache k =
     (case trap_get (proxy_handler p) of
        None \<Rightarrow> (map_of (proxy_target p) k, cache)
      | Some f \<Rightarrow> f cache k)"

text \<open>\<open>new Proxy({}, {get})\<close> (lines 432--446).\<close>

definition GameLevels_proxy :: proxy_object where
  "GameLevels_proxy =
     \<lparr>proxy_target = [],
      proxy_handler = \<lparr>trap_get = Some proxy_get, trap_ownKeys = None,
                       trap_getOwnPropertyDescriptor = None\<rparr>\<rparr>"

text \<open>\<open>{...p}\<close> (CopyDataProperties): for each own key, in order, the value read through
  \<open>[[Get]]\<close> when the key is an enumerable own property.\<close>

definition copy_data_properties ::
  "level_cache \<Rightarrow> proxy_object \<Rightarrow> (string \<rightharpoonup> game_level) \<times> level_cache" where
  "copy_data_properties cache p =
     foldl (\<lambda>(props, c) k.
              if proxy_get_own_property p k = Some True
              then (let (v, c') = proxy_get_value p c k in (props(k := v), c'))
              else (props, c))
       (Map.empty, cache) (proxy_own_keys p)"

record game_levels_object =
  gl_props :: "string \<rightharpoonup> game_level"

definition GameLevels_init :: "level_cache \<Rightarrow> game_levels_object \<times> level_cache" where
  "GameLevels_init cache =
     (let (props, cache') = copy_data_properties cache GameLevels_proxy in (\<lparr>gl_props = props\<rparr>, cache'))"

text \<open>\<open>GameLevels[i]\<close> and the iterator of lines 426--430 (\<open>yield this[i]\<close> for
  \<open>i < 1000\<close>).\<close>

definition GameLevels_index :: "game_levels_object \<Rightarrow> int \<Rightarrow> game_level option" where
  "GameLevels_index obj i = gl_props obj (js_string_of_int i)"

definition GameLevels_iterate :: "game_levels_object \<Rightarrow> game_level option list" where
  "GameLevels_iterate obj = map (\<lambda>i. GameLevels_index obj (int i)) [0..<1000]"

text \<open>The contract of spec section 4.1: ids 1--10 are the fixed levels, ids 11--1000 the
  generated ones, and there is no level outside \<open>[1, 1000]\<close>.\<close>

definition spec_getLevel :: "nat \<Rightarrow> game_level option" where
  "spec_getLevel lid =
     (if 1 \<le> lid \<and> lid \<le> 10 then Some (ORIGINAL_LEVELS ! (lid - 1))
      else if 10 < lid \<and> lid \<le> 1000 then Some (generateLevel lid)
      else None)"

subsection \<open>The object and its trap\<close>

lemma copy_data_properties_no_keys [simp]:
  "proxy_own_keys p = [] \<Longrightarrow> copy_data_properties cache p = (Map.empty, cache)"
  by (simp add: copy_data_properties_def)

lemma GameLevels_proxy_own_keys: "proxy_own_keys GameLevels_proxy = []"
  by (simp add: proxy_own_keys_def GameLevels_proxy_def)

lemma spec_getLevel_some_wf:
  assumes "1 \<le> lid" and "lid \<le> 1000"
  shows "\<exists>l. spec_getLevel lid = Some l \<and> wf_level l \<and> level_id l = lid"
proof (cases "lid \<le> 10")
  case True
  let ?l = "ORIGINAL_LEVELS ! (lid - 1)"
  have i: "lid - 1 < length ORIGINAL_LEVELS" using assms True by simp
  have "wf_level ?l" using original_levels_wf i by (simp add: list_all_length)
  moreover have "level_id ?l = [1..<11] ! (lid - 1)"
    using original_levels_wf i by (metis nth_map)
  ultimately show ?thesis using assms True by (simp add: spec_getLevel_def)
next
  case False
  then show ?thesis using assms by (simp add: spec_getLevel_def wf_generateLevel)
qed

lemma spec_level_story_prefix:
  "spec_getLevel lid = Some l \<Longrightarrow> \<exists>r. story l = character_emoji (character l) @ r"
  using original_story_prefix [of "lid - 1"] generateLevel_story_prefix [of lid]
  by (auto simp: spec_getLevel_def split: if_splits)

lemma GameLevels_init_empty: "gl_props (fst (GameLevels_init cache)) = Map.empty \<and> snd (GameLevels_init cache) = cache"
  by (simp add: GameLevels_init_def GameLevels_proxy_own_keys)

text \<open>C23: \<open>GameLevels[i]\<close> is \<open>undefined\<close> for every index, and iterating the object
  yields 1000 times \<open>undefined\<close>: the spread asks the proxy for its own keys, the handler has
  no \<open>ownKeys\<close> trap, so the keys are those of the empty target; the \<open>get\<close> trap is never
  called, and building the object does not touch the level cache.\<close>

theorem GameLevels_all_undefined:
  "GameLevels_index (fst (GameLevels_init cache)) i = None \<and> snd (GameLevels_init cache) = cache \<and>
   GameLevels_iterate (fst (GameLevels_init cache)) = replicate 1000 None"
  by (simp add: GameLevels_init_def copy_data_properties_def proxy_own_keys_def GameLevels_proxy_def
      GameLevels_index_def GameLevels_iterate_def map_replicate_const)

text \<open>C24: the trap, on the name \<open>String(i)\<close>, implements the contract: index \<open>i\<close> is the
  level with id \<open>i + 1\<close>, fixed or generated, and a negative or too large index has no
  level; the level cache stays valid.\<close>

theorem proxy_get_refines:
  assumes "cache_valid cache"
  shows "fst (proxy_get cache (js_string_of_int i)) = (if 0 \<le> i then spec_getLevel (nat i + 1) else None) \<and>
    cache_valid (snd (proxy_get cache (js_string_of_int i)))"
  using assms by (auto simp: proxy_get_def spec_getLevel_def getLevel_valid case_prod_beta)

theorem proxy_get_refines_witness:
  "cache_valid Map.empty \<and>
   fst (proxy_get Map.empty (js_string_of_int 0)) = spec_getLevel 1 \<and>
   title (the (spec_getLevel 1)) = ''The Wizard's Name'' \<and>
   answers (the (spec_getLevel 1)) ! nat (correctAnswer (the (spec_getLevel 1))) = ''Merlin''"
  using proxy_get_refines [of Map.empty 0]
  by (simp add: spec_getLevel_def ORIGINAL_LEVELS_def level_1_def)

end
