(* ===== verification/PlayerData.thy ===== *)
theory PlayerData
  imports LevelData
begin

text \<open>
  The data of the progress store (src/project/utils/storage.ts, lines 1--30).

  \<^item> \<open>PlayerData\<close> is the record \<open>player_data\<close>; its field \<open>character\<close> is called
    \<open>player_character\<close> here, since \<open>character\<close> is already the field of
    \<open>game_level\<close>. Numbers are integers.
  \<^item> \<open>achievements\<close> is a JavaScript array, a mutable object shared by reference:
    \<open>addAchievement\<close> pushes into it in place, and \<open>{...DEFAULT_PLAYER_DATA}\<close> copies
    the reference, not the array. The model keeps arrays in a heap
    (\<open>store_state.heap\<close>, addresses \<open>aref\<close>) and the record holds an address.
    Address \<open>default_ref\<close> is the array of \<open>DEFAULT_PLAYER_DATA\<close>, allocated when the
    module is loaded.
  \<^item> \<open>Partial<PlayerData>\<close>, the argument of \<open>savePlayerData\<close>, is \<open>partial_data\<close>:
    every field present (\<open>Some\<close>) or absent (\<open>None\<close>). Object spread
    \<open>{...a, ...b}\<close> takes each field from \<open>b\<close> when \<open>b\<close> has it (\<open>override\<close>).
  \<^item> The durable slot holds the text \<open>JSON.stringify\<close> produced. The model keeps the
    structure that \<open>JSON.parse\<close> gives back, \<open>json_text\<close>: an object with the
    record's fields present or absent (\<open>JsonObject\<close>), the text \<open>"null"\<close>
    (\<open>JsonNull\<close>), or text that does not parse (\<open>Malformed\<close>). A JSON number, string
    or boolean behaves like an object without the record's fields (spreading it adds
    none of them, reading a field gives \<open>undefined\<close>), so it is a \<open>JsonObject\<close>
    with every field absent; keys other than the record's are not modelled.
\<close>

type_synonym aref = nat

record player_data =
  currentLevel :: int
  totalXP :: int
  levelsCompleted :: int
  achievements :: aref
  player_character :: character
  lastPlayed :: int
  createdAt :: int

record partial_data =
  p_currentLevel :: "int option"
  p_totalXP :: "int option"
  p_levelsCompleted :: "int option"
  p_achievements :: "aref option"
  p_character :: "character option"
  p_lastPlayed :: "int option"
  p_createdAt :: "int option"

record json_player =
  j_currentLevel :: "int option"
  j_totalXP :: "int option"
  j_levelsCompleted :: "int option"
  j_achievements :: "string list option"
  j_character :: "character option"
  j_lastPlayed :: "int option"
  j_createdAt :: "int option"

datatype json_text = JsonObject json_player | JsonNull | Malformed

text \<open>
  The state of the module and of its environment. \<open>playerDataCache\<close> and
  \<open>cacheTimestamp\<close> are the module variables of lines 28--29; \<open>load_time\<close> is the
  value of \<open>Date.now()\<close> when the module was loaded, which \<open>DEFAULT_PLAYER_DATA\<close>
  holds as \<open>lastPlayed\<close> and \<open>createdAt\<close>. \<open>durable\<close> is the AsyncStorage slot
  \<open>@json_quest_player_data\<close>, \<open>pending\<close> the writes issued by \<open>setItem\<close> and not yet
  completed (in order), and \<open>store_failing\<close> whether AsyncStorage calls currently
  fail.
\<close>

record store_state =
  heap :: "aref \<Rightarrow> string list"
  next_ref :: aref
  load_time :: int
  playerDataCache :: "player_data option"
  cacheTimestamp :: int
  durable :: "json_text option"
  pending :: "json_text list"
  store_failing :: bool

definition default_ref :: aref where
  "default_ref = 0"

definition CACHE_DURATION :: int where
  "CACHE_DURATION = 5000"

definition DEFAULT_PLAYER_DATA :: "store_state \<Rightarrow> player_data" where
  "DEFAULT_PLAYER_DATA s =
     \<lparr>currentLevel = 1, totalXP = 0, levelsCompleted = 0, achievements = default_ref,
      player_character = Wizard, lastPlayed = load_time s, createdAt = load_time s\<rparr>"

text \<open>The state right after the module is loaded on a fresh install: lines 17--29
  with an empty AsyncStorage; \<open>DEFAULT_PLAYER_DATA.achievements\<close> is the empty array
  at \<open>default_ref\<close>.\<close>

definition fresh_install :: "int \<Rightarrow> store_state" where
  "fresh_install t =
     \<lparr>heap = (\<lambda>_. []), next_ref = Suc default_ref, load_time = t, playerDataCache = None,
      cacheTimestamp = 0, durable = None, pending = [], store_failing = False\<rparr>"

definition override :: "'a option \<Rightarrow> 'a \<Rightarrow> 'a" where
  "override x d = (case x of Some v \<Rightarrow> v | None \<Rightarrow> d)"

definition full_partial :: "player_data \<Rightarrow> partial_data" where
  "full_partial d =
     \<lparr>p_currentLevel = Some (currentLevel d), p_totalXP = Some (totalXP d),
      p_levelsCompleted = Some (levelsCompleted d), p_achievements = Some (achievements d),
      p_character = Some (player_character d), p_lastPlayed = Some (lastPlayed d),
      p_createdAt = Some (createdAt d)\<rparr>"

definition no_fields :: partial_data where
  "no_fields =
     \<lparr>p_currentLevel = None, p_totalXP = None, p_levelsCompleted = None, p_achievements = None,
      p_character = None, p_lastPlayed = None, p_createdAt = None\<rparr>"

text \<open>\<open>{...cur, ...p}\<close>, field by field.\<close>

definition spread :: "player_data \<Rightarrow> partial_data \<Rightarrow> player_data" where
  "spread cur p =
     \<lparr>currentLevel = override (p_currentLevel p) (currentLevel cur),
      totalXP = override (p_totalXP p) (totalXP cur),
      levelsCompleted = override (p_levelsCompleted p) (levelsCompleted cur),
      achievements = override (p_achievements p) (achievements cur),
      player_character = override (p_character p) (player_character cur),
      lastPlayed = override (p_lastPlayed p) (lastPlayed cur),
      createdAt = override (p_createdAt p) (createdAt cur)\<rparr>"

text \<open>\<open>playerData?.f\<close> on a screen's copy of the record: a missing record (\<open>null\<close>) or a
  missing field is \<open>undefined\<close>.\<close>

definition pd_field :: "(partial_data \<Rightarrow> 'a option) \<Rightarrow> partial_data option \<Rightarrow> 'a option" where
  "pd_field f p = (case p of None \<Rightarrow> None | Some q \<Rightarrow> f q)"

text \<open>\<open>JSON.stringify(d)\<close>: the array is read from the heap at the time of the call.\<close>

definition to_json :: "store_state \<Rightarrow> player_data \<Rightarrow> json_text" where
  "to_json s d = JsonObject
     \<lparr>j_currentLevel = Some (currentLevel d), j_totalXP = Some (totalXP d),
      j_levelsCompleted = Some (levelsCompleted d), j_achievements = Some (heap s (achievements d)),
      j_character = Some (player_character d), j_lastPlayed = Some (lastPlayed d),
      j_createdAt = Some (createdAt d)\<rparr>"

text \<open>
  The object \<open>JSON.parse\<close> returns, as a \<open>partial_data\<close>: parsing allocates a fresh
  array for a present \<open>achievements\<close> field.
\<close>

definition parse_object :: "store_state \<Rightarrow> json_player \<Rightarrow> partial_data \<times> store_state" where
  "parse_object s j =
     (case j_achievements j of
        None \<Rightarrow> (\<lparr>p_currentLevel = j_currentLevel j, p_totalXP = j_totalXP j,
                  p_levelsCompleted = j_levelsCompleted j, p_achievements = None,
                  p_character = j_character j, p_lastPlayed = j_lastPlayed j,
                  p_createdAt = j_createdAt j\<rparr>, s)
      | Some xs \<Rightarrow> (\<lparr>p_currentLevel = j_currentLevel j, p_totalXP = j_totalXP j,
                  p_levelsCompleted = j_levelsCompleted j, p_achievements = Some (next_ref s),
                  p_character = j_character j, p_lastPlayed = j_lastPlayed j,
                  p_createdAt = j_createdAt j\<rparr>,
                  s\<lparr>heap := (heap s)(next_ref s := xs), next_ref := Suc (next_ref s)\<rparr>))"

text \<open>The range every write enforces (lines 81--83), and the ranges the spec states.\<close>

definition clamp_data :: "player_data \<Rightarrow> player_data" where
  "clamp_data d =
     d\<lparr>currentLevel := max 1 (min (currentLevel d) 1000),
       levelsCompleted := max 0 (min (levelsCompleted d) 1000),
       totalXP := max 0 (totalXP d)\<rparr>"

definition ranged :: "player_data \<Rightarrow> bool" where
  "ranged d \<longleftrightarrow> 1 \<le> currentLevel d \<and> currentLevel d \<le> 1000 \<and>
     0 \<le> levelsCompleted d \<and> levelsCompleted d \<le> 1000 \<and> 0 \<le> totalXP d"

lemma override_simps [simp]: "override (Some v) d = v" "override None d = d"
  by (simp_all add: override_def)

lemma spread_full [simp]: "spread cur (full_partial d) = d"
  by (simp add: spread_def full_partial_def)

lemma spread_no_fields [simp]: "spread cur no_fields = cur"
  by (simp add: spread_def no_fields_def)

lemma ranged_clamp [simp]: "ranged (clamp_data d)"
  by (simp add: ranged_def clamp_data_def)

lemma clamp_ranged: "ranged d \<Longrightarrow> clamp_data d = d"
  by (simp add: ranged_def clamp_data_def)

lemma ranged_default [simp]: "ranged (DEFAULT_PLAYER_DATA s)"
  by (simp add: ranged_def DEFAULT_PLAYER_DATA_def)

lemma clamp_data_fields [simp]:
  "currentLevel (clamp_data d) = max 1 (min (currentLevel d) 1000)"
  "levelsCompleted (clamp_data d) = max 0 (min (levelsCompleted d) 1000)"
  "totalXP (clamp_data d) = max 0 (totalXP d)"
  "achievements (clamp_data d) = achievements d"
  "player_character (clamp_data d) = player_character d"
  "lastPlayed (clamp_data d) = lastPlayed d"
  "createdAt (clamp_data d) = createdAt d"
  by (simp_all add: clamp_data_def)

lemma parse_object_heap_old:
  "a < next_ref s \<Longrightarrow> heap (snd (parse_object s j)) a = heap s a"
  by (simp add: parse_object_def split: option.splits)

lemma parse_object_next_ref: "next_ref s \<le> next_ref (snd (parse_object s j))"
  by (simp add: parse_object_def split: option.splits)

lemma parse_object_frame [simp]:
  "load_time (snd (parse_object s j)) = load_time s"
  "playerDataCache (snd (parse_object s j)) = playerDataCache s"
  "cacheTimestamp (snd (parse_object s j)) = cacheTimestamp s"
  "durable (snd (parse_object s j)) = durable s"
  "pending (snd (parse_object s j)) = pending s"
  "store_failing (snd (parse_object s j)) = store_failing s"
  by (simp_all add: parse_object_def split: option.splits)

end
