(* ===== verification/Storage.thy ===== *)
theory Storage
  imports PlayerData
begin

text \<open>
  The operations of \<open>GameStorage\<close> (src/project/utils/storage.ts, lines 32--190) on
  \<open>store_state\<close>. Every operation takes the clock value \<open>now\<close> that its calls of
  \<open>Date.now()\<close> read (one value per operation: the five-second window is what
  matters, and an operation is assumed to finish within one clock reading).

  \<open>getPlayerData\<close> and \<open>savePlayerData\<close> call each other: on an empty store
  \<open>getPlayerData\<close> awaits \<open>savePlayerData(DEFAULT_PLAYER_DATA)\<close>, and
  \<open>savePlayerData\<close> without a cached record awaits \<open>getPlayerData()\<close>. Nothing in
  that cycle makes progress: the cache is only written after the inner call returns.
  The pair is therefore one \<^theory_text>\<open>partial_function (option)\<close>, \<open>run_call\<close>,
  over the datatype \<open>store_call\<close> of the two calls, where \<open>None\<close> is "never
  returns". Each \<open>await\<close> of the source is an \<open>Option.bind\<close>; \<open>try/catch\<close>
  blocks that turn an exception into a default are the branches that return
  \<open>DEFAULT_PLAYER_DATA\<close>, \<open>False\<close> or the unchanged state.

  The write of \<open>savePlayerData\<close> (line 90) is not awaited: it is appended to
  \<open>pending\<close>, and the environment completes it later (\<open>StoreSystem\<close>). The write of
  \<open>resetProgress\<close> (line 109) is awaited: \<open>await_write\<close> completes every pending
  write, in order, and then this one; a write issued while the store fails is lost.
\<close>

datatype store_call = GetPlayerData | SavePlayerData partial_data

definition fresh_cache :: "store_state \<Rightarrow> int \<Rightarrow> player_data option" where
  "fresh_cache s now =
     (case playerDataCache s of
        Some d \<Rightarrow> if now - cacheTimestamp s < CACHE_DURATION then Some d else None
      | None \<Rightarrow> None)"

text \<open>Lines 43--50: \<open>{...DEFAULT_PLAYER_DATA, ...parsedData, currentLevel: ...}\<close>.\<close>

definition validate_stored :: "store_state \<Rightarrow> json_player \<Rightarrow> player_data \<times> store_state" where
  "validate_stored s j =
     (let (p, s') = parse_object s j
      in ((spread (DEFAULT_PLAYER_DATA s) p)
            \<lparr>currentLevel := min (js_or (j_currentLevel j) 1) (js_or (j_levelsCompleted j) 0 + 1)\<rparr>,
          s'))"

text \<open>Lines 74--90, once \<open>currentData\<close> is known.\<close>

definition save_merge :: "store_state \<Rightarrow> player_data \<Rightarrow> partial_data \<Rightarrow> int \<Rightarrow> player_data \<times> store_state" where
  "save_merge s currentData p now =
     (let updatedData = clamp_data ((spread currentData p)\<lparr>lastPlayed := now\<rparr>)
      in (updatedData,
          s\<lparr>playerDataCache := Some updatedData, cacheTimestamp := now,
            pending := pending s @ [to_json s updatedData]\<rparr>))"

partial_function (option) run_call ::
  "store_call \<Rightarrow> int \<Rightarrow> store_state \<Rightarrow> (player_data \<times> store_state) option" where
  "run_call c now s =
     (case c of
        GetPlayerData \<Rightarrow>
          (case fresh_cache s now of
             Some d \<Rightarrow> Some (d, s)
           | None \<Rightarrow>
               if store_failing s then Some (DEFAULT_PLAYER_DATA s, s)
               else (case durable s of
                       Some (JsonObject j) \<Rightarrow>
                         (let (d, s') = validate_stored s j
                          in Some (d, s'\<lparr>playerDataCache := Some d, cacheTimestamp := now\<rparr>))
                     | Some JsonNull \<Rightarrow> Some (DEFAULT_PLAYER_DATA s, s)
                     | Some Malformed \<Rightarrow> Some (DEFAULT_PLAYER_DATA s, s)
                     | None \<Rightarrow>
                         Option.bind (run_call (SavePlayerData (full_partial (DEFAULT_PLAYER_DATA s))) now s)
                           (\<lambda>(_, s'). Some (DEFAULT_PLAYER_DATA s',
                              s'\<lparr>playerDataCache := Some (DEFAULT_PLAYER_DATA s'), cacheTimestamp := now\<rparr>))))
      | SavePlayerData p \<Rightarrow>
          (case playerDataCache s of
             Some currentData \<Rightarrow> Some (save_merge s currentData p now)
           | None \<Rightarrow> Option.bind (run_call GetPlayerData now s)
                      (\<lambda>(currentData, s'). Some (save_merge s' currentData p now))))"

definition getPlayerData :: "int \<Rightarrow> store_state \<Rightarrow> (player_data \<times> store_state) option" where
  "getPlayerData now s = run_call GetPlayerData now s"

definition savePlayerData :: "partial_data \<Rightarrow> int \<Rightarrow> store_state \<Rightarrow> store_state option" where
  "savePlayerData p now s = map_option snd (run_call (SavePlayerData p) now s)"

text \<open>\<open>playerDataCache || await this.getPlayerData()\<close> (lines 73 and 98): the cached
  record however old, else a read.\<close>

definition cached_or_get :: "int \<Rightarrow> store_state \<Rightarrow> (player_data \<times> store_state) option" where
  "cached_or_get now s =
     (case playerDataCache s of Some d \<Rightarrow> Some (d, s) | None \<Rightarrow> getPlayerData now s)"

definition complete_write :: "store_state \<Rightarrow> json_text \<Rightarrow> store_state" where
  "complete_write s w = (if store_failing s then s else s\<lparr>durable := Some w\<rparr>)"

definition await_write :: "store_state \<Rightarrow> json_text \<Rightarrow> store_state" where
  "await_write s w = foldl complete_write (s\<lparr>pending := []\<rparr>) (pending s @ [w])"

definition resetProgress :: "int \<Rightarrow> store_state \<Rightarrow> store_state option" where
  "resetProgress now s =
     Option.bind (cached_or_get now s) (\<lambda>(currentData, s1).
       (let resetData = (DEFAULT_PLAYER_DATA s1)\<lparr>player_character := player_character currentData,
                                                 createdAt := createdAt currentData\<rparr>;
            s2 = s1\<lparr>playerDataCache := Some resetData, cacheTimestamp := now\<rparr>
        in Some (await_write s2 (to_json s2 resetData))))"

definition addAchievement :: "string \<Rightarrow> int \<Rightarrow> store_state \<Rightarrow> store_state option" where
  "addAchievement achievementId now s =
     Option.bind (getPlayerData now s) (\<lambda>(data, s1).
       if achievementId \<in> set (heap s1 (achievements data)) then Some s1
       else savePlayerData (no_fields\<lparr>p_achievements := Some (achievements data)\<rparr>) now
              (s1\<lparr>heap := (heap s1)(achievements data := heap s1 (achievements data) @ [achievementId])\<rparr>))"

definition updateLevel :: "int \<Rightarrow> int \<Rightarrow> int \<Rightarrow> store_state \<Rightarrow> store_state option" where
  "updateLevel level xpGained now s =
     Option.bind (getPlayerData now s) (\<lambda>(data, s1).
       savePlayerData (no_fields\<lparr>p_currentLevel := Some (max level (currentLevel data)),
                                 p_totalXP := Some (totalXP data + xpGained),
                                 p_levelsCompleted := Some (max (level - 1) (levelsCompleted data)),
                                 p_lastPlayed := Some now\<rparr>) now s1)"

definition exportData :: "int \<Rightarrow> store_state \<Rightarrow> (json_text \<times> store_state) option" where
  "exportData now s = map_option (\<lambda>(data, s1). (to_json s1 data, s1)) (getPlayerData now s)"

definition import_validate :: "store_state \<Rightarrow> json_player \<Rightarrow> player_data \<times> store_state" where
  "import_validate s j =
     (let (p, s1) = parse_object s j
      in ((spread (DEFAULT_PLAYER_DATA s) p)
            \<lparr>currentLevel := max 1 (min (js_or (j_currentLevel j) 1) 1000),
             levelsCompleted := max 0 (min (js_or (j_levelsCompleted j) 0) 1000),
             totalXP := max 0 (js_or (j_totalXP j) 0)\<rparr>, s1))"

definition importData :: "json_text \<Rightarrow> int \<Rightarrow> store_state \<Rightarrow> (bool \<times> store_state) option" where
  "importData jsonText now s =
     (case jsonText of
        JsonObject j \<Rightarrow>
          (let (validatedData, s1) = import_validate s j
           in map_option (\<lambda>s2. (True, s2)) (savePlayerData (full_partial validatedData) now s1))
      | JsonNull \<Rightarrow> Some (False, s)
      | Malformed \<Rightarrow> Some (False, s))"

definition unlockLevel :: "int \<Rightarrow> int \<Rightarrow> store_state \<Rightarrow> store_state option" where
  "unlockLevel level now s =
     Option.bind (getPlayerData now s) (\<lambda>(data, s1).
       if level \<le> levelsCompleted data + 1
       then savePlayerData (no_fields\<lparr>p_currentLevel := Some level,
                                      p_levelsCompleted := Some (max (levelsCompleted data) (level - 1))\<rparr>) now s1
       else Some s1)"

definition clearCache :: "store_state \<Rightarrow> store_state" where
  "clearCache s = s\<lparr>playerDataCache := None, cacheTimestamp := 0\<rparr>"

text \<open>The record \<open>resetProgress\<close> builds (lines 99--103).\<close>

definition reset_record :: "store_state \<Rightarrow> player_data \<Rightarrow> player_data" where
  "reset_record s cur =
     (DEFAULT_PLAYER_DATA s)\<lparr>player_character := player_character cur, createdAt := createdAt cur\<rparr>"

text \<open>Inputs for the witnesses: stored records, and a state whose cached record has three
  completed levels.\<close>

definition stored_7_3 :: json_player where
  "stored_7_3 = \<lparr>j_currentLevel = Some 7, j_totalXP = None, j_levelsCompleted = Some 3,
     j_achievements = None, j_character = None, j_lastPlayed = None, j_createdAt = None\<rparr>"

definition stored_record :: json_player where
  "stored_record = \<lparr>j_currentLevel = Some 3, j_totalXP = Some 120, j_levelsCompleted = Some 2,
     j_achievements = Some [], j_character = Some Spy, j_lastPlayed = Some 5, j_createdAt = Some 1\<rparr>"

definition three_done :: store_state where
  "three_done = fresh_install 0\<lparr>playerDataCache := Some ((DEFAULT_PLAYER_DATA (fresh_install 0))\<lparr>levelsCompleted := 3\<rparr>)\<rparr>"

definition level_5000 :: json_player where
  "level_5000 = \<lparr>j_currentLevel = Some 5000, j_totalXP = None, j_levelsCompleted = None,
     j_achievements = None, j_character = None, j_lastPlayed = None, j_createdAt = None\<rparr>"

subsection \<open>The cases of \<open>run_call\<close>\<close>

lemma run_call_get_fresh:
  "fresh_cache s now = Some d \<Longrightarrow> run_call GetPlayerData now s = Some (d, s)"
  by (subst run_call.simps) simp

lemma run_call_get_failing:
  "fresh_cache s now = None \<Longrightarrow> store_failing s \<Longrightarrow>
   run_call GetPlayerData now s = Some (DEFAULT_PLAYER_DATA s, s)"
  by (subst run_call.simps) simp

lemma run_call_get_stored:
  "fresh_cache s now = None \<Longrightarrow> \<not> store_failing s \<Longrightarrow> durable s = Some (JsonObject j) \<Longrightarrow>
   run_call GetPlayerData now s =
     Some (fst (validate_stored s j),
           (snd (validate_stored s j))\<lparr>playerDataCache := Some (fst (validate_stored s j)), cacheTimestamp := now\<rparr>)"
  by (subst run_call.simps) (simp add: case_prod_beta)

lemma run_call_get_unparsable:
  "fresh_cache s now = None \<Longrightarrow> \<not> store_failing s \<Longrightarrow> durable s = Some JsonNull \<or> durable s = Some Malformed \<Longrightarrow>
   run_call GetPlayerData now s = Some (DEFAULT_PLAYER_DATA s, s)"
  by (subst run_call.simps) auto

lemma run_call_get_empty:
  "fresh_cache s now = None \<Longrightarrow> \<not> store_failing s \<Longrightarrow> durable s = None \<Longrightarrow>
   run_call GetPlayerData now s =
     Option.bind (run_call (SavePlayerData (full_partial (DEFAULT_PLAYER_DATA s))) now s)
       (\<lambda>(_, s'). Some (DEFAULT_PLAYER_DATA s',
          s'\<lparr>playerDataCache := Some (DEFAULT_PLAYER_DATA s'), cacheTimestamp := now\<rparr>))"
  by (subst run_call.simps) simp

lemma run_call_save_cached:
  "playerDataCache s = Some cur \<Longrightarrow> run_call (SavePlayerData p) now s = Some (save_merge s cur p now)"
  by (subst run_call.simps) simp

lemma run_call_save_uncached:
  "playerDataCache s = None \<Longrightarrow>
   run_call (SavePlayerData p) now s =
     Option.bind (run_call GetPlayerData now s) (\<lambda>(cur, s'). Some (save_merge s' cur p now))"
  by (subst run_call.simps) simp

lemma fresh_cache_None [simp]: "playerDataCache s = None \<Longrightarrow> fresh_cache s now = None"
  by (simp add: fresh_cache_def)

lemma run_call_hangs:
  assumes "playerDataCache s = None" and "durable s = None" and "\<not> store_failing s"
  shows "run_call c now s = None"
proof (rule ccontr)
  assume "run_call c now s \<noteq> None"
  then obtain r where r: "run_call c now s = Some r" by auto
  have "playerDataCache s = None \<and> durable s = None \<and> \<not> store_failing s \<longrightarrow> False"
    by (rule run_call.raw_induct [where P = "\<lambda>c now s r. playerDataCache s = None \<and> durable s = None \<and>
          \<not> store_failing s \<longrightarrow> False", OF _ r])
       (fastforce simp: bind_eq_Some_conv split: store_call.splits option.splits)
  with assms show False by blast
qed

lemma run_call_returns:
  assumes "playerDataCache s \<noteq> None \<or> durable s \<noteq> None \<or> store_failing s"
  shows "\<exists>r. run_call c now s = Some r"
proof (cases c)
  case GetPlayerData
  show ?thesis
  proof (cases "fresh_cache s now")
    case None
    show ?thesis
    proof (cases "store_failing s")
      case False
      show ?thesis
      proof (cases "durable s")
        case None
        with assms False obtain cur where "playerDataCache s = Some cur" by auto
        with GetPlayerData \<open>fresh_cache s now = None\<close> False None show ?thesis
          by (simp add: run_call_get_empty run_call_save_cached case_prod_beta)
      next
        case (Some t)
        with GetPlayerData \<open>fresh_cache s now = None\<close> False show ?thesis
          by (cases t) (simp_all add: run_call_get_stored run_call_get_unparsable)
      qed
    qed (simp add: GetPlayerData None run_call_get_failing)
  qed (simp add: GetPlayerData run_call_get_fresh)
next
  case (SavePlayerData p)
  show ?thesis
  proof (cases "playerDataCache s")
    case None
    have "\<exists>r. run_call GetPlayerData now s = Some r"
    proof (cases "store_failing s")
      case False
      with assms None obtain t where "durable s = Some t" by auto
      with None False show ?thesis
        by (cases t) (simp_all add: run_call_get_stored run_call_get_unparsable)
    qed (simp add: None run_call_get_failing)
    with SavePlayerData None show ?thesis
      by (auto simp: run_call_save_uncached)
  qed (simp add: SavePlayerData run_call_save_cached)
qed

subsection \<open>Helper lemmas\<close>

lemma run_call_save_result:
  "run_call (SavePlayerData p) now s = Some r \<Longrightarrow> \<exists>cur s1. r = save_merge s1 cur p now"
  by (cases "playerDataCache s")
     (auto simp: run_call_save_cached run_call_save_uncached bind_eq_Some_conv)

lemma fresh_cache_hit:
  "playerDataCache s = Some d \<Longrightarrow> now - cacheTimestamp s < CACHE_DURATION \<Longrightarrow> fresh_cache s now = Some d"
  by (simp add: fresh_cache_def)

lemma getPlayerData_cached:
  "playerDataCache s = Some d \<Longrightarrow> now - cacheTimestamp s < CACHE_DURATION \<Longrightarrow>
   getPlayerData now s = Some (d, s)"
  by (simp add: getPlayerData_def run_call_get_fresh fresh_cache_hit)

lemma savePlayerData_cached:
  "playerDataCache s = Some cur \<Longrightarrow> savePlayerData p now s = Some (snd (save_merge s cur p now))"
  by (simp add: savePlayerData_def run_call_save_cached)

lemma validate_stored_fields:
  "currentLevel (fst (validate_stored s j)) = min (js_or (j_currentLevel j) 1) (js_or (j_levelsCompleted j) 0 + 1)"
  "levelsCompleted (fst (validate_stored s j)) = override (j_levelsCompleted j) 0"
  "totalXP (fst (validate_stored s j)) = override (j_totalXP j) 0"
  by (simp_all add: validate_stored_def parse_object_def spread_def DEFAULT_PLAYER_DATA_def
      case_prod_beta split: option.splits)

subsection \<open>Termination of the store operations\<close>

text \<open>C12: on a fresh install (no cached record, an empty AsyncStorage slot, AsyncStorage
  working) no operation that reads the record ever returns: \<open>getPlayerData\<close> awaits
  \<open>savePlayerData(DEFAULT_PLAYER_DATA)\<close>, which awaits \<open>getPlayerData()\<close> again, and
  neither writes the cache or the store before its inner call returns.\<close>

theorem fresh_install_hangs:
  "getPlayerData now (fresh_install t) = None \<and>
   savePlayerData p now (fresh_install t) = None \<and>
   resetProgress now (fresh_install t) = None \<and>
   addAchievement a now (fresh_install t) = None \<and>
   updateLevel level xp now (fresh_install t) = None \<and>
   unlockLevel level now (fresh_install t) = None \<and>
   exportData now (fresh_install t) = None \<and>
   importData (JsonObject j) now (fresh_install t) = None"
proof -
  have h: "run_call c now' (fresh_install t) = None" for c now'
    by (rule run_call_hangs) (simp_all add: fresh_install_def)
  have h': "run_call c now' (snd (parse_object (fresh_install t) j)) = None" for c now'
    by (rule run_call_hangs) (simp_all add: fresh_install_def)
  have g: "getPlayerData now (fresh_install t) = None"
    by (simp add: getPlayerData_def h)
  have c: "playerDataCache (fresh_install t) = None"
    by (simp add: fresh_install_def)
  have i: "importData (JsonObject j) now (fresh_install t) = None"
    by (simp add: importData_def import_validate_def savePlayerData_def case_prod_beta h')
  show ?thesis
    using g c i by (simp add: savePlayerData_def h resetProgress_def cached_or_get_def
        addAchievement_def updateLevel_def unlockLevel_def exportData_def)
qed

text \<open>C13: in every other state the two calls return: with a cached record, a
  non-empty slot, or a failing AsyncStorage, \<open>getPlayerData\<close> and \<open>savePlayerData\<close>
  terminate.\<close>

theorem store_calls_return:
  assumes "playerDataCache s \<noteq> None \<or> durable s \<noteq> None \<or> store_failing s"
  shows "(\<exists>r. getPlayerData now s = Some r) \<and> (\<exists>s'. savePlayerData p now s = Some s')"
  using run_call_returns [OF assms, of GetPlayerData now] run_call_returns [OF assms, of "SavePlayerData p" now]
  by (auto simp: getPlayerData_def savePlayerData_def)

theorem store_calls_return_witness:
  "store_failing (fresh_install 0\<lparr>store_failing := True\<rparr>) \<and>
   (\<exists>r. getPlayerData 1 (fresh_install 0\<lparr>store_failing := True\<rparr>) = Some r) \<and>
   (\<exists>s'. savePlayerData no_fields 1 (fresh_install 0\<lparr>store_failing := True\<rparr>) = Some s')"
  using store_calls_return [of "fresh_install 0\<lparr>store_failing := True\<rparr>" 1 no_fields] by simp

subsection \<open>Reading, saving, resetting, importing\<close>

text \<open>C14: a read from the store (no fresh cache, AsyncStorage working) merges the stored
  object onto the defaults, clamps \<open>currentLevel\<close> to at most \<open>levelsCompleted + 1\<close>
  (with \<open>x || d\<close> defaults) and caches the result.\<close>

theorem getPlayerData_stored:
  assumes "fresh_cache s now = None" and "\<not> store_failing s" and "durable s = Some (JsonObject j)"
  shows "\<exists>d s'. getPlayerData now s = Some (d, s') \<and> playerDataCache s' = Some d \<and>
    cacheTimestamp s' = now \<and>
    currentLevel d = min (js_or (j_currentLevel j) 1) (js_or (j_levelsCompleted j) 0 + 1) \<and>
    levelsCompleted d = override (j_levelsCompleted j) 0 \<and> totalXP d = override (j_totalXP j) 0"
  using assms by (simp add: getPlayerData_def run_call_get_stored validate_stored_fields)

theorem getPlayerData_stored_witness:
  "fresh_cache (fresh_install 0\<lparr>durable := Some (JsonObject stored_7_3)\<rparr>) 1 = None \<and>
   \<not> store_failing (fresh_install 0\<lparr>durable := Some (JsonObject stored_7_3)\<rparr>) \<and>
   durable (fresh_install 0\<lparr>durable := Some (JsonObject stored_7_3)\<rparr>) = Some (JsonObject stored_7_3) \<and>
   (\<exists>d s'. getPlayerData 1 (fresh_install 0\<lparr>durable := Some (JsonObject stored_7_3)\<rparr>) = Some (d, s') \<and>
      playerDataCache s' = Some d \<and> cacheTimestamp s' = 1 \<and> currentLevel d = 4 \<and>
      levelsCompleted d = 3 \<and> totalXP d = 0)"
proof -
  let ?s = "fresh_install 0\<lparr>durable := Some (JsonObject stored_7_3)\<rparr>"
  have a: "fresh_cache ?s 1 = None" "\<not> store_failing ?s" "durable ?s = Some (JsonObject stored_7_3)"
    by (simp_all add: fresh_install_def)
  show ?thesis using a getPlayerData_stored [OF a] by (simp add: stored_7_3_def)
qed

text \<open>C15: after \<open>savePlayerData(p)\<close>, a \<open>getPlayerData()\<close> within five seconds returns the
  saved, clamped record from the cache without touching the store: the state is unchanged.\<close>

theorem save_then_get_cached:
  assumes "savePlayerData p now s = Some s'" and "now \<le> now'" and "now' - now < CACHE_DURATION"
  shows "\<exists>cur. getPlayerData now' s' = Some (clamp_data ((spread cur p)\<lparr>lastPlayed := now\<rparr>), s')"
proof -
  from assms(1) obtain d where "run_call (SavePlayerData p) now s = Some (d, s')"
    by (auto simp: savePlayerData_def)
  then obtain cur s1 where r: "(d, s') = save_merge s1 cur p now"
    using run_call_save_result by blast
  then have "playerDataCache s' = Some (clamp_data ((spread cur p)\<lparr>lastPlayed := now\<rparr>))"
    and "cacheTimestamp s' = now"
    by (simp_all add: save_merge_def Let_def)
  with assms(2,3) show ?thesis
    by (auto simp: getPlayerData_def run_call_get_fresh fresh_cache_hit)
qed

theorem save_then_get_cached_witness:
  "let s = fresh_install 0\<lparr>playerDataCache := Some (DEFAULT_PLAYER_DATA (fresh_install 0))\<rparr>;
       p = no_fields\<lparr>p_totalXP := Some 50\<rparr>;
       s' = snd (save_merge s (DEFAULT_PLAYER_DATA (fresh_install 0)) p 1)
   in savePlayerData p 1 s = Some s' \<and> (1::int) \<le> 2 \<and> 2 - 1 < CACHE_DURATION \<and>
      (\<exists>cur. getPlayerData 2 s' = Some (clamp_data ((spread cur p)\<lparr>lastPlayed := 1\<rparr>), s'))"
  unfolding Let_def
proof (intro conjI)
  let ?s = "fresh_install 0\<lparr>playerDataCache := Some (DEFAULT_PLAYER_DATA (fresh_install 0))\<rparr>"
  let ?p = "no_fields\<lparr>p_totalXP := Some 50\<rparr>"
  show h: "savePlayerData ?p 1 ?s = Some (snd (save_merge ?s (DEFAULT_PLAYER_DATA (fresh_install 0)) ?p 1))"
    unfolding savePlayerData_def by (subst run_call_save_cached) simp_all
  show "(1::int) \<le> 2" by simp
  show "2 - 1 < CACHE_DURATION" by (simp add: CACHE_DURATION_def)
  show "\<exists>cur. getPlayerData 2 (snd (save_merge ?s (DEFAULT_PLAYER_DATA (fresh_install 0)) ?p 1)) =
      Some (clamp_data ((spread cur ?p)\<lparr>lastPlayed := 1\<rparr>), snd (save_merge ?s (DEFAULT_PLAYER_DATA (fresh_install 0)) ?p 1))"
    by (rule save_then_get_cached [OF h]) (simp_all add: CACHE_DURATION_def)
qed

text \<open>C16: \<open>savePlayerData\<close> clamps each field to its range but does not enforce
  \<open>currentLevel <= levelsCompleted + 1\<close>: saving level 7 with 3 completed levels is
  accepted and read back from the cache as it is.\<close>

theorem save_allows_level_ahead:
  "\<exists>s' d. savePlayerData (no_fields\<lparr>p_currentLevel := Some 7, p_levelsCompleted := Some 3\<rparr>) 1
       (fresh_install 0\<lparr>playerDataCache := Some (DEFAULT_PLAYER_DATA (fresh_install 0))\<rparr>) = Some s' \<and>
     getPlayerData 2 s' = Some (d, s') \<and> currentLevel d = 7 \<and> levelsCompleted d = 3 \<and>
     levelsCompleted d + 1 < currentLevel d"
proof -
  let ?s = "fresh_install 0\<lparr>playerDataCache := Some (DEFAULT_PLAYER_DATA (fresh_install 0))\<rparr>"
  let ?p = "no_fields\<lparr>p_currentLevel := Some 7, p_levelsCompleted := Some 3\<rparr>"
  let ?r = "save_merge ?s (DEFAULT_PLAYER_DATA (fresh_install 0)) ?p 1"
  have h: "savePlayerData ?p 1 ?s = Some (snd ?r)"
    unfolding savePlayerData_def by (subst run_call_save_cached) simp_all
  have c: "playerDataCache (snd ?r) = Some (fst ?r)" "cacheTimestamp (snd ?r) = 1"
    by (simp_all add: save_merge_def Let_def)
  then have g: "getPlayerData 2 (snd ?r) = Some (fst ?r, snd ?r)"
    by (simp add: getPlayerData_def run_call_get_fresh fresh_cache_hit CACHE_DURATION_def)
  have c7: "currentLevel (fst ?r) = 7" and c3: "levelsCompleted (fst ?r) = 3"
    by (simp_all add: save_merge_def Let_def spread_def no_fields_def)
  then have lt: "levelsCompleted (fst ?r) + 1 < currentLevel (fst ?r)" by simp
  show ?thesis
    by (rule exI [of _ "snd ?r"], rule exI [of _ "fst ?r"]) (intro conjI h g c7 c3 lt)
qed

lemma complete_write_simps [simp]:
  "heap (complete_write s w) = heap s"
  "playerDataCache (complete_write s w) = playerDataCache s"
  "cacheTimestamp (complete_write s w) = cacheTimestamp s"
  "store_failing (complete_write s w) = store_failing s"
  "pending (complete_write s w) = pending s"
  "load_time (complete_write s w) = load_time s"
  "next_ref (complete_write s w) = next_ref s"
  "durable (complete_write s w) = (if store_failing s then durable s else Some w)"
  by (simp_all add: complete_write_def)

lemma foldl_complete_write_frame [simp]:
  "heap (foldl complete_write s ws) = heap s"
  "playerDataCache (foldl complete_write s ws) = playerDataCache s"
  "cacheTimestamp (foldl complete_write s ws) = cacheTimestamp s"
  "store_failing (foldl complete_write s ws) = store_failing s"
  "pending (foldl complete_write s ws) = pending s"
  "load_time (foldl complete_write s ws) = load_time s"
  "next_ref (foldl complete_write s ws) = next_ref s"
  by (induction ws arbitrary: s) simp_all

lemma foldl_complete_write_durable:
  "durable (foldl complete_write s ws) =
     (if store_failing s \<or> ws = [] then durable s else Some (last ws))"
  by (induction ws arbitrary: s) auto

lemma await_write_simps [simp]:
  "heap (await_write s w) = heap s"
  "playerDataCache (await_write s w) = playerDataCache s"
  "cacheTimestamp (await_write s w) = cacheTimestamp s"
  "store_failing (await_write s w) = store_failing s"
  "pending (await_write s w) = []"
  "load_time (await_write s w) = load_time s"
  "next_ref (await_write s w) = next_ref s"
  "durable (await_write s w) = (if store_failing s then durable s else Some w)"
  by (simp_all add: await_write_def foldl_complete_write_durable)

lemma resetProgress_cached_eq:
  "playerDataCache s = Some cur \<Longrightarrow>
   resetProgress now s =
     Some (await_write (s\<lparr>playerDataCache := Some (reset_record s cur), cacheTimestamp := now\<rparr>)
                       (to_json s (reset_record s cur)))"
  by (simp add: resetProgress_def cached_or_get_def reset_record_def Let_def to_json_def)

text \<open>C17: \<open>resetProgress\<close> with a cached record replaces it by the defaults, keeping only
  the character and the creation date, and awaits the write: when AsyncStorage works, the
  store holds the reset record when the call returns.\<close>

theorem resetProgress_cached:
  assumes "playerDataCache s = Some cur"
  shows "\<exists>s'. resetProgress now s = Some s' \<and>
    playerDataCache s' = Some ((DEFAULT_PLAYER_DATA s)\<lparr>player_character := player_character cur,
                                                      createdAt := createdAt cur\<rparr>) \<and>
    cacheTimestamp s' = now \<and> pending s' = [] \<and>
    durable s' = (if store_failing s then durable s else Some (to_json s' (the (playerDataCache s'))))"
  using assms by (simp add: resetProgress_cached_eq reset_record_def to_json_def DEFAULT_PLAYER_DATA_def)

theorem resetProgress_cached_witness:
  "playerDataCache three_done = Some ((DEFAULT_PLAYER_DATA (fresh_install 0))\<lparr>levelsCompleted := 3\<rparr>) \<and>
   (\<exists>s'. resetProgress 7 three_done = Some s' \<and>
      playerDataCache s' = Some ((DEFAULT_PLAYER_DATA three_done)\<lparr>player_character := Wizard, createdAt := 0\<rparr>) \<and>
      cacheTimestamp s' = 7 \<and> pending s' = [] \<and>
      durable s' = (if store_failing three_done then durable three_done
                    else Some (to_json s' (the (playerDataCache s')))))"
proof -
  have c: "playerDataCache three_done = Some ((DEFAULT_PLAYER_DATA (fresh_install 0))\<lparr>levelsCompleted := 3\<rparr>)"
    by (simp add: three_done_def)
  show ?thesis using c resetProgress_cached [OF c, of 7] by (simp add: DEFAULT_PLAYER_DATA_def fresh_install_def)
qed

text \<open>C18: the reset record shares the array of \<open>DEFAULT_PLAYER_DATA\<close>. An achievement
  added within five seconds of a reset is pushed into that shared array, so the next reset
  keeps it: after reset, \<open>addAchievement('first_level')\<close>, reset, the record and the store
  still list \<open>first_level\<close>.\<close>

theorem reset_keeps_new_achievement:
  "\<exists>s1 s2 s3 d.
     resetProgress 10 (fresh_install 0\<lparr>durable := Some (JsonObject stored_record)\<rparr>) = Some s1 \<and>
     addAchievement ''first_level'' 11 s1 = Some s2 \<and>
     resetProgress 12 s2 = Some s3 \<and>
     playerDataCache s3 = Some d \<and> totalXP d = 0 \<and> levelsCompleted d = 0 \<and>
     heap s3 (achievements d) = [''first_level''] \<and> durable s3 = Some (to_json s3 d)"
proof -
  let ?s0 = "fresh_install 0\<lparr>durable := Some (JsonObject stored_record)\<rparr>"
  have r1: "\<exists>s1. resetProgress 10 ?s0 = Some s1 \<and> playerDataCache s1 = Some ((DEFAULT_PLAYER_DATA ?s0)\<lparr>player_character := Spy, createdAt := 1\<rparr>)
     \<and> cacheTimestamp s1 = 10 \<and> heap s1 default_ref = [] \<and> \<not> store_failing s1"
    by (simp add: resetProgress_def cached_or_get_def getPlayerData_def run_call_get_stored
        fresh_install_def validate_stored_def parse_object_def stored_record_def spread_def
        DEFAULT_PLAYER_DATA_def Let_def default_ref_def)
  then obtain s1 where s1: "resetProgress 10 ?s0 = Some s1"
    and c1: "playerDataCache s1 = Some ((DEFAULT_PLAYER_DATA ?s0)\<lparr>player_character := Spy, createdAt := 1\<rparr>)"
    and t1: "cacheTimestamp s1 = 10" and h1: "heap s1 default_ref = []" and f1: "\<not> store_failing s1"
    by blast
  let ?d1 = "(DEFAULT_PLAYER_DATA ?s0)\<lparr>player_character := Spy, createdAt := 1\<rparr>"
  let ?s1' = "s1\<lparr>heap := (heap s1)(default_ref := [''first_level''])\<rparr>"
  have a: "addAchievement ''first_level'' 11 s1 =
      savePlayerData (no_fields\<lparr>p_achievements := Some default_ref\<rparr>) 11 ?s1'"
    using c1 t1 h1 by (simp add: addAchievement_def getPlayerData_def run_call_get_fresh fresh_cache_hit
        CACHE_DURATION_def DEFAULT_PLAYER_DATA_def)
  let ?s2 = "snd (save_merge ?s1' ?d1 (no_fields\<lparr>p_achievements := Some default_ref\<rparr>) 11)"
  have s2: "addAchievement ''first_level'' 11 s1 = Some ?s2"
    unfolding a savePlayerData_def using c1 by (subst run_call_save_cached) simp_all
  have c2: "\<exists>d2. playerDataCache ?s2 = Some d2 \<and> heap ?s2 default_ref = [''first_level''] \<and> \<not> store_failing ?s2"
    using f1 by (simp add: save_merge_def Let_def)
  then obtain d2 where c2': "playerDataCache ?s2 = Some d2" and h2: "heap ?s2 default_ref = [''first_level'']"
    and f2: "\<not> store_failing ?s2" by blast
  let ?d = "reset_record ?s2 d2"
  let ?s3 = "await_write (?s2\<lparr>playerDataCache := Some ?d, cacheTimestamp := 12\<rparr>) (to_json ?s2 ?d)"
  have s3: "resetProgress 12 ?s2 = Some ?s3"
    using c2' by (rule resetProgress_cached_eq)
  have "heap ?s3 (achievements ?d) = [''first_level'']"
    using h2 by (simp add: reset_record_def DEFAULT_PLAYER_DATA_def)
  moreover have "totalXP ?d = 0" "levelsCompleted ?d = 0"
    by (simp_all add: reset_record_def DEFAULT_PLAYER_DATA_def)
  moreover have "durable ?s3 = Some (to_json ?s3 ?d)" "playerDataCache ?s3 = Some ?d"
    using f2 by (simp_all add: to_json_def)
  ultimately show ?thesis
    using s1 s2 s3 by blast
qed

lemma run_call_heap:
  "run_call c now s = Some r \<Longrightarrow>
   next_ref s \<le> next_ref (snd r) \<and> (\<forall>a < next_ref s. heap (snd r) a = heap s a)"
  by (rule run_call.raw_induct [where P = "\<lambda>c now s r. next_ref s \<le> next_ref (snd r) \<and>
        (\<forall>a < next_ref s. heap (snd r) a = heap s a)"])
     (fastforce simp: bind_eq_Some_conv validate_stored_def parse_object_def save_merge_def Let_def
        split: store_call.splits option.splits if_splits json_text.splits prod.splits)+

lemma getPlayerData_post:
  "getPlayerData now s = Some (d, s1) \<Longrightarrow>
   playerDataCache s1 \<noteq> None \<or> durable s1 \<noteq> None \<or> store_failing s1"
  unfolding getPlayerData_def
  by (subst (asm) run_call.simps)
     (auto simp: bind_eq_Some_conv validate_stored_def parse_object_def Let_def
        split: option.splits if_splits json_text.splits prod.splits)

lemma savePlayerData_result:
  assumes "playerDataCache s \<noteq> None \<or> durable s \<noteq> None \<or> store_failing s"
  shows "\<exists>cur s2 d2. savePlayerData p now s = Some s2 \<and> playerDataCache s2 = Some d2 \<and>
           d2 = clamp_data ((spread cur p)\<lparr>lastPlayed := now\<rparr>) \<and>
           next_ref s \<le> next_ref s2 \<and> (\<forall>a < next_ref s. heap s2 a = heap s a)"
proof -
  obtain r where r: "run_call (SavePlayerData p) now s = Some r"
    using run_call_returns [OF assms] by blast
  then obtain cur s1 where "r = save_merge s1 cur p now"
    using run_call_save_result by blast
  with r run_call_heap [OF r] show ?thesis
    by (auto simp: savePlayerData_def save_merge_def Let_def)
qed

text \<open>C19: \<open>unlockLevel(level)\<close> is a no-op when \<open>level > levelsCompleted + 1\<close>; otherwise
  it sets \<open>currentLevel\<close> to the level, clamped to \<open>[1, 1000]\<close>.\<close>

theorem unlockLevel_spec:
  assumes "getPlayerData now s = Some (d, s1)"
  shows "(levelsCompleted d + 1 < level \<longrightarrow> unlockLevel level now s = Some s1) \<and>
    (level \<le> levelsCompleted d + 1 \<longrightarrow>
      (\<exists>s2 d2. unlockLevel level now s = Some s2 \<and> playerDataCache s2 = Some d2 \<and>
         currentLevel d2 = max 1 (min level 1000) \<and>
         levelsCompleted d2 = max 0 (min (max (levelsCompleted d) (level - 1)) 1000)))"
proof (intro conjI impI)
  assume "levelsCompleted d + 1 < level"
  with assms show "unlockLevel level now s = Some s1"
    by (simp add: unlockLevel_def)
next
  assume le: "level \<le> levelsCompleted d + 1"
  let ?p = "no_fields\<lparr>p_currentLevel := Some level,
                      p_levelsCompleted := Some (max (levelsCompleted d) (level - 1))\<rparr>"
  from savePlayerData_result [OF getPlayerData_post [OF assms], of ?p now]
  obtain cur s2 d2 where "savePlayerData ?p now s1 = Some s2" "playerDataCache s2 = Some d2"
    "d2 = clamp_data ((spread cur ?p)\<lparr>lastPlayed := now\<rparr>)" by blast
  with assms le show "\<exists>s2 d2. unlockLevel level now s = Some s2 \<and> playerDataCache s2 = Some d2 \<and>
         currentLevel d2 = max 1 (min level 1000) \<and>
         levelsCompleted d2 = max 0 (min (max (levelsCompleted d) (level - 1)) 1000)"
    by (simp add: unlockLevel_def spread_def no_fields_def)
qed

theorem unlockLevel_spec_witness:
  "getPlayerData 1 three_done = Some ((DEFAULT_PLAYER_DATA (fresh_install 0))\<lparr>levelsCompleted := 3\<rparr>, three_done) \<and>
   unlockLevel 10 1 three_done = Some three_done \<and>
   (\<exists>s2 d2. unlockLevel 4 1 three_done = Some s2 \<and> playerDataCache s2 = Some d2 \<and> currentLevel d2 = 4)"
proof -
  have g: "getPlayerData 1 three_done = Some ((DEFAULT_PLAYER_DATA (fresh_install 0))\<lparr>levelsCompleted := 3\<rparr>, three_done)"
    by (simp add: getPlayerData_def run_call_get_fresh fresh_cache_hit three_done_def fresh_install_def
        CACHE_DURATION_def)
  have "levelsCompleted ((DEFAULT_PLAYER_DATA (fresh_install 0))\<lparr>levelsCompleted := 3\<rparr>) = 3" by simp
  with g unlockLevel_spec [OF g, of 10] unlockLevel_spec [OF g, of 4] show ?thesis
    by auto
qed

lemma import_validate_fields:
  "currentLevel (fst (import_validate s j)) = max 1 (min (js_or (j_currentLevel j) 1) 1000)"
  "levelsCompleted (fst (import_validate s j)) = max 0 (min (js_or (j_levelsCompleted j) 0) 1000)"
  "totalXP (fst (import_validate s j)) = max 0 (js_or (j_totalXP j) 0)"
  "ranged (fst (import_validate s j))"
  by (simp_all add: import_validate_def case_prod_beta ranged_def)

lemma import_validate_state:
  "snd (import_validate s j) = snd (parse_object s j)"
  by (simp add: import_validate_def case_prod_beta)

text \<open>C20: \<open>importData\<close> returns \<open>false\<close> and changes nothing on text that does not parse
  or parses to \<open>null\<close>; on an object it clamps the three counters and saves, returning
  \<open>true\<close>.\<close>

theorem importData_spec:
  assumes "playerDataCache s \<noteq> None \<or> durable s \<noteq> None \<or> store_failing s"
  shows "importData Malformed now s = Some (False, s) \<and> importData JsonNull now s = Some (False, s) \<and>
    (\<exists>s' d. importData (JsonObject j) now s = Some (True, s') \<and> playerDataCache s' = Some d \<and>
       currentLevel d = max 1 (min (js_or (j_currentLevel j) 1) 1000) \<and>
       levelsCompleted d = max 0 (min (js_or (j_levelsCompleted j) 0) 1000) \<and>
       totalXP d = max 0 (js_or (j_totalXP j) 0))"
proof -
  let ?v = "fst (import_validate s j)" and ?s1 = "snd (import_validate s j)"
  have "playerDataCache ?s1 \<noteq> None \<or> durable ?s1 \<noteq> None \<or> store_failing ?s1"
    using assms by (simp add: import_validate_state)
  from savePlayerData_result [OF this, of "full_partial ?v" now]
  obtain cur s2 d2 where "savePlayerData (full_partial ?v) now ?s1 = Some s2" "playerDataCache s2 = Some d2"
    "d2 = clamp_data (?v\<lparr>lastPlayed := now\<rparr>)" by auto
  then show ?thesis
    by (simp add: importData_def case_prod_beta import_validate_fields)
qed

theorem importData_spec_witness:
  "playerDataCache three_done = Some ((DEFAULT_PLAYER_DATA (fresh_install 0))\<lparr>levelsCompleted := 3\<rparr>) \<and>
   importData Malformed 1 three_done = Some (False, three_done) \<and>
   (\<exists>s' d. importData (JsonObject level_5000) 1 three_done = Some (True, s') \<and>
      playerDataCache s' = Some d \<and> currentLevel d = 1000 \<and> levelsCompleted d = 0)"
proof -
  have a: "playerDataCache three_done \<noteq> None \<or> durable three_done \<noteq> None \<or> store_failing three_done"
    by (simp add: three_done_def)
  show ?thesis using importData_spec [OF a, of 1 level_5000] by (simp add: level_5000_def three_done_def) blast
qed

lemma js_or_ranged:
  "1 \<le> x \<Longrightarrow> js_or (Some x) 1 = x"
  "0 \<le> x \<Longrightarrow> js_or (Some x) 0 = x"
  by simp_all

text \<open>C21: importing the text \<open>exportData\<close> produced restores a well-ranged record: the
  counters, character, creation date and achievements come back; only \<open>lastPlayed\<close> is
  stamped anew.\<close>

theorem export_import_roundtrip:
  assumes g: "getPlayerData now s = Some (d, s1)" and r: "ranged d"
  shows "\<exists>t s2 d2. exportData now s = Some (t, s1) \<and> importData t now' s1 = Some (True, s2) \<and>
    playerDataCache s2 = Some d2 \<and>
    currentLevel d2 = currentLevel d \<and> totalXP d2 = totalXP d \<and> levelsCompleted d2 = levelsCompleted d \<and>
    player_character d2 = player_character d \<and> createdAt d2 = createdAt d \<and> lastPlayed d2 = now' \<and>
    heap s2 (achievements d2) = heap s1 (achievements d)"
proof -
  let ?j = "\<lparr>j_currentLevel = Some (currentLevel d), j_totalXP = Some (totalXP d),
      j_levelsCompleted = Some (levelsCompleted d), j_achievements = Some (heap s1 (achievements d)),
      j_character = Some (player_character d), j_lastPlayed = Some (lastPlayed d),
      j_createdAt = Some (createdAt d)\<rparr>"
  have e: "exportData now s = Some (JsonObject ?j, s1)"
    using g by (simp add: exportData_def to_json_def)
  let ?v = "fst (import_validate s1 ?j)" and ?s1 = "snd (import_validate s1 ?j)"
  have v: "?v = d\<lparr>achievements := next_ref s1, lastPlayed := lastPlayed d\<rparr>"
    using r by (simp add: import_validate_def parse_object_def spread_def ranged_def
        DEFAULT_PLAYER_DATA_def js_or_ranged)
  have rv: "ranged ?v" by (simp add: import_validate_fields)
  have s1: "?s1 = s1\<lparr>heap := (heap s1)(next_ref s1 := heap s1 (achievements d)), next_ref := Suc (next_ref s1)\<rparr>"
    by (simp add: import_validate_state parse_object_def)
  have "playerDataCache ?s1 \<noteq> None \<or> durable ?s1 \<noteq> None \<or> store_failing ?s1"
    using getPlayerData_post [OF g] by (simp add: s1)
  from savePlayerData_result [OF this, of "full_partial ?v" now']
  obtain cur s2 d2 where sv: "savePlayerData (full_partial ?v) now' ?s1 = Some s2"
    and c2: "playerDataCache s2 = Some d2" and d2: "d2 = clamp_data (?v\<lparr>lastPlayed := now'\<rparr>)"
    and h2: "\<forall>a < next_ref ?s1. heap s2 a = heap ?s1 a" by auto
  have "clamp_data (?v\<lparr>lastPlayed := now'\<rparr>) = ?v\<lparr>lastPlayed := now'\<rparr>"
    using rv by (intro clamp_ranged) (simp add: ranged_def)
  with d2 have d2': "d2 = ?v\<lparr>lastPlayed := now'\<rparr>" by simp
  have i: "importData (JsonObject ?j) now' s1 = Some (True, s2)"
    using sv by (simp add: importData_def case_prod_beta)
  have "heap s2 (achievements d2) = heap s1 (achievements d)"
    using h2 by (simp add: d2' v s1)
  with e i c2 show ?thesis
    by (intro exI [of _ "JsonObject ?j"] exI [of _ s2] exI [of _ d2]) (simp add: d2' v)
qed

theorem export_import_roundtrip_witness:
  "getPlayerData 1 three_done = Some ((DEFAULT_PLAYER_DATA (fresh_install 0))\<lparr>levelsCompleted := 3\<rparr>, three_done) \<and>
   ranged ((DEFAULT_PLAYER_DATA (fresh_install 0))\<lparr>levelsCompleted := 3\<rparr>) \<and>
   (\<exists>t s2 d2. exportData 1 three_done = Some (t, three_done) \<and> importData t 2 three_done = Some (True, s2) \<and>
      playerDataCache s2 = Some d2 \<and> levelsCompleted d2 = 3 \<and> lastPlayed d2 = 2)"
proof -
  have g: "getPlayerData 1 three_done = Some ((DEFAULT_PLAYER_DATA (fresh_install 0))\<lparr>levelsCompleted := 3\<rparr>, three_done)"
    by (simp add: getPlayerData_def run_call_get_fresh fresh_cache_hit three_done_def fresh_install_def
        CACHE_DURATION_def)
  have r: "ranged ((DEFAULT_PLAYER_DATA (fresh_install 0))\<lparr>levelsCompleted := 3\<rparr>)"
    by (simp add: ranged_def DEFAULT_PLAYER_DATA_def)
  from export_import_roundtrip [OF g r, of 2] g r show ?thesis by auto
qed

end
