(* ===== verification/GameScreen.thy ===== *)
theory GameScreen
  imports GameLevels Storage
begin

text \<open>
  The logic of the game screen (src/project/app/(tabs)/game.tsx, lines 9--178 and the
  render conditions of lines 185--347).

  \<^item> Its state variables (lines 10--16) are the record \<open>game_state\<close>; \<open>playerData\<close>
    is \<open>null\<close> until loaded, then the record read or the object \<open>handleCorrectAnswer\<close>
    built, hence a \<open>partial_data option\<close>. The two \<open>setTimeout\<close> callbacks not yet run
    are the queue \<open>g_timers\<close>; the "Try Again" alert, while shown, is \<open>g_alert\<close>.
  \<^item> The memoised \<open>level\<close> (lines 19--22) is \<open>screen_level lookup\<close>, over the function
    that reads \<open>GameLevels[i]\<close>: the interface between the screen and the level module.
    \<open>real_lookup\<close> is the object the module exports (theory \<open>GameLevels\<close>),
    \<open>intended_lookup\<close> the contract it was written to provide.
  \<^item> Every handler is a function of the state; the ones that call the store take and
    return a \<open>store_state\<close> and are \<open>None\<close> when the store call never returns.
  \<^item> \<open>game_step\<close> is the screen as a state machine: one rule per handler, enabled when the
    rendered screen offers it (a button not disabled, the modal or the alert showing).
    The asynchronous completions (the record loaded, a timer fired) are steps too.

  Handlers are modelled reading the state of the latest render. \<open>handleAnswerSelect\<close>
  lists only \<open>isAnswered\<close> and \<open>level?.correctAnswer\<close> as dependencies, so in React it
  may call a \<open>handleCorrectAnswer\<close> from an older render; that staleness is not modelled.
\<close>

datatype game_timer = AnswerTimer bool | IncorrectTimer

record game_state =
  g_currentLevel :: int
  g_selectedAnswer :: "int option"
  g_isAnswered :: bool
  g_playerData :: "partial_data option"
  g_showFeedback :: bool
  g_showLevelComplete :: bool
  g_isLoading :: bool
  g_timers :: "game_timer list"
  g_alert :: "string option"

definition game_init :: game_state where
  "game_init =
     \<lparr>g_currentLevel = 1, g_selectedAnswer = None, g_isAnswered = False, g_playerData = None,
      g_showFeedback = False, g_showLevelComplete = False, g_isLoading = True, g_timers = [],
      g_alert = None\<rparr>"

type_synonym level_lookup = "int \<Rightarrow> game_level option"

definition real_lookup :: level_lookup where
  "real_lookup i = GameLevels_index (fst (GameLevels_init Map.empty)) i"

definition intended_lookup :: level_lookup where
  "intended_lookup i = (if 0 \<le> i then spec_getLevel (nat i + 1) else None)"

definition screen_level :: "level_lookup \<Rightarrow> game_state \<Rightarrow> game_level option" where
  "screen_level lookup g =
     (if g_currentLevel g < 1 \<or> GameLevels_length < g_currentLevel g then None
      else lookup (g_currentLevel g - 1))"

text \<open>\<open>playerData?.character || 'wizard'\<close> (lines 25--27).\<close>

definition displayCharacter :: "game_state \<Rightarrow> character" where
  "displayCharacter g = (case pd_field p_character (g_playerData g) of Some c \<Rightarrow> c | None \<Rightarrow> Wizard)"

text \<open>Lines 52--78: the story rewritten for the player's character.\<close>

definition adapt_story :: "character \<Rightarrow> string \<Rightarrow> string" where
  "adapt_story c s =
     (case c of
        Wizard \<Rightarrow> js_replace_all ''intel'' ''spell data'' (js_replace_all ''classified'' ''magical''
                   (js_replace_all ''mission'' ''quest'' (js_replace_all ''spy'' ''wizard''
                     (js_replace_all ''Agent'' ''Wizard'' (js_replace_all spy_emoji wizard_emoji s)))))
      | Spy \<Rightarrow> js_replace_all ''spell data'' ''intel'' (js_replace_all ''magical'' ''classified''
                (js_replace_all ''quest'' ''mission'' (js_replace_all ''wizard'' ''spy''
                  (js_replace_all ''Wizard'' ''Agent'' (js_replace_all wizard_emoji spy_emoji s))))))"

definition adaptedStory :: "level_lookup \<Rightarrow> game_state \<Rightarrow> string" where
  "adaptedStory lookup g =
     (case screen_level lookup g of
        None \<Rightarrow> []
      | Some level \<Rightarrow>
          if character level = displayCharacter g then story level
          else adapt_story (displayCharacter g) (story level))"

text \<open>\<open>handleAnswerSelect\<close> (lines 80--96), on a rendered level: the feedback is shown at
  once and the verdict runs after one second.\<close>

definition handleAnswerSelect :: "game_level \<Rightarrow> int \<Rightarrow> game_state \<Rightarrow> game_state" where
  "handleAnswerSelect level answerIndex g =
     (if g_isAnswered g then g
      else g\<lparr>g_selectedAnswer := Some answerIndex, g_isAnswered := True, g_showFeedback := True,
             g_timers := g_timers g @ [AnswerTimer (answerIndex = correctAnswer level)]\<rparr>)"

text \<open>The object \<open>handleCorrectAnswer\<close> saves (lines 100--110).\<close>

definition correct_update :: "game_level \<Rightarrow> int \<Rightarrow> game_state \<Rightarrow> partial_data" where
  "correct_update level now g =
     (let pd = g_playerData g; cl = g_currentLevel g;
          newXP = js_or (pd_field p_totalXP pd) 0 + int (xpReward level);
          newLevel = (if cl < GameLevels_length then cl + 1 else cl)
      in (case pd of None \<Rightarrow> no_fields | Some p \<Rightarrow> p)
           \<lparr>p_currentLevel := Some newLevel, p_totalXP := Some newXP,
            p_levelsCompleted := Some (max (js_or (pd_field p_levelsCompleted pd) 0) cl),
            p_lastPlayed := Some now\<rparr>)"

text \<open>\<open>handleCorrectAnswer\<close> (lines 98--118). Without a level, \<open>level.xpReward\<close> throws and
  the \<open>catch\<close> leaves everything as it is.\<close>

definition handleCorrectAnswer ::
  "level_lookup \<Rightarrow> int \<Rightarrow> game_state \<times> store_state \<Rightarrow> (game_state \<times> store_state) option" where
  "handleCorrectAnswer lookup now = (\<lambda>(g, st).
     (case screen_level lookup g of
        None \<Rightarrow> Some (g, st)
      | Some level \<Rightarrow>
          (let updatedData = correct_update level now g
           in map_option (\<lambda>st'. (g\<lparr>g_playerData := Some updatedData, g_showLevelComplete := True\<rparr>, st'))
                (savePlayerData updatedData now st))))"

text \<open>\<open>handleIncorrectAnswer\<close> (lines 120--133) schedules the alert; the timer shows it.\<close>

definition handleIncorrectAnswer :: "game_state \<Rightarrow> game_state" where
  "handleIncorrectAnswer g = g\<lparr>g_timers := g_timers g @ [IncorrectTimer]\<rparr>"

definition resetLevel :: "game_state \<Rightarrow> game_state" where
  "resetLevel g =
     g\<lparr>g_selectedAnswer := None, g_isAnswered := False, g_showFeedback := False,
       g_showLevelComplete := False\<rparr>"

definition handleNextLevel :: "game_state \<Rightarrow> game_state" where
  "handleNextLevel g =
     resetLevel (if g_currentLevel g < GameLevels_length then g\<lparr>g_currentLevel := g_currentLevel g + 1\<rparr> else g)"

definition handlePreviousLevel :: "game_state \<Rightarrow> game_state" where
  "handlePreviousLevel g =
     (if 1 < g_currentLevel g \<and> g_currentLevel g \<le> js_or (pd_field p_levelsCompleted (g_playerData g)) 0 + 1
      then resetLevel (g\<lparr>g_currentLevel := g_currentLevel g - 1\<rparr>)
      else g)"

text \<open>\<open>getAnswerStyle\<close> and \<open>getAnswerIcon\<close> (lines 156--178): the style and icon of answer
  \<open>index\<close> on the rendered level.\<close>

datatype answer_style = StyleAnswer | StyleSelected | StyleCorrect | StyleIncorrect

datatype answer_icon = IconCheck | IconX

definition getAnswerStyle :: "game_level \<Rightarrow> game_state \<Rightarrow> int \<Rightarrow> answer_style" where
  "getAnswerStyle level g index =
     (if \<not> g_showFeedback g then (if g_selectedAnswer g = Some index then StyleSelected else StyleAnswer)
      else if index = correctAnswer level then StyleCorrect
      else if g_selectedAnswer g = Some index then StyleIncorrect
      else StyleAnswer)"

definition getAnswerIcon :: "game_level \<Rightarrow> game_state \<Rightarrow> int \<Rightarrow> answer_icon option" where
  "getAnswerIcon level g index =
     (if \<not> g_showFeedback g then None
      else if index = correctAnswer level then Some IconCheck
      else if g_selectedAnswer g = Some index then Some IconX
      else None)"

text \<open>\<open>loadPlayerData\<close> (lines 38--49), run once when the screen mounts.\<close>

definition game_load :: "int \<Rightarrow> game_state \<times> store_state \<Rightarrow> (game_state \<times> store_state) option" where
  "game_load now = (\<lambda>(g, st).
     Option.bind (getPlayerData now st) (\<lambda>(data, st').
       Some (g\<lparr>g_playerData := Some (full_partial data), g_currentLevel := currentLevel data,
                g_isLoading := False\<rparr>, st')))"

text \<open>The screen part of loading a record: what \<open>game_load\<close> does once the store returned.\<close>

definition load_done :: "player_data \<Rightarrow> game_state \<Rightarrow> game_state" where
  "load_done data g =
     g\<lparr>g_playerData := Some (full_partial data), g_currentLevel := currentLevel data, g_isLoading := False\<rparr>"

text \<open>The buttons the rendered screen offers (lines 185--347): nothing while loading; the
  "Play Again" button when there is no level; otherwise the answers while not answered,
  the arrows (left disabled at level 1, right beyond the completed levels), the modal's
  button while it shows and the alert's "Retry".\<close>

datatype game_event =
    LoadDone player_data
  | SelectAnswer int
  | FireTimer int
  | PressRetry
  | PressPrevious
  | PressNext
  | PressModalNext
  | PressContinue
  | PressPlayAgain

definition modal_free :: "game_state \<Rightarrow> bool" where
  "modal_free g \<longleftrightarrow> \<not> g_showLevelComplete g \<and> g_alert g = None"

text \<open>One step of the screen. A fired answer timer runs \<open>handleCorrectAnswer\<close>, whose screen
  part is \<open>correct_update\<close> (the save itself is the store's business, theory \<open>Storage\<close>).\<close>

inductive game_step :: "level_lookup \<Rightarrow> game_state \<Rightarrow> game_event \<Rightarrow> game_state \<Rightarrow> bool" where
  load: "g_isLoading g \<Longrightarrow> game_step lookup g (LoadDone d) (load_done d g)"
| select: "\<not> g_isLoading g \<Longrightarrow> screen_level lookup g = Some level \<Longrightarrow> modal_free g \<Longrightarrow>
    \<not> g_isAnswered g \<Longrightarrow> 0 \<le> i \<Longrightarrow> i < int (length (answers level)) \<Longrightarrow>
    game_step lookup g (SelectAnswer i) (handleAnswerSelect level i g)"
| timer_correct: "g_timers g = AnswerTimer True # ts \<Longrightarrow> screen_level lookup g = Some level \<Longrightarrow>
    game_step lookup g (FireTimer now)
      ((g\<lparr>g_timers := ts\<rparr>)\<lparr>g_playerData := Some (correct_update level now (g\<lparr>g_timers := ts\<rparr>)),
                              g_showLevelComplete := True\<rparr>)"
| timer_correct_none: "g_timers g = AnswerTimer True # ts \<Longrightarrow> screen_level lookup g = None \<Longrightarrow>
    game_step lookup g (FireTimer now) (g\<lparr>g_timers := ts\<rparr>)"
| timer_incorrect: "g_timers g = AnswerTimer False # ts \<Longrightarrow>
    game_step lookup g (FireTimer now) (handleIncorrectAnswer (g\<lparr>g_timers := ts\<rparr>))"
| timer_alert: "g_timers g = IncorrectTimer # ts \<Longrightarrow> screen_level lookup g = Some level \<Longrightarrow>
    game_step lookup g (FireTimer now) (g\<lparr>g_timers := ts, g_alert := Some (explanation level)\<rparr>)"
| timer_alert_none: "g_timers g = IncorrectTimer # ts \<Longrightarrow> screen_level lookup g = None \<Longrightarrow>
    game_step lookup g (FireTimer now) (g\<lparr>g_timers := ts\<rparr>)"
| retry: "g_alert g \<noteq> None \<Longrightarrow> game_step lookup g PressRetry (resetLevel (g\<lparr>g_alert := None\<rparr>))"
| press_previous: "\<not> g_isLoading g \<Longrightarrow> screen_level lookup g \<noteq> None \<Longrightarrow> modal_free g \<Longrightarrow>
    1 < g_currentLevel g \<Longrightarrow> game_step lookup g PressPrevious (handlePreviousLevel g)"
| press_next: "\<not> g_isLoading g \<Longrightarrow> screen_level lookup g \<noteq> None \<Longrightarrow> modal_free g \<Longrightarrow>
    g_currentLevel g \<le> js_or (pd_field p_levelsCompleted (g_playerData g)) 0 \<Longrightarrow>
    game_step lookup g PressNext (handleNextLevel g)"
| modal_next: "g_showLevelComplete g \<Longrightarrow> screen_level lookup g \<noteq> None \<Longrightarrow>
    g_currentLevel g < GameLevels_length \<Longrightarrow> game_step lookup g PressModalNext (handleNextLevel g)"
| modal_continue: "g_showLevelComplete g \<Longrightarrow> screen_level lookup g \<noteq> None \<Longrightarrow>
    \<not> g_currentLevel g < GameLevels_length \<Longrightarrow>
    game_step lookup g PressContinue (g\<lparr>g_showLevelComplete := False\<rparr>)"
| play_again: "\<not> g_isLoading g \<Longrightarrow> screen_level lookup g = None \<Longrightarrow>
    game_step lookup g PressPlayAgain (g\<lparr>g_currentLevel := 1\<rparr>)"

text \<open>The states the screen reaches from its initial state, every loaded record satisfying
  \<open>ok\<close>.\<close>

inductive game_reach :: "level_lookup \<Rightarrow> (player_data \<Rightarrow> bool) \<Rightarrow> game_state \<Rightarrow> bool"
  for lookup ok where
  init: "game_reach lookup ok game_init"
| step: "game_reach lookup ok g \<Longrightarrow> game_step lookup g e g' \<Longrightarrow>
    (case e of LoadDone d \<Rightarrow> ok d | _ \<Rightarrow> True) \<Longrightarrow> game_reach lookup ok g'"

text \<open>A record whose level is playable: the ranges of the spec and
  \<open>currentLevel <= levelsCompleted + 1\<close>.\<close>

definition progress_ok :: "int \<Rightarrow> int \<Rightarrow> bool" where
  "progress_ok cl lc \<longleftrightarrow> 1 \<le> cl \<and> cl \<le> 1000 \<and> 0 \<le> lc \<and> lc \<le> 1000 \<and> cl \<le> lc + 1"

definition consistent_record :: "player_data \<Rightarrow> bool" where
  "consistent_record d \<longleftrightarrow> progress_ok (currentLevel d) (levelsCompleted d)"

text \<open>The screen invariant: before the record is loaded nothing is pending; afterwards the
  shown level is playable for the screen's copy of the record, and the "Level Complete"
  modal only shows for a completed level.\<close>

definition screen_inv :: "game_state \<Rightarrow> bool" where
  "screen_inv g =
     (case g_playerData g of
        None \<Rightarrow> g_isLoading g \<and> g_timers g = [] \<and> \<not> g_showLevelComplete g \<and> g_alert g = None
      | Some p \<Rightarrow> \<not> g_isLoading g \<and>
          progress_ok (g_currentLevel g) (js_or (p_levelsCompleted p) 0) \<and>
          (g_showLevelComplete g \<longrightarrow> g_currentLevel g \<le> js_or (p_levelsCompleted p) 0))"

inductive_cases game_stepE: "game_step lookup g e g'"

text \<open>An input for the witnesses: the screen right after loading the default record.\<close>

definition loaded_default :: game_state where
  "loaded_default = load_done (DEFAULT_PLAYER_DATA (fresh_install 0)) game_init"

lemmas screen_defs = screen_inv_def progress_ok_def modal_free_def resetLevel_def pd_field_def
  GameLevels_length_def

lemma screen_inv_init: "screen_inv game_init"
  by (simp add: screen_inv_def game_init_def)

lemma screen_inv_step:
  assumes "game_step lookup g e g'" and "screen_inv g"
    and "case e of LoadDone d \<Rightarrow> consistent_record d | _ \<Rightarrow> True"
  shows "screen_inv g'"
  using assms
proof (induction rule: game_step.induct)
  case (load g lookup d)
  then show ?case
    by (auto simp: screen_defs load_done_def full_partial_def consistent_record_def split: option.splits)
next
  case (timer_correct g ts lookup level now)
  then show ?case
    by (auto simp: screen_defs correct_update_def Let_def split: option.splits)
next
  case (press_previous g lookup)
  then show ?case
    by (auto simp: screen_defs handlePreviousLevel_def split: option.splits)
next
  case (press_next g lookup)
  then show ?case
    by (auto simp: screen_defs handleNextLevel_def split: option.splits)
next
  case (modal_next g lookup)
  then show ?case
    by (auto simp: screen_defs handleNextLevel_def split: option.splits)
qed (auto simp: screen_defs handleAnswerSelect_def handleIncorrectAnswer_def split: option.splits)

lemma reach_screen_inv: "game_reach lookup consistent_record g \<Longrightarrow> screen_inv g"
proof (induction rule: game_reach.induct)
  case init
  then show ?case by (rule screen_inv_init)
next
  case (step g e g')
  then show ?case by (blast intro: screen_inv_step)
qed


lemma real_lookup_None [simp]: "real_lookup i = None"
  by (simp add: real_lookup_def GameLevels_index_def GameLevels_init_empty)

lemma screen_level_real [simp]: "screen_level real_lookup g = None"
  by (simp add: screen_level_def)

lemma screen_level_intended:
  "progress_ok (g_currentLevel g) lc \<Longrightarrow>
   \<exists>level. screen_level intended_lookup g = Some level \<and> wf_level level \<and>
     level_id level = nat (g_currentLevel g)"
  using spec_getLevel_some_wf [of "nat (g_currentLevel g)"]
  by (auto simp: screen_level_def intended_lookup_def progress_ok_def GameLevels_length_def
      nat_diff_distrib' Suc_nat_eq_nat_zadd1 [symmetric])

text \<open>C32: whatever the level module returns, when every record the screen loads has a
  playable level (\<open>1 <= currentLevel <= levelsCompleted + 1 <= 1001\<close>), no sequence of
  button presses and timers takes the screen to an unplayable level: the arrows and the
  modal keep \<open>currentLevel <= levelsCompleted + 1\<close>, and the modal only follows a completed
  level.\<close>

theorem game_reach_screen_inv:
  assumes "game_reach lookup consistent_record g"
  shows "screen_inv g"
  using assms by (rule reach_screen_inv)

theorem game_reach_screen_inv_witness:
  "game_reach intended_lookup consistent_record (load_done (DEFAULT_PLAYER_DATA (fresh_install 0)) game_init) \<and>
   screen_inv (load_done (DEFAULT_PLAYER_DATA (fresh_install 0)) game_init)"
proof -
  have "game_reach intended_lookup consistent_record (load_done (DEFAULT_PLAYER_DATA (fresh_install 0)) game_init)"
    by (rule game_reach.step [OF game_reach.init game_step.load])
       (simp_all add: game_init_def consistent_record_def progress_ok_def DEFAULT_PLAYER_DATA_def)
  then show ?thesis using game_reach_screen_inv by blast
qed


text \<open>C34: with levels as the contract provides them, a player on a playable level below
  1000 can always progress: selecting the correct answer, letting the timer fire and
  pressing the modal's "Next Level" moves the screen to the next level, which is playable
  again.\<close>

theorem correct_answer_advances:
  assumes r: "game_reach intended_lookup consistent_record g" and nl: "\<not> g_isLoading g"
    and mf: "modal_free g" and na: "\<not> g_isAnswered g" and nt: "g_timers g = []"
    and top: "g_currentLevel g < 1000"
  shows "\<exists>level g1 g2 g3. screen_level intended_lookup g = Some level \<and>
    game_step intended_lookup g (SelectAnswer (correctAnswer level)) g1 \<and>
    game_step intended_lookup g1 (FireTimer now) g2 \<and> g_showLevelComplete g2 \<and>
    game_step intended_lookup g2 PressModalNext g3 \<and> g_currentLevel g3 = g_currentLevel g + 1 \<and>
    game_reach intended_lookup consistent_record g3"
proof -
  have inv: "screen_inv g" using r by (rule reach_screen_inv)
  with nl obtain p where p: "g_playerData g = Some p"
    and ok: "progress_ok (g_currentLevel g) (js_or (p_levelsCompleted p) 0)"
    by (auto simp: screen_inv_def split: option.splits)
  from screen_level_intended [OF ok] obtain level where
    lv: "screen_level intended_lookup g = Some level" and wf: "wf_level level" by blast
  let ?i = "correctAnswer level"
  let ?g1 = "handleAnswerSelect level ?i g"
  have s1: "game_step intended_lookup g (SelectAnswer ?i) ?g1"
    using nl lv mf na wf by (intro game_step.select) (auto simp: wf_level_def)
  have t1: "g_timers ?g1 = [AnswerTimer True]" and l1: "screen_level intended_lookup ?g1 = Some level"
    using na nt lv by (simp_all add: handleAnswerSelect_def screen_level_def split: if_splits)
  let ?g2 = "(?g1\<lparr>g_timers := []\<rparr>)\<lparr>g_playerData := Some (correct_update level now (?g1\<lparr>g_timers := []\<rparr>)),
                                  g_showLevelComplete := True\<rparr>"
  have s2: "game_step intended_lookup ?g1 (FireTimer now) ?g2"
    using t1 l1 by (rule game_step.timer_correct)
  have l2: "screen_level intended_lookup ?g2 \<noteq> None"
    using lv by (simp add: handleAnswerSelect_def screen_level_def split: if_splits)
  have c2: "g_currentLevel ?g2 < GameLevels_length"
    using top na by (simp add: handleAnswerSelect_def GameLevels_length_def)
  have s3: "game_step intended_lookup ?g2 PressModalNext (handleNextLevel ?g2)"
    using l2 c2 by (intro game_step.modal_next) simp_all
  have r1: "game_reach intended_lookup consistent_record ?g1"
    using r s1 by (rule game_reach.step) simp
  have r2: "game_reach intended_lookup consistent_record ?g2"
    using r1 s2 by (rule game_reach.step) simp
  have r3: "game_reach intended_lookup consistent_record (handleNextLevel ?g2)"
    using r2 s3 by (rule game_reach.step) simp
  have c3: "g_currentLevel (handleNextLevel ?g2) = g_currentLevel g + 1"
    using top na by (simp add: handleNextLevel_def handleAnswerSelect_def resetLevel_def GameLevels_length_def)
  have sh: "g_showLevelComplete ?g2" by simp
  show ?thesis
    by (rule exI [of _ level], rule exI [of _ ?g1], rule exI [of _ ?g2], rule exI [of _ "handleNextLevel ?g2"])
       (intro conjI lv s1 s2 sh s3 c3 r3)
qed

theorem correct_answer_advances_witness:
  "game_reach intended_lookup consistent_record (load_done (DEFAULT_PLAYER_DATA (fresh_install 0)) game_init) \<and>
   \<not> g_isLoading (load_done (DEFAULT_PLAYER_DATA (fresh_install 0)) game_init) \<and>
   modal_free (load_done (DEFAULT_PLAYER_DATA (fresh_install 0)) game_init) \<and>
   \<not> g_isAnswered (load_done (DEFAULT_PLAYER_DATA (fresh_install 0)) game_init) \<and>
   g_timers (load_done (DEFAULT_PLAYER_DATA (fresh_install 0)) game_init) = [] \<and>
   g_currentLevel (load_done (DEFAULT_PLAYER_DATA (fresh_install 0)) game_init) < 1000 \<and>
   (\<exists>g3. game_reach intended_lookup consistent_record g3 \<and> g_currentLevel g3 = 2)"
proof -
  let ?g = "load_done (DEFAULT_PLAYER_DATA (fresh_install 0)) game_init"
  have r: "game_reach intended_lookup consistent_record ?g"
    by (rule game_reach.step [OF game_reach.init game_step.load])
       (simp_all add: game_init_def consistent_record_def progress_ok_def DEFAULT_PLAYER_DATA_def)
  have f: "\<not> g_isLoading ?g" "modal_free ?g" "\<not> g_isAnswered ?g" "g_timers ?g = []"
    "g_currentLevel ?g < 1000" and c: "g_currentLevel ?g = 1"
    by (simp_all add: load_done_def game_init_def modal_free_def DEFAULT_PLAYER_DATA_def)
  from correct_answer_advances [OF r f, of 1] c show ?thesis using r f by auto
qed

subsection \<open>The story shown\<close>

lemma not_in_wizard_emoji [simp]:
  "CHR ''A'' \<notin> set wizard_emoji" "CHR ''s'' \<notin> set wizard_emoji" "CHR ''m'' \<notin> set wizard_emoji"
  "CHR ''c'' \<notin> set wizard_emoji" "CHR ''i'' \<notin> set wizard_emoji"
  by (simp_all add: wizard_emoji_def)

lemma not_in_spy_emoji [simp]:
  "CHR ''W'' \<notin> set spy_emoji" "CHR ''w'' \<notin> set spy_emoji" "CHR ''q'' \<notin> set spy_emoji"
  "CHR ''m'' \<notin> set spy_emoji" "CHR ''s'' \<notin> set spy_emoji"
  by (simp_all add: spy_emoji_def)

lemma emoji_ne [simp]: "wizard_emoji \<noteq> []" "spy_emoji \<noteq> []"
  by (simp_all add: wizard_emoji_def spy_emoji_def)

lemma adapt_story_prefix:
  "c' \<noteq> c \<Longrightarrow> \<exists>r'. adapt_story c (character_emoji c' @ r) = character_emoji c @ r'"
  by (cases c; cases c')
     (simp_all add: adapt_story_def character_emoji_def js_replace_all_head js_replace_all_prefix)

text \<open>C35: with levels as the contract provides them, the story on screen always opens with the
  emoji of the player's character: the level's own story when the characters agree, and
  otherwise the rewritten one, whose first replacement swaps the emoji.\<close>

theorem adaptedStory_prefix:
  assumes "screen_level intended_lookup g = Some level"
  shows "\<exists>r. adaptedStory intended_lookup g = character_emoji (displayCharacter g) @ r"
proof -
  have "spec_getLevel (nat (g_currentLevel g - 1) + 1) = Some level"
    using assms by (simp add: screen_level_def intended_lookup_def split: if_splits)
  then obtain r where r: "story level = character_emoji (character level) @ r"
    using spec_level_story_prefix by blast
  show ?thesis
  proof (cases "character level = displayCharacter g")
    case True
    then show ?thesis using assms r by (simp add: adaptedStory_def)
  next
    case False
    then show ?thesis using assms r adapt_story_prefix [of "character level" "displayCharacter g" r]
      by (simp add: adaptedStory_def)
  qed
qed

theorem adaptedStory_prefix_witness:
  "screen_level intended_lookup (game_init\<lparr>g_playerData := Some (no_fields\<lparr>p_character := Some Spy\<rparr>)\<rparr>) =
     Some level_1 \<and>
   (\<exists>r. adaptedStory intended_lookup (game_init\<lparr>g_playerData := Some (no_fields\<lparr>p_character := Some Spy\<rparr>)\<rparr>) =
      spy_emoji @ r)"
proof -
  let ?g = "game_init\<lparr>g_playerData := Some (no_fields\<lparr>p_character := Some Spy\<rparr>)\<rparr>"
  have l: "screen_level intended_lookup ?g = Some level_1"
    by (simp add: screen_level_def intended_lookup_def spec_getLevel_def game_init_def GameLevels_length_def
        ORIGINAL_LEVELS_def)
  have "displayCharacter ?g = Spy" by (simp add: displayCharacter_def pd_field_def no_fields_def)
  then show ?thesis using l adaptedStory_prefix [OF l] by (simp add: character_emoji_def)
qed

subsection \<open>The save of a correct answer\<close>

text \<open>C36: a correct answer on level \<open>n < 1000\<close>, with a record cached by the store, leaves
  in the store's cache the next level, the XP raised by the level's reward,
  \<open>levelsCompleted = max(levelsCompleted, n)\<close> and the answer time, and opens the modal.\<close>

theorem handleCorrectAnswer_saves:
  assumes lv: "screen_level lookup g = Some level" and c: "playerDataCache st = Some cur"
    and p: "g_playerData g = Some p" and ok: "progress_ok (g_currentLevel g) (js_or (p_levelsCompleted p) 0)"
    and top: "g_currentLevel g < 1000" and xp: "0 \<le> js_or (p_totalXP p) 0"
  shows "\<exists>g' st' d. handleCorrectAnswer lookup now (g, st) = Some (g', st') \<and>
    playerDataCache st' = Some d \<and> currentLevel d = g_currentLevel g + 1 \<and>
    totalXP d = js_or (p_totalXP p) 0 + int (xpReward level) \<and>
    levelsCompleted d = max (js_or (p_levelsCompleted p) 0) (g_currentLevel g) \<and>
    lastPlayed d = now \<and> g_showLevelComplete g'"
proof -
  let ?u = "correct_update level now g"
  have h: "handleCorrectAnswer lookup now (g, st) =
             Some (g\<lparr>g_playerData := Some ?u, g_showLevelComplete := True\<rparr>, snd (save_merge st cur ?u now))"
    using lv c by (simp add: handleCorrectAnswer_def Let_def savePlayerData_cached)
  have "playerDataCache (snd (save_merge st cur ?u now)) = Some (fst (save_merge st cur ?u now))"
    by (simp add: save_merge_def Let_def)
  moreover have "currentLevel (fst (save_merge st cur ?u now)) = g_currentLevel g + 1 \<and>
    totalXP (fst (save_merge st cur ?u now)) = js_or (p_totalXP p) 0 + int (xpReward level) \<and>
    levelsCompleted (fst (save_merge st cur ?u now)) = max (js_or (p_levelsCompleted p) 0) (g_currentLevel g) \<and>
    lastPlayed (fst (save_merge st cur ?u now)) = now"
    using ok top xp p
    by (simp add: save_merge_def Let_def spread_def correct_update_def pd_field_def progress_ok_def
        GameLevels_length_def, simp add: max_def)
  ultimately show ?thesis using h by auto
qed

theorem handleCorrectAnswer_saves_witness:
  "screen_level intended_lookup loaded_default = Some level_1 \<and>
   playerDataCache three_done = Some ((DEFAULT_PLAYER_DATA (fresh_install 0))\<lparr>levelsCompleted := 3\<rparr>) \<and>
   g_playerData loaded_default = Some (full_partial (DEFAULT_PLAYER_DATA (fresh_install 0))) \<and>
   progress_ok (g_currentLevel loaded_default)
     (js_or (p_levelsCompleted (full_partial (DEFAULT_PLAYER_DATA (fresh_install 0)))) 0) \<and>
   g_currentLevel loaded_default < 1000 \<and>
   0 \<le> js_or (p_totalXP (full_partial (DEFAULT_PLAYER_DATA (fresh_install 0)))) 0 \<and>
   (\<exists>g' st' d. handleCorrectAnswer intended_lookup 5 (loaded_default, three_done) = Some (g', st') \<and>
      playerDataCache st' = Some d \<and> currentLevel d = 2 \<and> totalXP d = 10 \<and> levelsCompleted d = 1)"
proof -
  have l: "screen_level intended_lookup loaded_default = Some level_1"
    by (simp add: loaded_default_def load_done_def screen_level_def intended_lookup_def spec_getLevel_def
        game_init_def GameLevels_length_def ORIGINAL_LEVELS_def DEFAULT_PLAYER_DATA_def)
  have c: "playerDataCache three_done = Some ((DEFAULT_PLAYER_DATA (fresh_install 0))\<lparr>levelsCompleted := 3\<rparr>)"
    by (simp add: three_done_def)
  have p: "g_playerData loaded_default = Some (full_partial (DEFAULT_PLAYER_DATA (fresh_install 0)))"
    by (simp add: loaded_default_def load_done_def)
  have f: "progress_ok (g_currentLevel loaded_default)
             (js_or (p_levelsCompleted (full_partial (DEFAULT_PLAYER_DATA (fresh_install 0)))) 0)"
    "g_currentLevel loaded_default < 1000"
    "0 \<le> js_or (p_totalXP (full_partial (DEFAULT_PLAYER_DATA (fresh_install 0)))) 0"
    by (simp_all add: loaded_default_def load_done_def progress_ok_def full_partial_def DEFAULT_PLAYER_DATA_def)
  have cl: "g_currentLevel loaded_default = 1"
    by (simp add: loaded_default_def load_done_def DEFAULT_PLAYER_DATA_def)
  have x: "xpReward level_1 = 10" by (simp add: level_1_def)
  show ?thesis
    using handleCorrectAnswer_saves [OF l c p f, of 5] l c p f cl x
    by (simp add: full_partial_def DEFAULT_PLAYER_DATA_def) blast
qed

subsection \<open>The feedback after an answer\<close>

text \<open>Once an answer is selected, the feedback marks the correct answer with the
  "correct" style and a check, the chosen answer, when wrong, with the "incorrect" style and
  a cross, and leaves every other answer plain.\<close>

theorem answer_feedback:
  assumes "\<not> g_isAnswered g"
  shows "getAnswerStyle level (handleAnswerSelect level i g) j =
      (if j = correctAnswer level then StyleCorrect else if j = i then StyleIncorrect else StyleAnswer) \<and>
    getAnswerIcon level (handleAnswerSelect level i g) j =
      (if j = correctAnswer level then Some IconCheck else if j = i then Some IconX else None)"
  using assms by (auto simp: getAnswerStyle_def getAnswerIcon_def handleAnswerSelect_def)

theorem answer_feedback_witness:
  "\<not> g_isAnswered loaded_default \<and>
   getAnswerStyle level_1 (handleAnswerSelect level_1 2 loaded_default) 2 = StyleIncorrect \<and>
   getAnswerIcon level_1 (handleAnswerSelect level_1 2 loaded_default) 1 = Some IconCheck"
proof -
  have "\<not> g_isAnswered loaded_default" by (simp add: loaded_default_def load_done_def game_init_def)
  then show ?thesis using answer_feedback [of loaded_default level_1 2] by (simp add: level_1_def)
qed

end
