(* ===== verification/ProgressScreen.thy ===== *)
theory ProgressScreen
  imports Storage GameLevels JsNumber
begin

text \<open>
  The logic of the progress screen (src/project/app/(tabs)/progress.tsx): the list of
  achievement cards that \<open>calculateAchievements\<close> builds from the record (lines 23--149),
  the player level shown in the statistics (\<open>getPlayerLevel\<close>, lines 162--165) and the
  "next milestone" texts (lines 276--309). The screen's \<open>playerData\<close> is \<open>null\<close>
  until \<open>getPlayerData\<close> returns, hence an option. An achievement card is the record
  \<open>achievement\<close>; icons are the UTF-8 bytes of their emoji.

  Beside the code, \<open>level_milestones\<close> and \<open>xp_milestones\<close> are a table-driven
  reference: each milestone once, with its threshold. The lemmas show that the
  hand-unrolled code computes exactly the reference list, that card ids are unique (they
  are the React keys of the grid), and that the milestone text names the first locked card.
\<close>

record achievement =
  ach_id :: string
  ach_title :: string
  ach_description :: string
  ach_icon :: string
  ach_unlocked :: bool

definition icon_target :: string where
  "icon_target = [CHR 0xF0, CHR 0x9F, CHR 0x8E, CHR 0xAF]"

definition icon_detective :: string where
  "icon_detective = [CHR 0xF0, CHR 0x9F, CHR 0x95, CHR 0xB5, CHR 0xEF, CHR 0xB8, CHR 0x8F,
     CHR 0xE2, CHR 0x80, CHR 0x8D, CHR 0xE2, CHR 0x99, CHR 0x82, CHR 0xEF, CHR 0xB8, CHR 0x8F]"

definition icon_crown :: string where
  "icon_crown = [CHR 0xF0, CHR 0x9F, CHR 0x91, CHR 0x91]"

definition icon_gem :: string where
  "icon_gem = [CHR 0xF0, CHR 0x9F, CHR 0x92, CHR 0x8E]"

definition icon_glowing_star :: string where
  "icon_glowing_star = [CHR 0xF0, CHR 0x9F, CHR 0x8C, CHR 0x9F]"

definition icon_trophy :: string where
  "icon_trophy = [CHR 0xF0, CHR 0x9F, CHR 0x8F, CHR 0x86]"

definition icon_star :: string where
  "icon_star = [CHR 0xE2, CHR 0xAD, CHR 0x90]"

definition icon_dizzy :: string where
  "icon_dizzy = [CHR 0xF0, CHR 0x9F, CHR 0x92, CHR 0xAB]"

text \<open>The object literal \<open>{id, title, description, icon, unlocked}\<close>.\<close>

definition mk_achievement :: "string \<Rightarrow> string \<Rightarrow> string \<Rightarrow> string \<Rightarrow> bool \<Rightarrow> achievement" where
  "mk_achievement i t d ic u = \<lparr>ach_id = i, ach_title = t, ach_description = d, ach_icon = ic, ach_unlocked = u\<rparr>"

text \<open>Lines 23--149: each \<open>if\<close> pushes one card; the result is
  \<open>[...achievementsList, ...lockedAchievements.slice(0, 6)]\<close>.\<close>

definition calculateAchievements :: "player_data \<Rightarrow> achievement list" where
  "calculateAchievements data =
     (let lc = levelsCompleted data; xp = totalXP data;
          achievementsList =
            (if 1 \<le> lc then [mk_achievement ''first_level'' ''First Steps'' ''Complete your first level'' icon_target True] else []) @
            (if 10 \<le> lc then [mk_achievement ''apprentice'' ''JSON Apprentice'' ''Complete 10 levels'' wizard_emoji True] else []) @
            (if 50 \<le> lc then [mk_achievement ''journeyman'' ''JSON Journeyman'' ''Complete 50 levels'' icon_detective True] else []) @
            (if 100 \<le> lc then [mk_achievement ''master'' ''JSON Master'' ''Complete 100 levels'' icon_crown True] else []) @
            (if 250 \<le> lc then [mk_achievement ''expert'' ''JSON Expert'' ''Complete 250 levels'' icon_gem True] else []) @
            (if 500 \<le> lc then [mk_achievement ''legend'' ''JSON Legend'' ''Complete 500 levels'' icon_glowing_star True] else []) @
            (if 1000 \<le> lc then [mk_achievement ''grandmaster'' ''JSON Grandmaster'' ''Complete all 1000 levels'' icon_trophy True] else []) @
            (if 100 \<le> xp then [mk_achievement ''xp_collector'' ''XP Collector'' ''Earn 100 total XP'' icon_star True] else []) @
            (if 1000 \<le> xp then [mk_achievement ''xp_master'' ''XP Master'' ''Earn 1000 total XP'' icon_glowing_star True] else []) @
            (if 10000 \<le> xp then [mk_achievement ''xp_legend'' ''XP Legend'' ''Earn 10,000 total XP'' icon_dizzy True] else []);
          lockedAchievements =
            (if lc < 10 then [mk_achievement ''apprentice'' ''JSON Apprentice'' ''Complete 10 levels'' wizard_emoji False] else []) @
            (if lc < 50 then [mk_achievement ''journeyman'' ''JSON Journeyman'' ''Complete 50 levels'' icon_detective False] else []) @
            (if lc < 100 then [mk_achievement ''master'' ''JSON Master'' ''Complete 100 levels'' icon_crown False] else []) @
            (if lc < 250 then [mk_achievement ''expert'' ''JSON Expert'' ''Complete 250 levels'' icon_gem False] else []) @
            (if lc < 500 then [mk_achievement ''legend'' ''JSON Legend'' ''Complete 500 levels'' icon_glowing_star False] else []) @
            (if lc < 1000 then [mk_achievement ''grandmaster'' ''JSON Grandmaster'' ''Complete all 1000 levels'' icon_trophy False] else [])
      in achievementsList @ take 6 lockedAchievements)"

text \<open>Lines 162--165: \<open>!playerData?.totalXP\<close> holds for a missing record and for 0.\<close>

definition getPlayerLevel :: "player_data option \<Rightarrow> int" where
  "getPlayerLevel pd =
     (case pd of None \<Rightarrow> 1 | Some d \<Rightarrow> if totalXP d = 0 then 1 else js_math_floor (js_divide_int (totalXP d) 100) + 1)"

text \<open>Lines 276--309: the texts of the milestone card. \<open>undefined < 10\<close> is false in
  JavaScript, so no text shows while the record is missing.\<close>

definition milestone_message :: "int \<Rightarrow> string \<Rightarrow> string" where
  "milestone_message n t = ''Complete '' @ js_string_of_int n @ '' more levels to become a '' @ t @ ''!''"

definition milestone_texts :: "player_data option \<Rightarrow> string list" where
  "milestone_texts pd =
     (case pd of None \<Rightarrow> []
      | Some d \<Rightarrow>
          (let lc = levelsCompleted d
           in (if lc < 10 then [milestone_message (10 - lc) ''JSON Apprentice''] else []) @
              (if 10 \<le> lc \<and> lc < 50 then [milestone_message (50 - lc) ''JSON Journeyman''] else []) @
              (if 50 \<le> lc \<and> lc < 100 then [milestone_message (100 - lc) ''JSON Master''] else []) @
              (if 100 \<le> lc \<and> lc < 250 then [milestone_message (250 - lc) ''JSON Expert''] else []) @
              (if 250 \<le> lc \<and> lc < 500 then [milestone_message (500 - lc) ''JSON Legend''] else []) @
              (if 500 \<le> lc \<and> lc < 1000 then [milestone_message (1000 - lc) ''JSON Grandmaster''] else []) @
              (if 1000 \<le> lc then [[CHR 0xF0, CHR 0x9F, CHR 0x8E, CHR 0x89] @
                 '' Congratulations! You've mastered all 1000 levels!''] else [])))"

text \<open>\<open>loadPlayerData\<close> (lines 17--21), run when the screen mounts: the record read from the
  store and the cards computed from it (the screen's two state variables).\<close>

definition progress_load ::
  "int \<Rightarrow> store_state \<Rightarrow> ((player_data option \<times> achievement list) \<times> store_state) option" where
  "progress_load now st =
     Option.bind (getPlayerData now st) (\<lambda>(data, st'). Some ((Some data, calculateAchievements data), st'))"

text \<open>\<open>getProgressPercentage\<close> (lines 151--154):
  \<open>Math.round((playerData.levelsCompleted / GameLevels.length) * 100)\<close> in binary64
  arithmetic (theory \<open>JsNumber\<close>); \<open>GameLevels.length\<close> is the own property 1000.\<close>

definition getProgressPercentage :: "player_data option \<Rightarrow> int" where
  "getProgressPercentage p =
     (case p of None \<Rightarrow> 0
      | Some d \<Rightarrow> js_math_round (js_times_int (js_divide_int (levelsCompleted d) GameLevels_length) 100))"

text \<open>The four statistics of lines 181--205.\<close>

definition progress_stats :: "player_data option \<Rightarrow> int \<times> int \<times> int \<times> int" where
  "progress_stats p =
     (js_or (map_option currentLevel p) 1, js_or (map_option totalXP p) 0,
      js_or (map_option levelsCompleted p) 0, getPlayerLevel p)"

text \<open>The overall progress card (lines 207--226, without the "Last played" line): the
  percentage label, the width of the bar, and the count.\<close>

definition progress_card :: "player_data option \<Rightarrow> string \<times> string \<times> string" where
  "progress_card p =
     (js_string_of_int (getProgressPercentage p) @ ''%'',
      js_string_of_int (getProgressPercentage p) @ ''%'',
      js_string_of_int (js_or (map_option levelsCompleted p) 0) @ '' of '' @
        js_string_of_int GameLevels_length @ '' levels completed'')"

text \<open>One card of the achievement grid (lines 236--268): its React key, icon, title and
  description, whether it is styled unlocked, and whether it carries the award badge.\<close>

record card_view =
  cv_key :: string
  cv_icon :: string
  cv_title :: string
  cv_description :: string
  cv_unlocked :: bool
  cv_badge :: bool

definition render_card :: "achievement \<Rightarrow> card_view" where
  "render_card a =
     \<lparr>cv_key = ach_id a, cv_icon = ach_icon a, cv_title = ach_title a,
      cv_description = ach_description a, cv_unlocked = ach_unlocked a, cv_badge = ach_unlocked a\<rparr>"

definition achievements_grid :: "achievement list \<Rightarrow> card_view list" where
  "achievements_grid xs = map render_card xs"

subsection \<open>The reference table\<close>

record milestone =
  m_id :: string
  m_title :: string
  m_description :: string
  m_icon :: string
  m_threshold :: int

definition level_milestones :: "milestone list" where
  "level_milestones =
     [\<lparr>m_id = ''first_level'', m_title = ''First Steps'', m_description = ''Complete your first level'', m_icon = icon_target, m_threshold = 1\<rparr>,
      \<lparr>m_id = ''apprentice'', m_title = ''JSON Apprentice'', m_description = ''Complete 10 levels'', m_icon = wizard_emoji, m_threshold = 10\<rparr>,
      \<lparr>m_id = ''journeyman'', m_title = ''JSON Journeyman'', m_description = ''Complete 50 levels'', m_icon = icon_detective, m_threshold = 50\<rparr>,
      \<lparr>m_id = ''master'', m_title = ''JSON Master'', m_description = ''Complete 100 levels'', m_icon = icon_crown, m_threshold = 100\<rparr>,
      \<lparr>m_id = ''expert'', m_title = ''JSON Expert'', m_description = ''Complete 250 levels'', m_icon = icon_gem, m_threshold = 250\<rparr>,
      \<lparr>m_id = ''legend'', m_title = ''JSON Legend'', m_description = ''Complete 500 levels'', m_icon = icon_glowing_star, m_threshold = 500\<rparr>,
      \<lparr>m_id = ''grandmaster'', m_title = ''JSON Grandmaster'', m_description = ''Complete all 1000 levels'', m_icon = icon_trophy, m_threshold = 1000\<rparr>]"

definition xp_milestones :: "milestone list" where
  "xp_milestones =
     [\<lparr>m_id = ''xp_collector'', m_title = ''XP Collector'', m_description = ''Earn 100 total XP'', m_icon = icon_star, m_threshold = 100\<rparr>,
      \<lparr>m_id = ''xp_master'', m_title = ''XP Master'', m_description = ''Earn 1000 total XP'', m_icon = icon_glowing_star, m_threshold = 1000\<rparr>,
      \<lparr>m_id = ''xp_legend'', m_title = ''XP Legend'', m_description = ''Earn 10,000 total XP'', m_icon = icon_dizzy, m_threshold = 10000\<rparr>]"

definition card :: "bool \<Rightarrow> milestone \<Rightarrow> achievement" where
  "card u m = mk_achievement (m_id m) (m_title m) (m_description m) (m_icon m) u"

text \<open>Unlocked cards: every milestone reached, counters first; locked cards: every
  counter milestone after the first one not yet reached.\<close>

definition achievements_ref :: "player_data \<Rightarrow> achievement list" where
  "achievements_ref d =
     map (card True) (filter (\<lambda>m. m_threshold m \<le> levelsCompleted d) level_milestones @
                      filter (\<lambda>m. m_threshold m \<le> totalXP d) xp_milestones) @
     map (card False) (filter (\<lambda>m. levelsCompleted d < m_threshold m) (tl level_milestones))"

lemma calculateAchievements_ref: "calculateAchievements d = achievements_ref d"
  by (simp add: calculateAchievements_def achievements_ref_def level_milestones_def xp_milestones_def
      card_def Let_def)

text \<open>C26: the hand-unrolled \<open>calculateAchievements\<close> computes exactly the reference list:
  the unlocked cards of every milestone reached, then the locked cards of the counter
  milestones not reached; \<open>slice(0, 6)\<close> never cuts, since at most six are locked.\<close>

theorem calculateAchievements_eq_ref: "calculateAchievements d = achievements_ref d"
  by (rule calculateAchievements_ref)

lemma ach_id_card [simp]: "ach_id (card u m) = m_id m"
  and ach_unlocked_card [simp]: "ach_unlocked (card u m) = u"
  and ach_id_comp_card [simp]: "ach_id \<circ> card u = m_id"
  by (simp_all add: card_def mk_achievement_def fun_eq_iff)

lemma milestone_ids:
  "distinct (map m_id level_milestones)" "distinct (map m_id xp_milestones)"
  "set (map m_id level_milestones) \<inter> set (map m_id xp_milestones) = {}"
  by (simp_all add: level_milestones_def xp_milestones_def)

lemma locked_cards:
  "filter (\<lambda>a. \<not> ach_unlocked a) (achievements_ref d) =
     map (card False) (filter (\<lambda>m. levelsCompleted d < m_threshold m) (tl level_milestones))"
  by (simp add: achievements_ref_def filter_map comp_def)

lemma calculateAchievements_ids_distinct: "distinct (map ach_id (calculateAchievements d))"
proof -
  let ?P = "\<lambda>m. m_threshold m \<le> levelsCompleted d" and ?L = level_milestones and ?X = xp_milestones
  have lv: "distinct (map m_id (filter ?P ?L @ filter (\<lambda>m. \<not> ?P m) (tl ?L)))"
    using milestone_ids(1) by (rule distinct_map_filter_partition_tl)
  have "set (tl ?L) \<subseteq> set ?L" by (simp add: level_milestones_def)
  then have "set (map m_id (filter ?P ?L @ filter (\<lambda>m. \<not> ?P m) (tl ?L))) \<inter>
             set (map m_id (filter (\<lambda>m. m_threshold m \<le> totalXP d) ?X)) = {}"
    using milestone_ids(3) by auto
  moreover have "distinct (map m_id (filter (\<lambda>m. m_threshold m \<le> totalXP d) ?X))"
    using milestone_ids(2) by (simp add: distinct_map_filter)
  ultimately show ?thesis using lv
    by (auto simp: calculateAchievements_ref achievements_ref_def not_le)
qed

text \<open>C27: the ids of the cards are pairwise distinct for every record, so the React keys
  of the achievement grid are unique: a milestone is never shown both locked and
  unlocked.\<close>

theorem achievement_ids_distinct: "distinct (map ach_id (calculateAchievements d))"
  by (rule calculateAchievements_ids_distinct)

text \<open>C28: while fewer than 1000 levels are completed, the milestone card shows exactly one
  text, and it names the first locked achievement card and the number of levels still
  missing to unlock it.\<close>

theorem milestone_names_first_locked:
  assumes "levelsCompleted d < 1000"
  shows "\<exists>m rest. filter (\<lambda>m. levelsCompleted d < m_threshold m) (tl level_milestones) = m # rest \<and>
    milestone_texts (Some d) = [milestone_message (m_threshold m - levelsCompleted d) (m_title m)] \<and>
    hd (filter (\<lambda>a. \<not> ach_unlocked a) (calculateAchievements d)) = card False m"
proof -
  let ?lc = "levelsCompleted d"
  have "?lc < 10 \<or> 10 \<le> ?lc \<and> ?lc < 50 \<or> 50 \<le> ?lc \<and> ?lc < 100 \<or> 100 \<le> ?lc \<and> ?lc < 250 \<or>
        250 \<le> ?lc \<and> ?lc < 500 \<or> 500 \<le> ?lc \<and> ?lc < 1000"
    using assms by arith
  then show ?thesis
    by (elim disjE) (simp_all add: milestone_texts_def level_milestones_def calculateAchievements_ref
        locked_cards Let_def)
qed

theorem milestone_names_first_locked_witness:
  "levelsCompleted ((DEFAULT_PLAYER_DATA (fresh_install 0))\<lparr>levelsCompleted := 42\<rparr>) < 1000 \<and>
   milestone_texts (Some ((DEFAULT_PLAYER_DATA (fresh_install 0))\<lparr>levelsCompleted := 42\<rparr>)) =
     [''Complete 8 more levels to become a JSON Journeyman!'']"
proof -
  have "js_string_of_int 8 = ''8''" by (simp add: js_string_of_int_def nat_digits.simps digit_chars_def)
  then show ?thesis
    using milestone_names_first_locked [of "(DEFAULT_PLAYER_DATA (fresh_install 0))\<lparr>levelsCompleted := 42\<rparr>"]
    by (auto simp: level_milestones_def milestone_message_def)
qed

text \<open>C29: for a record with XP in \<open>[0, 2^52]\<close> the player level, computed in binary64 as
  \<open>Math.floor(totalXP / 100) + 1\<close>, is \<open>totalXP div 100 + 1\<close> (the special case for 0 XP
  agrees with it), at least 1, and the XP lies in \<open>[100 * (level - 1), 100 * level)\<close>.\<close>

theorem getPlayerLevel_bounds:
  assumes "0 \<le> totalXP d" and "totalXP d \<le> 2 ^ 52"
  shows "getPlayerLevel (Some d) = totalXP d div 100 + 1 \<and> 1 \<le> getPlayerLevel (Some d) \<and>
    (getPlayerLevel (Some d) - 1) * 100 \<le> totalXP d \<and> totalXP d < getPlayerLevel (Some d) * 100"
  using assms by (simp add: getPlayerLevel_def js_floor_divide div_bounds_100)

theorem getPlayerLevel_bounds_witness:
  "0 \<le> totalXP ((DEFAULT_PLAYER_DATA (fresh_install 0))\<lparr>totalXP := 250\<rparr>) \<and>
   totalXP ((DEFAULT_PLAYER_DATA (fresh_install 0))\<lparr>totalXP := 250\<rparr>) \<le> 2 ^ 52 \<and>
   getPlayerLevel (Some ((DEFAULT_PLAYER_DATA (fresh_install 0))\<lparr>totalXP := 250\<rparr>)) = 3"
  using getPlayerLevel_bounds [of "(DEFAULT_PLAYER_DATA (fresh_install 0))\<lparr>totalXP := 250\<rparr>"] by simp

text \<open>C38: for every record with \<open>levelsCompleted\<close> in \<open>[0, 1000]\<close>, the percentage the
  screen shows is \<open>levelsCompleted / 10\<close> rounded half up, except at 145, 285, 565 and 575
  completed levels, where it is one less: there \<open>levelsCompleted / 1000\<close> rounds to a binary64
  value below the exact one and the product with 100 falls just under the half.\<close>

theorem getProgressPercentage_spec:
  assumes "0 \<le> levelsCompleted d" and "levelsCompleted d \<le> 1000"
  shows "getProgressPercentage (Some d) =
           (if levelsCompleted d \<in> {145, 285, 565, 575} then (levelsCompleted d + 5) div 10 - 1
            else (levelsCompleted d + 5) div 10)"
  using percent_of_1000 [OF assms] by (simp add: getProgressPercentage_def GameLevels_length_def)

theorem getProgressPercentage_spec_witness:
  "0 \<le> levelsCompleted ((DEFAULT_PLAYER_DATA (fresh_install 0))\<lparr>levelsCompleted := 145\<rparr>) \<and>
   levelsCompleted ((DEFAULT_PLAYER_DATA (fresh_install 0))\<lparr>levelsCompleted := 145\<rparr>) \<le> 1000 \<and>
   getProgressPercentage (Some ((DEFAULT_PLAYER_DATA (fresh_install 0))\<lparr>levelsCompleted := 145\<rparr>)) = 14"
  using getProgressPercentage_spec [of "(DEFAULT_PLAYER_DATA (fresh_install 0))\<lparr>levelsCompleted := 145\<rparr>"]
  by simp

subsection \<open>The rendered grid\<close>

text \<open>The grid shows every card of \<open>calculateAchievements\<close> in order under a unique key, with the
  badge exactly on the unlocked ones.\<close>

lemma achievements_grid_keys:
  "map cv_key (achievements_grid (calculateAchievements d)) = map ach_id (calculateAchievements d) \<and>
   distinct (map cv_key (achievements_grid (calculateAchievements d))) \<and>
   (\<forall>v \<in> set (achievements_grid (calculateAchievements d)). cv_badge v = cv_unlocked v)"
  by (auto simp: achievements_grid_def render_card_def calculateAchievements_ids_distinct comp_def)

end
