(* ===== verification/ProfileScreen.thy ===== *)
theory ProfileScreen
  imports Storage JsNumber
begin

text \<open>
  The logic of the profile screen (src/project/app/(tabs)/profile.tsx, lines 8--93 and
  the values of lines 124--200). Its state is \<open>profile_state\<close>: the record the screen
  holds (\<open>playerData\<close>, \<open>null\<close> until loaded, then an object whose fields may be
  missing, hence a \<open>partial_data option\<close>), the selected character and the loading flag.
  Each handler runs against the store of theory \<open>Storage\<close> and returns the new screen
  state with the new store state; \<open>None\<close> is a handler that never completes.

  The screen loads its record once, when it mounts (the \<open>useEffect\<close> with no
  dependencies), and \<open>handleCharacterChange\<close> saves \<open>{...playerData, character}\<close>:
  every field of the record read at mount is written back.
\<close>

record profile_state =
  pf_playerData :: "partial_data option"
  pf_selectedCharacter :: character
  pf_isLoading :: bool

definition profile_init :: profile_state where
  "profile_init = \<lparr>pf_playerData = None, pf_selectedCharacter = Wizard, pf_isLoading = True\<rparr>"

text \<open>\<open>loadPlayerData\<close> (lines 17--28). \<open>getPlayerData\<close> never throws, so the \<open>catch\<close>
  branch is dead; \<open>data?.character || 'wizard'\<close> is the character of the record.\<close>

definition profile_load :: "int \<Rightarrow> profile_state \<times> store_state \<Rightarrow> (profile_state \<times> store_state) option" where
  "profile_load now = (\<lambda>(pf, st).
     Option.bind (getPlayerData now st) (\<lambda>(data, st').
       Some (pf\<lparr>pf_playerData := Some (full_partial data), pf_selectedCharacter := player_character data,
                pf_isLoading := False\<rparr>, st')))"

text \<open>\<open>handleCharacterChange\<close> (lines 30--51): \<open>{...playerData, character}\<close>, saved, then
  kept as the screen's record.\<close>

definition handleCharacterChange ::
  "character \<Rightarrow> int \<Rightarrow> profile_state \<times> store_state \<Rightarrow> (profile_state \<times> store_state) option" where
  "handleCharacterChange c now = (\<lambda>(pf, st).
     (let updatedData = (case pf_playerData pf of None \<Rightarrow> no_fields | Some p \<Rightarrow> p)\<lparr>p_character := Some c\<rparr>
      in Option.bind (savePlayerData updatedData now st) (\<lambda>st'.
           Some (pf\<lparr>pf_playerData := Some updatedData, pf_selectedCharacter := c\<rparr>, st'))))"

text \<open>The confirmed branch of \<open>handleResetProgress\<close> (lines 62--71).\<close>

definition handleResetProgress ::
  "int \<Rightarrow> profile_state \<times> store_state \<Rightarrow> (profile_state \<times> store_state) option" where
  "handleResetProgress now = (\<lambda>(pf, st).
     Option.bind (resetProgress now st) (\<lambda>st1.
       Option.bind (getPlayerData now st1) (\<lambda>(newData, st2).
         Some (pf\<lparr>pf_playerData := Some (full_partial newData),
                  pf_selectedCharacter := player_character newData\<rparr>, st2))))"

text \<open>Lines 79--93, and the XP bar of lines 124--130, whose width is
  \<open>getXPProgress() / (getXPForNextLevel() - (getPlayerLevel() - 1) * 100)\<close>.\<close>

definition profile_getPlayerLevel :: "partial_data option \<Rightarrow> int" where
  "profile_getPlayerLevel p =
     (case pd_field p_totalXP p of None \<Rightarrow> 1 | Some x \<Rightarrow> if x = 0 then 1 else js_math_floor (js_divide_int x 100) + 1)"

definition getXPForNextLevel :: "partial_data option \<Rightarrow> int" where
  "getXPForNextLevel p =
     (case pd_field p_totalXP p of None \<Rightarrow> 100
      | Some x \<Rightarrow> if x = 0 then 100 else profile_getPlayerLevel p * 100)"

definition getXPProgress :: "partial_data option \<Rightarrow> int" where
  "getXPProgress p =
     (case pd_field p_totalXP p of None \<Rightarrow> 0 | Some x \<Rightarrow> if x = 0 then 0 else js_rem x 100)"

definition xp_bar_total :: "partial_data option \<Rightarrow> int" where
  "xp_bar_total p = getXPForNextLevel p - (profile_getPlayerLevel p - 1) * 100"

text \<open>The four statistics of lines 187--200: XP, levels completed, current level and
  \<open>Math.floor(xp / 10)\<close>.\<close>

definition profile_stats :: "partial_data option \<Rightarrow> int \<times> int \<times> int \<times> int" where
  "profile_stats p =
     (js_or (pd_field p_totalXP p) 0, js_or (pd_field p_levelsCompleted p) 0,
      js_or (pd_field p_currentLevel p) 1,
      js_math_floor (js_divide_int (js_or (pd_field p_totalXP p) 0) 10))"

text \<open>What the screen renders (lines 95--135): "Loading profile..." while loading, then a
  header with the avatar of the selected character, the player level, the character's
  name and the XP text of the bar.\<close>

datatype profile_view =
    ProfileLoadingView string
  | ProfileHeaderView string string string string

definition profile_render :: "profile_state \<Rightarrow> profile_view" where
  "profile_render pf =
     (if pf_isLoading pf then ProfileLoadingView ''Loading profile...''
      else ProfileHeaderView (character_emoji (pf_selectedCharacter pf))
             (''Level '' @ js_string_of_int (profile_getPlayerLevel (pf_playerData pf)))
             (if pf_selectedCharacter pf = Wizard then ''Wizard'' else ''Spy'')
             (js_string_of_int (getXPProgress (pf_playerData pf)) @ ''/'' @
              js_string_of_int (xp_bar_total (pf_playerData pf)) @ '' XP''))"

text \<open>The "Selected" badge of a character card (lines 156 and 174).\<close>

definition selected_badge :: "profile_state \<Rightarrow> character \<Rightarrow> bool" where
  "selected_badge pf c \<longleftrightarrow> pf_selectedCharacter pf = c"

text \<open>The controls (lines 145--246): the two character cards, three settings items without
  \<open>onPress\<close>, and "Reset Progress", which opens the confirmation dialog of lines 54--76
  whose "Cancel" button does nothing.\<close>

datatype reset_choice = ResetCancel | ResetConfirm

datatype profile_button =
    PressCharacter character
  | PressPrivacySafety
  | PressAbout
  | PressRate
  | PressReset reset_choice

fun profile_press ::
  "profile_button \<Rightarrow> int \<Rightarrow> profile_state \<times> store_state \<Rightarrow> (profile_state \<times> store_state) option" where
  "profile_press (PressCharacter c) now x = handleCharacterChange c now x"
| "profile_press PressPrivacySafety now x = Some x"
| "profile_press PressAbout now x = Some x"
| "profile_press PressRate now x = Some x"
| "profile_press (PressReset ResetCancel) now x = Some x"
| "profile_press (PressReset ResetConfirm) now x = handleResetProgress now x"

subsection \<open>The XP bar\<close>

text \<open>C30: the level and the XP bar shown on the profile agree with the XP: for XP in
  \<open>[0, 2^52]\<close> the bar's denominator is 100, its numerator \<open>totalXP % 100\<close> is in
  \<open>[0, 100)\<close>, and the levels below the current one (\<open>Math.floor(totalXP / 100)\<close>, in
  binary64) times 100 plus the numerator give back the XP.\<close>

theorem xp_bar_bounds:
  assumes "0 \<le> js_or (pd_field p_totalXP p) 0" and "js_or (pd_field p_totalXP p) 0 \<le> 2 ^ 52"
  shows "xp_bar_total p = 100 \<and>
    (profile_getPlayerLevel p - 1) * 100 + getXPProgress p = js_or (pd_field p_totalXP p) 0 \<and>
    0 \<le> getXPProgress p \<and> getXPProgress p < 100"
proof (cases "pd_field p_totalXP p")
  case None
  then show ?thesis
    by (simp add: xp_bar_total_def getXPForNextLevel_def getXPProgress_def profile_getPlayerLevel_def js_or_def)
next
  case (Some x)
  then have x: "0 \<le> x" "x \<le> 2 ^ 52" using assms by (simp_all split: if_splits)
  have f: "js_math_floor (js_divide_int x 100) = x div 100" using x by (intro js_floor_divide) simp_all
  have "x div 100 * 100 + x mod 100 = x" by (rule div_mult_mod_eq)
  then show ?thesis using Some x f
    by (simp add: xp_bar_total_def getXPForNextLevel_def getXPProgress_def profile_getPlayerLevel_def
        algebra_simps)
qed

theorem xp_bar_bounds_witness:
  "0 \<le> js_or (pd_field p_totalXP (Some (no_fields\<lparr>p_totalXP := Some 250\<rparr>))) 0 \<and>
   js_or (pd_field p_totalXP (Some (no_fields\<lparr>p_totalXP := Some 250\<rparr>))) 0 \<le> 2 ^ 52 \<and>
   profile_getPlayerLevel (Some (no_fields\<lparr>p_totalXP := Some 250\<rparr>)) = 3 \<and>
   xp_bar_total (Some (no_fields\<lparr>p_totalXP := Some 250\<rparr>)) = 100 \<and>
   getXPProgress (Some (no_fields\<lparr>p_totalXP := Some 250\<rparr>)) = 50"
  using xp_bar_bounds [of "Some (no_fields\<lparr>p_totalXP := Some 250\<rparr>)"]
  by (simp add: pd_field_def no_fields_def getXPProgress_def)

subsection \<open>The record read at mount is written back\<close>

text \<open>C31: the profile screen overwrites progress made elsewhere. The screen loads the record
  at mount; a later save from another screen raises the XP to 50; changing the character on
  the profile then saves the record read at mount, and the store's record is back to 0 XP.\<close>

theorem character_change_reverts_progress:
  "\<exists>pf1 st2 pf3 st3 d2 d3.
     profile_load 1 (profile_init, three_done) = Some (pf1, three_done) \<and>
     savePlayerData (no_fields\<lparr>p_totalXP := Some 50\<rparr>) 2 three_done = Some st2 \<and>
     playerDataCache st2 = Some d2 \<and> totalXP d2 = 50 \<and>
     handleCharacterChange Spy 3 (pf1, st2) = Some (pf3, st3) \<and>
     playerDataCache st3 = Some d3 \<and> totalXP d3 = 0 \<and> player_character d3 = Spy"
proof -
  let ?d0 = "(DEFAULT_PLAYER_DATA (fresh_install 0))\<lparr>levelsCompleted := 3\<rparr>"
  let ?pf1 = "profile_init\<lparr>pf_playerData := Some (full_partial ?d0), pf_selectedCharacter := Wizard,
                pf_isLoading := False\<rparr>"
  have c0: "playerDataCache three_done = Some ?d0" by (simp add: three_done_def)
  have g: "getPlayerData 1 three_done = Some (?d0, three_done)"
    using c0 by (rule getPlayerData_cached) (simp add: three_done_def fresh_install_def CACHE_DURATION_def)
  have l: "profile_load 1 (profile_init, three_done) = Some (?pf1, three_done)"
    by (simp add: profile_load_def g DEFAULT_PLAYER_DATA_def)
  let ?st2 = "snd (save_merge three_done ?d0 (no_fields\<lparr>p_totalXP := Some 50\<rparr>) 2)"
  let ?d2 = "fst (save_merge three_done ?d0 (no_fields\<lparr>p_totalXP := Some 50\<rparr>) 2)"
  have s2: "savePlayerData (no_fields\<lparr>p_totalXP := Some 50\<rparr>) 2 three_done = Some ?st2"
    using c0 by (rule savePlayerData_cached)
  have c2: "playerDataCache ?st2 = Some ?d2" and x2: "totalXP ?d2 = 50"
    by (simp_all add: save_merge_def Let_def spread_def no_fields_def)
  let ?p3 = "(full_partial ?d0)\<lparr>p_character := Some Spy\<rparr>"
  have s3: "savePlayerData ?p3 3 ?st2 = Some (snd (save_merge ?st2 ?d2 ?p3 3))"
    using c2 by (rule savePlayerData_cached)
  have h: "handleCharacterChange Spy 3 (?pf1, ?st2) =
             Some (?pf1\<lparr>pf_playerData := Some ?p3, pf_selectedCharacter := Spy\<rparr>, snd (save_merge ?st2 ?d2 ?p3 3))"
    by (simp add: handleCharacterChange_def Let_def s3)
  have c3: "playerDataCache (snd (save_merge ?st2 ?d2 ?p3 3)) = Some (fst (save_merge ?st2 ?d2 ?p3 3))"
    by (simp add: save_merge_def Let_def)
  have x3: "totalXP (fst (save_merge ?st2 ?d2 ?p3 3)) = 0 \<and> player_character (fst (save_merge ?st2 ?d2 ?p3 3)) = Spy"
    by (simp add: save_merge_def Let_def spread_def full_partial_def DEFAULT_PLAYER_DATA_def)
  show ?thesis using l s2 c2 x2 h c3 x3 by blast
qed

subsection \<open>The rendered header\<close>

text \<open>After a character change returns, the badge is on the chosen card only and, once loaded,
  the header shows the chosen character's avatar and name.\<close>

lemma character_change_rendered:
  assumes "profile_press (PressCharacter c) now (pf, st) = Some (pf', st')"
  shows "(\<forall>c'. selected_badge pf' c' \<longleftrightarrow> c' = c) \<and>
         (\<not> pf_isLoading pf \<longrightarrow> (\<exists>lv xp. profile_render pf' =
            ProfileHeaderView (character_emoji c) lv (if c = Wizard then ''Wizard'' else ''Spy'') xp))"
  using assms by (auto simp: handleCharacterChange_def Let_def bind_eq_Some_conv selected_badge_def
      profile_render_def)

end
