(* ===== verification/StoreSystem.thy ===== *)
theory StoreSystem
  imports Storage
begin

text \<open>
  The progress store together with its environment, as a transition system
  (spec section 5). A step is one \<open>GameStorage\<close> operation that returns (\<open>run_op\<close>), the
  completion of the oldest write still pending (\<open>flush\<close>; a write completed while
  AsyncStorage fails is lost), AsyncStorage starting or stopping to fail, or a restart of
  the process: the module is loaded again, the cache and the writes not yet completed are
  gone, and only the durable slot survives (\<open>restart\<close>).

  The invariant \<open>store_inv\<close> is the well-formedness of the stored data: the cached record
  holds counters in their ranges, and the durable slot and every write about to complete hold
  a complete \<open>PlayerData\<close> object (every field present) with counters in range. It holds in
  every state reachable from a state where it holds, so no sequence of operations, writes,
  failures and restarts stores a partial object or an out-of-range counter.
\<close>

datatype store_op =
    OpGet
  | OpSave partial_data
  | OpReset
  | OpAddAchievement string
  | OpUpdateLevel int int
  | OpExport
  | OpImport json_text
  | OpUnlock int
  | OpClearCache

definition run_op :: "store_op \<Rightarrow> int \<Rightarrow> store_state \<Rightarrow> store_state option" where
  "run_op op now s =
     (case op of
        OpGet \<Rightarrow> map_option snd (getPlayerData now s)
      | OpSave p \<Rightarrow> savePlayerData p now s
      | OpReset \<Rightarrow> resetProgress now s
      | OpAddAchievement a \<Rightarrow> addAchievement a now s
      | OpUpdateLevel level xp \<Rightarrow> updateLevel level xp now s
      | OpExport \<Rightarrow> map_option snd (exportData now s)
      | OpImport t \<Rightarrow> map_option snd (importData t now s)
      | OpUnlock level \<Rightarrow> unlockLevel level now s
      | OpClearCache \<Rightarrow> Some (clearCache s))"

text \<open>The process restarts at time \<open>t\<close>: lines 17--29 run again over the surviving slot.\<close>

definition restart :: "int \<Rightarrow> store_state \<Rightarrow> store_state" where
  "restart t s = (fresh_install t)\<lparr>durable := durable s, store_failing := store_failing s\<rparr>"

inductive store_step :: "store_state \<Rightarrow> store_state \<Rightarrow> bool" where
  op: "run_op op now s = Some s' \<Longrightarrow> store_step s s'"
| flush: "pending s = w # ws \<Longrightarrow> store_step s ((complete_write s w)\<lparr>pending := ws\<rparr>)"
| set_failing: "store_step s (s\<lparr>store_failing := b\<rparr>)"
| crash: "store_step s (restart t s)"


text \<open>A text this module writes: an object with every field of \<open>PlayerData\<close> present and the
  three counters in range.\<close>

fun json_ok :: "json_text \<Rightarrow> bool" where
  "json_ok (JsonObject j) =
     ((case (j_currentLevel j, j_totalXP j, j_levelsCompleted j) of
         (Some c, Some x, Some l) \<Rightarrow> 1 \<le> c \<and> c \<le> 1000 \<and> 0 \<le> x \<and> 0 \<le> l \<and> l \<le> 1000
       | _ \<Rightarrow> False) \<and>
      j_achievements j \<noteq> None \<and> j_character j \<noteq> None \<and> j_lastPlayed j \<noteq> None \<and>
      j_createdAt j \<noteq> None)"
| "json_ok JsonNull = False"
| "json_ok Malformed = False"

definition store_inv :: "store_state \<Rightarrow> bool" where
  "store_inv s \<longleftrightarrow>
     (case playerDataCache s of None \<Rightarrow> True | Some d \<Rightarrow> ranged d) \<and>
     (case durable s of None \<Rightarrow> True | Some w \<Rightarrow> json_ok w) \<and>
     list_all json_ok (pending s)"

text \<open>An input for the witnesses: \<open>three_done\<close> (theory \<open>Storage\<close>) with its record written.\<close>

definition stored_three_done :: store_state where
  "stored_three_done =
     three_done\<lparr>durable := Some (to_json three_done ((DEFAULT_PLAYER_DATA (fresh_install 0))\<lparr>levelsCompleted := 3\<rparr>))\<rparr>"

text \<open>The object inside a text.\<close>

definition the_object :: "json_text \<Rightarrow> json_player" where
  "the_object t = (case t of JsonObject j \<Rightarrow> j | _ \<Rightarrow> undefined)"

subsection \<open>The invariant\<close>

lemma json_ok_to_json [simp]: "json_ok (to_json s d) \<longleftrightarrow> ranged d"
  by (auto simp: to_json_def ranged_def)













lemma store_inv_heap [simp]: "store_inv (s\<lparr>heap := h\<rparr>) = store_inv s"
  by (simp add: store_inv_def)

lemma store_inv_parse_object [simp]: "store_inv (snd (parse_object s j)) = store_inv s"
  by (simp add: store_inv_def)






subsection \<open>Durability\<close>

text \<open>C40: a save is durable only once its write completes (spec section 5). A save raises the
  cached XP to 50 and queues the write; the process restarts before the write completes;
  the next read finds the old record in AsyncStorage, with 0 XP.\<close>

theorem crash_loses_save:
  "\<exists>s1 d1 d s3.
     savePlayerData (no_fields\<lparr>p_totalXP := Some 50\<rparr>) 1 stored_three_done = Some s1 \<and>
     playerDataCache s1 = Some d1 \<and> totalXP d1 = 50 \<and> pending s1 \<noteq> [] \<and>
     store_step s1 (restart 2 s1) \<and>
     getPlayerData 3 (restart 2 s1) = Some (d, s3) \<and> totalXP d = 0"
proof -
  let ?d0 = "(DEFAULT_PLAYER_DATA (fresh_install 0))\<lparr>levelsCompleted := 3\<rparr>"
  let ?p = "no_fields\<lparr>p_totalXP := Some 50\<rparr>"
  have c0: "playerDataCache stored_three_done = Some ?d0"
    by (simp add: stored_three_done_def three_done_def)
  let ?s1 = "snd (save_merge stored_three_done ?d0 ?p 1)"
  have s: "savePlayerData ?p 1 stored_three_done = Some ?s1"
    using c0 by (rule savePlayerData_cached)
  have c1: "playerDataCache ?s1 = Some (fst (save_merge stored_three_done ?d0 ?p 1))"
    and x1: "totalXP (fst (save_merge stored_three_done ?d0 ?p 1)) = 50"
    and p1: "pending ?s1 \<noteq> []"
    by (simp_all add: save_merge_def Let_def spread_def no_fields_def)
  have dr: "durable (restart 2 ?s1) = Some (to_json three_done ?d0)"
    by (simp add: restart_def save_merge_def Let_def stored_three_done_def)
  have g: "getPlayerData 3 (restart 2 ?s1) =
             Some (fst (validate_stored (restart 2 ?s1) (the_object (to_json three_done ?d0))),
                   (snd (validate_stored (restart 2 ?s1) (the_object (to_json three_done ?d0))))
                     \<lparr>playerDataCache := Some (fst (validate_stored (restart 2 ?s1) (the_object (to_json three_done ?d0)))),
                      cacheTimestamp := 3\<rparr>)"
    unfolding getPlayerData_def
    by (rule run_call_get_stored)
       (simp_all add: restart_def fresh_install_def save_merge_def Let_def stored_three_done_def three_done_def to_json_def
          the_object_def)
  have x: "totalXP (fst (validate_stored (restart 2 ?s1) (the_object (to_json three_done ?d0)))) = 0"
    by (simp add: validate_stored_fields to_json_def the_object_def DEFAULT_PLAYER_DATA_def)
  show ?thesis using s c1 x1 p1 g x store_step.crash [of ?s1 2] by blast
qed

end
