(* ===== verification/HomeScreen.thy ===== *)
theory HomeScreen
  imports Storage
begin

text \<open>
  The logic of the home screen (src/project/app/(tabs)/index.tsx, lines 9--89). Its state
  is \<open>home_state\<close>: the record the screen holds (\<open>playerData\<close>, \<open>null\<close> until the store
  returns), the routes pushed onto the navigator, and the animated values of the play
  button.

  Line 11 runs on every render of the component, so every render creates a new
  \<open>Animated.Value\<close>: values are numbered in creation order, \<open>h_scaleAnim\<close> is the one the
  latest render created and binds to the play button (line 76), and \<open>h_pulsing\<close> is the
  one the pulse loop of the mount effect (lines 13--32, no dependencies: it runs once,
  after the first render) drives. Loading the record (\<open>setPlayerData\<close> of a non-null
  object) renders the screen again.
\<close>

record home_state =
  h_playerData :: "player_data option"
  h_routes :: "string list"
  h_animValues :: nat
  h_scaleAnim :: nat
  h_pulsing :: "nat option"

definition home_unmounted :: home_state where
  "home_unmounted =
     \<lparr>h_playerData = None, h_routes = [], h_animValues = 0, h_scaleAnim = 0, h_pulsing = None\<rparr>"

text \<open>One render of \<open>HomeTab\<close>: \<open>const scaleAnim = new Animated.Value(1)\<close> (line 11).\<close>

definition home_render :: "home_state \<Rightarrow> home_state" where
  "home_render h = h\<lparr>h_scaleAnim := h_animValues h, h_animValues := Suc (h_animValues h)\<rparr>"

text \<open>Mounting: the first render, then the effect of lines 13--32, whose \<open>pulse\<close> closure
  animates the \<open>scaleAnim\<close> of that render forever (each sequence restarts it on
  completion). The effect's call of \<open>loadPlayerData\<close> is \<open>home_load\<close>.\<close>

definition home_mount :: home_state where
  "home_mount = (let h = home_render home_unmounted in h\<lparr>h_pulsing := Some (h_scaleAnim h)\<rparr>)"

text \<open>\<open>loadPlayerData\<close> (lines 34--37): await the store, then \<open>setPlayerData(data)\<close>, which
  renders again.\<close>

definition home_load :: "int \<Rightarrow> home_state \<times> store_state \<Rightarrow> (home_state \<times> store_state) option" where
  "home_load now = (\<lambda>(h, st).
     Option.bind (getPlayerData now st) (\<lambda>(data, st').
       Some (home_render (h\<lparr>h_playerData := Some data\<rparr>), st')))"

text \<open>The two buttons with a handler (lines 39--45, 77 and 89); the cards "Learn JSON" and
  "Magic Powers" (lines 95--105) are plain views.\<close>

definition handlePlayPress :: "home_state \<Rightarrow> home_state" where
  "handlePlayPress h = h\<lparr>h_routes := h_routes h @ [''/game'']\<rparr>"

definition handleProgressPress :: "home_state \<Rightarrow> home_state" where
  "handleProgressPress h = h\<lparr>h_routes := h_routes h @ [''/progress'']\<rparr>"

text \<open>The three statistics of lines 61--74 as rendered over the heap \<open>st\<close>:
  \<open>playerData?.currentLevel || 1\<close>, \<open>playerData?.totalXP || 0\<close> and
  \<open>playerData?.achievements?.length || 0\<close>.\<close>

definition home_stats :: "store_state \<Rightarrow> home_state \<Rightarrow> int \<times> int \<times> int" where
  "home_stats st h =
     (js_or (map_option currentLevel (h_playerData h)) 1,
      js_or (map_option totalXP (h_playerData h)) 0,
      js_or (map_option (\<lambda>d. int (length (heap st (achievements d)))) (h_playerData h)) 0)"

text \<open>The play button pulses when the value it is bound to is the one the loop animates.\<close>

definition play_button_pulses :: "home_state \<Rightarrow> bool" where
  "play_button_pulses h \<longleftrightarrow> h_pulsing h = Some (h_scaleAnim h)"

text \<open>Every animated value the state names was created by an earlier render.\<close>

definition home_wf :: "home_state \<Rightarrow> bool" where
  "home_wf h \<longleftrightarrow> h_scaleAnim h < h_animValues h \<and>
     (case h_pulsing h of None \<Rightarrow> True | Some v \<Rightarrow> v < h_animValues h)"

subsection \<open>Renders and the pulse\<close>

lemma home_mount_simps [simp]:
  "h_playerData home_mount = None" "h_routes home_mount = []" "h_scaleAnim home_mount = 0"
  "h_animValues home_mount = 1" "h_pulsing home_mount = Some 0"
  by (simp_all add: home_mount_def home_render_def home_unmounted_def)

lemma home_wf_mount: "home_wf home_mount"
  by (simp add: home_wf_def)

lemma home_wf_render: "home_wf h \<Longrightarrow> home_wf (home_render h)"
  by (auto simp: home_wf_def home_render_def split: option.splits)

lemma home_render_not_pulsing: "home_wf h \<Longrightarrow> \<not> play_button_pulses (home_render h)"
  by (auto simp: home_wf_def home_render_def play_button_pulses_def split: option.splits)

lemma home_load_result:
  "home_load now (h, st) = Some (h', st') \<longleftrightarrow>
     (\<exists>d. getPlayerData now st = Some (d, st') \<and> h' = home_render (h\<lparr>h_playerData := Some d\<rparr>))"
  by (auto simp: home_load_def bind_eq_Some_conv)

lemma home_wf_playerData [simp]: "home_wf (h\<lparr>h_playerData := d\<rparr>) = home_wf h"
  by (cases "h_pulsing h") (simp_all add: home_wf_def)

lemma home_stats_mount [simp]: "home_stats st home_mount = (1, 0, 0)"
  by (simp add: home_stats_def js_or_def)

text \<open>C37: the play button pulses on the first render and stops for good once the record has
  loaded: the load renders the screen again, line 11 binds the button to a new value, and
  the loop keeps animating the value of the first render, which nothing displays any more.\<close>

theorem home_pulse_stops_after_load:
  assumes "home_load now (home_mount, st) = Some (h, st')"
  shows "play_button_pulses home_mount \<and> \<not> play_button_pulses h \<and> h_pulsing h = Some 0"
proof -
  obtain d where "h = home_render (home_mount\<lparr>h_playerData := Some d\<rparr>)"
    using assms by (auto simp: home_load_result)
  moreover have "home_wf (home_mount\<lparr>h_playerData := Some d\<rparr>)" by (simp add: home_wf_mount)
  ultimately show ?thesis
    by (simp add: home_render_not_pulsing play_button_pulses_def home_render_def)
qed

theorem home_pulse_stops_after_load_witness:
  "home_load 1 (home_mount, three_done) = Some (home_render (home_mount\<lparr>h_playerData := playerDataCache three_done\<rparr>), three_done) \<and>
   play_button_pulses home_mount \<and> \<not> play_button_pulses (home_render (home_mount\<lparr>h_playerData := playerDataCache three_done\<rparr>))"
proof -
  have g: "getPlayerData 1 three_done = Some (the (playerDataCache three_done), three_done)"
    by (rule getPlayerData_cached) (simp_all add: three_done_def fresh_install_def CACHE_DURATION_def)
  have c: "playerDataCache three_done = Some (the (playerDataCache three_done))"
    by (simp add: three_done_def)
  have l: "home_load 1 (home_mount, three_done) = Some (home_render (home_mount\<lparr>h_playerData := playerDataCache three_done\<rparr>), three_done)"
    using g c by (simp add: home_load_def)
  show ?thesis using l home_pulse_stops_after_load [OF l] by simp
qed

end
