(* ===== verification/SettingsChat.thy ===== *)
theory SettingsChat
  imports Prelude
begin

text \<open>
  The settings and chat screens (src/project/app/(tabs)/settings.tsx and chat.tsx). Neither
  calls the store or the level module: each holds local React state and renders it. The
  state is a record, every control of the rendered screen is an event, and the screen
  after a sequence of events is the fold of its step function. Controls without an
  \<open>onPress\<close> are events that change nothing, as the code has them.
\<close>

subsection \<open>Settings\<close>

record settings_state =
  notifications :: bool
  darkMode :: bool

text \<open>Lines 6--7.\<close>

definition settings_init :: settings_state where
  "settings_init = \<lparr>notifications = True, darkMode = True\<rparr>"

text \<open>The controls of lines 19--63: the two switches call their setter with the new value;
  "Privacy \<open>&\<close> Security", "Help \<open>&\<close> Support" and "Log Out" are \<open>TouchableOpacity\<close>s
  without \<open>onPress\<close>.\<close>

datatype settings_event =
    SwitchNotifications bool
  | SwitchDarkMode bool
  | PressPrivacy
  | PressHelp
  | PressLogOut

fun settings_step :: "settings_state \<Rightarrow> settings_event \<Rightarrow> settings_state" where
  "settings_step s (SwitchNotifications v) = s\<lparr>notifications := v\<rparr>"
| "settings_step s (SwitchDarkMode v) = s\<lparr>darkMode := v\<rparr>"
| "settings_step s PressPrivacy = s"
| "settings_step s PressHelp = s"
| "settings_step s PressLogOut = s"

text \<open>The thumb colour of a switch (lines 23 and 36).\<close>

definition thumb_color :: "bool \<Rightarrow> string" where
  "thumb_color v = (if v then ''#fff'' else ''#f4f3f4'')"

subsection \<open>Chat\<close>

text \<open>Line 6: the text of the input field.\<close>

record chat_state =
  chat_message :: string

definition chat_init :: chat_state where
  "chat_init = \<lparr>chat_message = []\<rparr>"

text \<open>Lines 17--26: typing calls \<open>setMessage\<close> with the new text; the send button has no
  \<open>onPress\<close>.\<close>

datatype chat_event = ChangeText string | PressSend

fun chat_step :: "chat_state \<Rightarrow> chat_event \<Rightarrow> chat_state" where
  "chat_step s (ChangeText t) = s\<lparr>chat_message := t\<rparr>"
| "chat_step s PressSend = s"

text \<open>The rendered messages (lines 10--14): one fixed greeting, whatever the state.\<close>

definition chat_messages :: "chat_state \<Rightarrow> string list" where
  "chat_messages s = [''Hello! How can I help you today?'']"

text \<open>The text last typed in a sequence of events, if any.\<close>

fun last_typed :: "chat_event list \<Rightarrow> string option" where
  "last_typed [] = None"
| "last_typed (ChangeText t # evs) = (case last_typed evs of None \<Rightarrow> Some t | r \<Rightarrow> r)"
| "last_typed (PressSend # evs) = last_typed evs"

text \<open>The last value a switch was set to in a sequence of events, if any.\<close>

fun last_switch :: "(settings_event \<Rightarrow> bool option) \<Rightarrow> settings_event list \<Rightarrow> bool option" where
  "last_switch sel [] = None"
| "last_switch sel (e # evs) = (case last_switch sel evs of None \<Rightarrow> sel e | r \<Rightarrow> r)"

fun notifications_value :: "settings_event \<Rightarrow> bool option" where
  "notifications_value (SwitchNotifications v) = Some v"
| "notifications_value _ = None"

fun darkMode_value :: "settings_event \<Rightarrow> bool option" where
  "darkMode_value (SwitchDarkMode v) = Some v"
| "darkMode_value _ = None"

subsection \<open>Behaviour over event sequences\<close>

lemma settings_fold:
  "foldl settings_step s evs =
     \<lparr>notifications = (case last_switch notifications_value evs of None \<Rightarrow> notifications s | Some v \<Rightarrow> v),
      darkMode = (case last_switch darkMode_value evs of None \<Rightarrow> darkMode s | Some v \<Rightarrow> v)\<rparr>"
proof (induction evs arbitrary: s rule: rev_induct)
  case Nil
  then show ?case by simp
next
  case (snoc e evs)
  have "last_switch sel (evs @ [e]) = (case sel e of None \<Rightarrow> last_switch sel evs | r \<Rightarrow> r)" for sel
    by (induction evs) (auto split: option.splits)
  with snoc show ?case by (cases e) (simp_all split: option.splits)
qed

text \<open>The chat screen never shows anything but its greeting, and pressing send neither sends
  nor clears the text: the field holds the text last typed.\<close>

theorem chat_send_does_nothing:
  "chat_messages (foldl chat_step chat_init evs) = [''Hello! How can I help you today?''] \<and>
   chat_message (foldl chat_step chat_init evs) = (case last_typed evs of None \<Rightarrow> [] | Some t \<Rightarrow> t)"
proof -
  have "chat_message (foldl chat_step s evs) = (case last_typed evs of None \<Rightarrow> chat_message s | Some t \<Rightarrow> t)" for s
  proof (induction evs arbitrary: s rule: rev_induct)
    case (snoc e evs)
    have "last_typed (evs @ [e]) =
            (case e of ChangeText t \<Rightarrow> Some t | PressSend \<Rightarrow> last_typed evs)"
      by (induction evs rule: last_typed.induct) (auto split: option.splits chat_event.splits)
    with snoc show ?case by (cases e) (simp_all split: option.splits)
  qed simp
  then show ?thesis by (simp add: chat_messages_def chat_init_def split: option.split)
qed

end
