(* ===== verification/Spec2Isabelle.thy ===== *)
theory Spec2Isabelle
  imports GameScreen ProgressScreen ProfileScreen StoreSystem HomeScreen SettingsChat
begin

text \<open>
  \<^bold>\<open>JSON Quest: a verification development of the level generator, the progress
  store and the screens that use them.\<close>

  \<^bold>\<open>The program.\<close> JSON Quest (src/project) is a React Native quiz game. Its logic
  lives in two modules that the screens under src/project/app/(tabs) call:
  \<^item> the level generator, src/project/data/gameLevels.ts: ten hand-written levels
    (\<open>ORIGINAL_LEVELS\<close>), the class \<open>GameLevelGenerator\<close> that synthesises levels
    11--1000 from a seeded pseudo-random function and caches them
    (\<open>getLevel\<close>, \<open>generateLevel\<close>, \<open>preloadLevels\<close>), and the object
    \<open>GameLevels\<close> through which the screens index levels;
  \<^item> the progress store, src/project/utils/storage.ts: the class \<open>GameStorage\<close>
    that keeps one \<open>PlayerData\<close> record in AsyncStorage behind a five-second
    in-memory cache.
  The two modules do not call each other. The game screen (game.tsx) reads a level from
  the first and writes progress through the second; the progress and profile screens
  (progress.tsx, profile.tsx) read the record and derive what they display.

  \<^bold>\<open>Theories.\<close>
  \<^item> \<open>Prelude\<close>: the fragments of the JavaScript runtime the sources use
    (\<open>js_replace\<close> and \<open>js_replace_all\<close> for \<open>replace\<close> with a string and a global
    pattern, \<open>js_string_of_int\<close> and \<open>js_number_of_string\<close> for \<open>String(n)\<close> and
    \<open>Number(s)\<close>, \<open>js_index_of\<close>, \<open>js_swap\<close> for the destructuring swap, \<open>js_join\<close>,
    \<open>js_or\<close> for \<open>x || d\<close>, \<open>js_rem\<close> for \<open>%\<close>) with their lemmas, among them the round
    trip \<open>Number(String(i)) = i\<close>.
  \<^item> \<open>Lcg\<close>: the closure \<open>random\<close> of \<open>generateLevel\<close> (lines 84--85) as
    \<open>seed_of\<close>, \<open>lcg_draw\<close>, \<open>lcg_random\<close>.
  \<^item> \<open>Shuffle\<close>: the answer shuffle (lines 181--190) as \<open>shuffle_loop\<close>,
    \<open>shuffle_answers\<close>, \<open>correct_index\<close>.
  \<^item> \<open>LevelData\<close>: the \<open>GameLevel\<close> interface as the record \<open>game_level\<close>, the
    template and word tables (lines 1--68), and the level invariant \<open>wf_level\<close>.
  \<^item> \<open>Generator\<close>: \<open>generateLevel\<close> (lines 82--212) as \<open>select\<close> (the five
    selections), one definition per content tier (\<open>simple_content\<close>,
    \<open>nested_content\<close>, \<open>array_content\<close>, \<open>complex_content\<close>, dispatched by
    \<open>tier_content\<close>) and \<open>generateLevel\<close> itself.
  \<^item> \<open>LevelCache\<close>: the static \<open>Map\<close> as a partial map threaded through \<open>getLevel\<close>,
    and the preload loop as a terminating recursion (\<open>preload_loop\<close>, measure
    \<open>stop - i\<close>).
  \<^item> \<open>FixedLevels\<close>: the ten levels of lines 225--418 as constants \<open>level_1\<close> ...
    \<open>level_10\<close>.
  \<^item> \<open>GameLevels\<close>: the exported object (lines 421--448): the proxy trap \<open>proxy_get\<close>,
    the object spread \<open>copy_data_properties\<close>, index reads and the iterator; and
    \<open>spec_getLevel\<close>, the level contract of spec section 4.1.
  \<^item> \<open>PlayerData\<close>, \<open>Storage\<close>: the record, the module state and the AsyncStorage slot
    as \<open>store_state\<close> (arrays in a heap, so that the sharing of
    \<open>DEFAULT_PLAYER_DATA.achievements\<close> is visible); \<open>getPlayerData\<close> and
    \<open>savePlayerData\<close>, which call each other, as one \<open>partial_function (option)\<close>
    \<open>run_call\<close> where \<open>None\<close> is "never returns"; every other method of
    \<open>GameStorage\<close> as a definition over it. The unawaited \<open>setItem\<close> of a save is the
    queue \<open>pending\<close>; the awaited one of \<open>resetProgress\<close> is \<open>await_write\<close>.
  \<^item> \<open>StoreSystem\<close>: the store with its environment as a transition system
    \<open>store_step\<close>: one \<open>GameStorage\<close> method call that returns (\<open>run_op\<close> over the
    operations \<open>store_op\<close>), the completion of the oldest pending write, AsyncStorage
    starting or stopping to fail, and a restart of the process (\<open>restart\<close>: lines 17--30
    run again, only the durable slot survives); \<open>store_reach\<close> is its reachability.
  \<^item> \<open>GameScreen\<close>: the state variables of game.tsx as \<open>game_state\<close>, its handlers as
    functions, and the rendered screen as the step relation \<open>game_step\<close> with its
    reachable states \<open>game_reach\<close>. The screen reads levels through a \<open>level_lookup\<close>,
    instantiated with the exported object (\<open>real_lookup\<close>) and with the contract
    (\<open>intended_lookup\<close>), so that the screen's properties can be stated for both.
  \<^item> \<open>HomeScreen\<close>: the home screen (index.tsx) as \<open>home_state\<close>: the loaded record,
    the routes pushed by its two buttons, and the \<open>Animated.Value\<close>s its renders create
    (\<open>home_render\<close>, \<open>home_mount\<close>, \<open>home_load\<close>, \<open>home_stats\<close>).
  \<^item> \<open>SettingsChat\<close>: the settings and chat screens, whose state is local: their
    records, an event per control and a step function each.
  \<^item> \<open>JsNumber\<close>: binary64 numbers as integer pairs with round-to-nearest-even
    (\<open>fl_pos\<close>), division and multiplication by integers, \<open>Math.round\<close> and
    \<open>Math.floor\<close>, for every computation of the sources that divides: the generator's
    \<open>random\<close> and \<open>xpReward\<close>, the player level and skill count of the screens, and
    the progress percentage.
  \<^item> \<open>ProgressScreen\<close>, \<open>ProfileScreen\<close>: \<open>calculateAchievements\<close> with a
    table-driven reference, the player level, statistics, progress percentage
    (\<open>getProgressPercentage\<close>), milestone texts and the rendered achievement grid
    (\<open>achievements_grid\<close>); the profile's state, handlers, XP bar, rendered header
    (\<open>profile_render\<close>) and every control with its handler (\<open>profile_press\<close>).

  \<^bold>\<open>What is proved.\<close>
  \<^item> Levels: every generated level has four distinct answers and a correct index in
    \<open>[0, 4)\<close> pointing at the answer its tier computed (C1--C3); with the fixed levels,
    every id in \<open>[1, 1000]\<close> has such a level (C25). The shuffle reuses one seed, so
    the correct answer is never at index 2 (C3); all selections read one draw (C8--C11),
    and the draw's one floating-point step is exact (C5).
  \<^item> Cache: \<open>getLevel\<close> refines \<open>generateLevel\<close>, a second call is a hit
    (\<open>getLevel_idempotent\<close>), and \<open>preloadLevels\<close> adds exactly the ids of its
    range (C4, C6, C7).
  \<^item> \<open>GameLevels\<close>: the proxy trap implements the contract (C24), but the object spread
    copies none of it, so every \<open>GameLevels[i]\<close> is \<open>undefined\<close> (C23) and the game
    screen never shows a level (C33).
  \<^item> Store: on a fresh install \<open>getPlayerData\<close> and \<open>savePlayerData\<close> never return (C12)
    and no screen finishes loading (\<open>fresh_install_screens_hang\<close>); in every other state they return (C13). The
    functional behaviour of reads, saves, resets, unlocks and imports, the export/import
    round trip, and the consequences of the shared achievements array and the missing
    \<open>currentLevel <= levelsCompleted + 1\<close> clamp on saves (C14--C21). Composed with its
    environment, the store keeps its data well formed in every reachable state (C39: the
    cache in range, the slot and every pending write a complete record in range), and a
    restart before a save's write completes loses that save (C40, as spec section 5 accepts).
  \<^item> Screens: the game screen keeps every reachable level playable (C32), can always
    advance with the contract's levels (C34), saves progress as intended (C36), opens
    each story with the player's emoji (C35) and marks answers correctly; the
    achievement list equals its reference and has unique keys (C26--C28); the player
    level and XP bar stay in range (C29, C30); the profile's character change reverts
    progress saved meanwhile by another screen (C31). The progress percentage is the
    exact rounding of \<open>levelsCompleted / 10\<close> except at four inputs, where binary64
    rounding makes it one less (C38; the rounding itself is proved correct to half an ulp
    in \<open>JsNumber\<close>). The home screen's play button stops
    pulsing once the record loads (C37); the chat screen only ever shows its greeting
    (\<open>chat_send_does_nothing\<close>).

  \<^bold>\<open>Time and arithmetic.\<close> Each store operation takes the clock value \<open>now\<close> its
  \<open>Date.now()\<close> calls read; an operation is assumed to complete within one reading.
  Ids are \<open>nat\<close> and counters \<open>int\<close>. For ids up to 1000 every intermediate value of
  the generator's arithmetic is an integer below \<open>2^53\<close>, so JavaScript computes it
  exactly. The divisions are modelled in binary64 as the code computes them, and the
  lemmas relate them to integer arithmetic: \<open>lcg_random_exact\<close> proves that
  \<open>Math.floor(r / 233280 * max)\<close> is \<open>(r * max) div 233280\<close> for every \<open>r < 233280\<close>
  and every \<open>max\<close> the generator passes (2, 3, 5, 10, 50, 80), by the error bound where
  \<open>r * max / 233280\<close> is not an integer and by evaluating the 110 draws where it is;
  \<open>js_floor_divide\<close> proves \<open>Math.floor(a / d) = a div d\<close> for \<open>|a| \<le> 2^52\<close>, which
  covers \<open>xpReward\<close> (\<open>xpReward_generateLevel\<close>) and the player level (C29).

  \<^bold>\<open>Not modelled.\<close> The presentation layer (styles, layout, gradients, the timing
  curves of animations; navigation only as the list of pushed routes) of the screens;
  \<open>formatLastPlayed\<close> (locale formatting); the staleness of React
  \<open>useCallback\<close> closures; the preload effect of the game screen, which only warms the
  level cache; the third-party AsyncStorage module beyond its get/set contract.
\<close>

subsection \<open>The level contract over all ids\<close>

text \<open>C25: for every id in \<open>[1, 1000]\<close> the contract of spec section 4.1 yields a level with
  that id, four distinct answers and a correct index in \<open>[0, 4)\<close> (spec section 8, first
  property): the fixed levels for ids 1--10, the generator for the others.\<close>

theorem spec_getLevel_wf:
  assumes "1 \<le> lid" and "lid \<le> 1000"
  shows "\<exists>l. spec_getLevel lid = Some l \<and> wf_level l \<and> level_id l = lid"
  using assms by (rule spec_getLevel_some_wf)

theorem spec_getLevel_wf_witness:
  "1 \<le> (500::nat) \<and> (500::nat) \<le> 1000 \<and>
   (\<exists>l. spec_getLevel 500 = Some l \<and> wf_level l \<and> level_id l = 500)"
  using spec_getLevel_wf [of 500] by simp


subsection \<open>The screens on a fresh install\<close>

text \<open>On a fresh install (no cached record, an empty AsyncStorage slot) none of the
  four screens that read the record ever finishes loading: the game screen stays on
  "Loading...", the profile screen on "Loading profile...", the progress screen never
  computes its cards, and the home screen keeps showing level 1, 0 XP and 0 achievements,
  because each awaits \<open>getPlayerData\<close>, which never returns.\<close>

theorem fresh_install_screens_hang:
  "game_load now (game_init, fresh_install t) = None \<and>
   profile_load now (profile_init, fresh_install t) = None \<and>
   progress_load now (fresh_install t) = None \<and>
   home_load now (home_mount, fresh_install t) = None \<and>
   home_stats (fresh_install t) home_mount = (1, 0, 0)"
proof -
  have "getPlayerData now (fresh_install t) = None"
    unfolding getPlayerData_def by (rule run_call_hangs) (simp_all add: fresh_install_def)
  then show ?thesis by (simp add: game_load_def profile_load_def progress_load_def home_load_def)
qed

subsection \<open>The screens agree on a record\<close>

text \<open>Given the same record, the home, progress and profile screens show the same current
  level and total XP, and the progress and profile screens compute the same player level,
  although each screen has its own copy of these expressions.\<close>

theorem screens_show_same_record:
  "fst (home_stats st (h\<lparr>h_playerData := Some d\<rparr>)) = fst (progress_stats (Some d)) \<and>
   fst (snd (home_stats st (h\<lparr>h_playerData := Some d\<rparr>))) = fst (snd (progress_stats (Some d))) \<and>
   fst (profile_stats (Some (full_partial d))) = fst (snd (progress_stats (Some d))) \<and>
   fst (snd (snd (profile_stats (Some (full_partial d))))) = fst (progress_stats (Some d)) \<and>
   profile_getPlayerLevel (Some (full_partial d)) = getPlayerLevel (Some d)"
  by (simp add: home_stats_def progress_stats_def profile_stats_def pd_field_def full_partial_def
      profile_getPlayerLevel_def getPlayerLevel_def)

end
